theory Spec2Isabelle
  imports Complex_Main "HOL-Library.Char_ord" "HOL-Library.List_Lexorder" "HOL-Library.Log_Nat"
begin

section \<open>The rate limiter of the API client\<close>

text \<open>
  \<^verbatim>\<open>AsanaClient\<close> keeps two private fields, \<^verbatim>\<open>requestCount\<close> and \<^verbatim>\<open>resetTime\<close>
  (milliseconds since the epoch, as \<^verbatim>\<open>Date.now()\<close> returns them).
\<close>

record RateWindow =
  requestCount :: nat
  resetTime :: int

text \<open>The field initialisers: \<^verbatim>\<open>requestCount = 0\<close>, \<^verbatim>\<open>resetTime = Date.now() + 60000\<close>.\<close>

definition initialWindow :: "int \<Rightarrow> RateWindow" where
  "initialWindow t0 = \<lparr>requestCount = 0, resetTime = t0 + 60000\<rparr>"

text \<open>
  \<^verbatim>\<open>checkRateLimit\<close>. The clock is read once on entry (\<open>now\<close>) and once more after the
  timer has fired (\<open>woke\<close>); the second reading is used only on the path that suspends.
  The result is the new window together with the delay handed to \<^verbatim>\<open>setTimeout\<close>
  (\<open>None\<close> when the caller is not suspended).
\<close>

definition checkRateLimit :: "int \<Rightarrow> int \<Rightarrow> RateWindow \<Rightarrow> RateWindow \<times> int option" where
  "checkRateLimit now woke w =
     (let w1 = (if now > resetTime w
                then \<lparr>requestCount = 0, resetTime = now + 60000\<rparr> else w);
          (w2, slept) =
            (if requestCount w1 \<ge> 100
             then (let waitTime = resetTime w1 - now
                   in if waitTime > 0
                      then (\<lparr>requestCount = 0, resetTime = woke + 60000\<rparr>, Some waitTime)
                      else (w1, None))
             else (w1, None))
      in (w2\<lparr>requestCount := requestCount w2 + 1\<rparr>, slept))"

text \<open>
  A sequence of invocations, each given by its two clock readings; every client method
  runs \<^verbatim>\<open>checkRateLimit\<close> once before its outbound call.
\<close>

fun checkRateLimits :: "(int \<times> int) list \<Rightarrow> RateWindow \<Rightarrow> RateWindow" where
  "checkRateLimits [] w = w"
| "checkRateLimits ((now, woke) # cs) w = checkRateLimits cs (fst (checkRateLimit now woke w))"

section \<open>JavaScript values and runtime functions\<close>

text \<open>
  The objects the tools return, as JSON values. An object is the list of its fields in
  the order the source writes them. \<open>JNaN\<close> is the number \<^verbatim>\<open>NaN\<close>, \<open>JUndefined\<close> the
  value of an absent optional field.
\<close>

datatype json =
  JUndefined
| JBool bool
| JNum int
| JNaN
| JStr string
| JArr "json list"
| JObj "(string \<times> json) list"

text \<open>
  An error object with its \<^verbatim>\<open>name\<close> and its \<^verbatim>\<open>message\<close>; \<^verbatim>\<open>new Error(m)\<close> has the
  name \<^verbatim>\<open>Error\<close>. \<^verbatim>\<open>`${error}`\<close> is \<^verbatim>\<open>Error.prototype.toString\<close>: the message alone
  when the name is empty, the name alone when the message is empty, and otherwise both with
  a colon between them.
\<close>

datatype Error = Error string string

definition newError :: "string \<Rightarrow> Error" where
  "newError message = Error ''Error'' message"

fun errorString :: "Error \<Rightarrow> string" where
  "errorString (Error name message) =
     (if name = [] then message
      else if message = [] then name
      else name @ '': '' @ message)"

text \<open>
  An optional string field (\<^verbatim>\<open>string | undefined\<close>) used as a condition: absent and
  empty strings are falsy. \<open>orElse v d\<close> is \<^verbatim>\<open>v || d\<close>.
\<close>

definition truthy :: "string option \<Rightarrow> bool" where
  "truthy v = (case v of None \<Rightarrow> False | Some s \<Rightarrow> s \<noteq> [])"

definition orElse :: "string option \<Rightarrow> string \<Rightarrow> string" where
  "orElse v d = (case v of None \<Rightarrow> d | Some s \<Rightarrow> if s = [] then d else s)"

text \<open>A non-negative integer in a template string.\<close>

fun showNat :: "nat \<Rightarrow> string" where
  "showNat n =
     (if n < 10 then [char_of (48 + n)]
      else showNat (n div 10) @ [char_of (48 + n mod 10)])"

definition optStr :: "string option \<Rightarrow> json" where
  "optStr v = (case v of None \<Rightarrow> JUndefined | Some s \<Rightarrow> JStr s)"

definition dq :: string where
  "dq = [CHR 0x22]"

text \<open>
  \<^verbatim>\<open>s.includes(q)\<close>: whether \<open>q\<close> occurs in \<open>s\<close> as a substring.
\<close>

fun stringIncludes :: "string \<Rightarrow> string \<Rightarrow> bool" where
  "stringIncludes [] q = (q = [])"
| "stringIncludes (c # cs) q = (take (length q) (c # cs) = q \<or> stringIncludes cs q)"

text \<open>
  \<^verbatim>\<open>Array.prototype.sort\<close> with a comparator: the sort is stable, so for a consistent
  comparator its result is the one of a stable insertion sort.
\<close>

fun insertSorted :: "('a \<Rightarrow> 'a \<Rightarrow> int) \<Rightarrow> 'a \<Rightarrow> 'a list \<Rightarrow> 'a list" where
  "insertSorted cmp x [] = [x]"
| "insertSorted cmp x (y # ys) =
     (if cmp x y \<le> 0 then x # y # ys else y # insertSorted cmp x ys)"

definition arraySort :: "('a \<Rightarrow> 'a \<Rightarrow> int) \<Rightarrow> 'a list \<Rightarrow> 'a list" where
  "arraySort cmp xs = foldr (insertSorted cmp) xs []"

text \<open>
  \<^verbatim>\<open>xs.slice(0, end)\<close> for an integral \<open>end\<close>: a negative end counts from the end of
  the array.
\<close>

definition slice0 :: "'a list \<Rightarrow> int \<Rightarrow> 'a list" where
  "slice0 xs e =
     (let len = int (length xs);
          final = (if e < 0 then max (len + e) 0 else min e len)
      in take (nat final) xs)"

text \<open>
  Numbers are IEEE 754 doubles. \<open>roundDouble\<close> rounds a rational to the nearest double
  (53-bit significand, ties to even); the quotients and products below stay far inside the
  range of normal doubles. \<open>jsDiv\<close> and \<open>jsMul\<close> are \<^verbatim>\<open>/\<close> and \<^verbatim>\<open>*\<close>, and
  \<open>mathRound\<close> is \<^verbatim>\<open>Math.round\<close> (nearest integer, ties towards \<open>+\<infinity>\<close>).
\<close>

definition pow2 :: "int \<Rightarrow> rat" where
  "pow2 e = (if e \<ge> 0 then 2 ^ nat e else 1 / 2 ^ nat (- e))"

definition log2floor :: "rat \<Rightarrow> int" where
  "log2floor q =
     (let (n, d) = quotient_of q;
          k = bitlen n - bitlen d
      in if pow2 k \<le> q then k else k - 1)"

definition roundHalfEven :: "rat \<Rightarrow> int" where
  "roundHalfEven m =
     (let f = \<lfloor>m\<rfloor>; r = m - of_int f
      in if r < 1 / 2 then f else if r > 1 / 2 then f + 1 else if even f then f else f + 1)"

definition roundDouble :: "rat \<Rightarrow> rat" where
  "roundDouble q =
     (if q = 0 then 0
      else let a = \<bar>q\<bar>; e = log2floor a - 52
           in sgn q * of_int (roundHalfEven (a / pow2 e)) * pow2 e)"

definition jsDiv :: "rat \<Rightarrow> rat \<Rightarrow> rat" where
  "jsDiv a b = roundDouble (a / b)"

definition jsMul :: "rat \<Rightarrow> rat \<Rightarrow> rat" where
  "jsMul a b = roundDouble (a * b)"

definition mathRound :: "rat \<Rightarrow> int" where
  "mathRound x = \<lfloor>x + 1 / 2\<rfloor>"

text \<open>
  \<^verbatim>\<open>total > 0 ? Math.round((completed / total) * 100) : 0\<close>, the completion rate
  of the workload and project tools.
\<close>

definition completionRate :: "nat \<Rightarrow> nat \<Rightarrow> int" where
  "completionRate done n =
     (if n > 0 then mathRound (jsMul (jsDiv (of_nat done) (of_nat n)) 100) else 0)"

text \<open>
  What the tools take from the runtime and the clock: \<^verbatim>\<open>String.prototype.localeCompare\<close>,
  \<^verbatim>\<open>String.prototype.toLowerCase\<close>, \<^verbatim>\<open>new Date(s).getTime()\<close> (\<open>None\<close> for an invalid
  date, whose time is \<^verbatim>\<open>NaN\<close>), the reading \<^verbatim>\<open>today.getTime()\<close>,
  \<^verbatim>\<open>format(today, 'yyyy-MM-dd')\<close>, \<^verbatim>\<open>startOfDay(today).toISOString()\<close>,
  \<^verbatim>\<open>new Date().toISOString()\<close>, the formatted \<^verbatim>\<open>startOfWeek\<close> and \<^verbatim>\<open>endOfWeek\<close>
  of today, and the ISO string of today moved back by a number of days.
\<close>

record Runtime =
  localeCompare :: "string \<Rightarrow> string \<Rightarrow> int"
  toLowerCase :: "string \<Rightarrow> string"
  dateGetTime :: "string \<Rightarrow> int option"
  todayMs :: int
  todayStr :: string
  todayStart :: string
  nowIso :: string
  weekStartStr :: string
  weekEndStr :: string
  cutoffIso :: "int \<Rightarrow> string"

section \<open>The records of the vendor API\<close>

text \<open>
  The interfaces of \<^verbatim>\<open>types/asana.ts\<close>, with the fields the tools below read. Optional
  fields are options.
\<close>

record AsanaUser =
  user_gid :: string
  user_name :: string
  user_email :: "string option"

record AsanaProject =
  project_gid :: string
  project_name :: string

record AsanaSection =
  section_gid :: string
  section_name :: string

record NamedRef =
  ref_gid :: string
  ref_name :: string

record AsanaMembership =
  m_project :: "NamedRef option"
  m_section :: "NamedRef option"

record AsanaTask =
  task_gid :: string
  task_name :: string
  completed :: bool
  completed_at :: "string option"
  created_at :: string
  modified_at :: string
  due_on :: "string option"
  due_at :: "string option"
  assignee :: "AsanaUser option"
  memberships :: "AsanaMembership list option"

record AsanaStory =
  story_gid :: string
  story_created_at :: string
  created_by :: AsanaUser
  resource_subtype :: string
  old_due_on :: "string option"
  new_due_on :: "string option"

text \<open>The parameter object of \<^verbatim>\<open>getTasks\<close>.\<close>

record TaskQuery =
  q_project :: "string option"
  q_section :: "string option"
  q_assignee :: "string option"
  q_completed_since :: "string option"
  q_modified_since :: "string option"

definition noFilter :: TaskQuery where
  "noFilter = \<lparr>q_project = None, q_section = None, q_assignee = None,
                 q_completed_since = None, q_modified_since = None\<rparr>"

text \<open>
  The vendor SDK, as the answers it gives: each call returns the \<^verbatim>\<open>data\<close> of its
  response, or fails with the rendering of \<^verbatim>\<open>error.message || error\<close>.
\<close>

record VendorApi =
  tasksApi_getTasks :: "TaskQuery \<Rightarrow> string + AsanaTask list"
  tasksApi_getTask :: "string \<Rightarrow> string + AsanaTask"
  storiesApi_getStoriesForTask :: "string \<Rightarrow> string + AsanaStory list"
  sectionsApi_getSectionsForProject :: "string \<Rightarrow> string + AsanaSection list"
  tasksApi_getTasksForSection :: "string \<Rightarrow> string + AsanaTask list"
  usersApi_getUsersForWorkspace :: "string + AsanaUser list"
  usersApi_getUser :: "string + AsanaUser"
  projectsApi_getProjects :: "string + AsanaProject list"

section \<open>The API client\<close>

text \<open>
  Each method of \<^verbatim>\<open>AsanaClient\<close> runs \<^verbatim>\<open>checkRateLimit\<close>, which delays and never
  fails, makes one SDK call and rethrows a failure as an \<^verbatim>\<open>Error\<close> with its own prefix.
\<close>

definition rethrow :: "string \<Rightarrow> string + 'a \<Rightarrow> Error + 'a" where
  "rethrow prefix r = (case r of Inl m \<Rightarrow> Inl (newError (prefix @ m)) | Inr d \<Rightarrow> Inr d)"

definition getTasks :: "VendorApi \<Rightarrow> TaskQuery \<Rightarrow> Error + AsanaTask list" where
  "getTasks api params = rethrow ''Failed to fetch tasks: '' (tasksApi_getTasks api params)"

definition getTask :: "VendorApi \<Rightarrow> string \<Rightarrow> Error + AsanaTask" where
  "getTask api taskGid = rethrow ''Failed to fetch task: '' (tasksApi_getTask api taskGid)"

definition getTaskStories :: "VendorApi \<Rightarrow> string \<Rightarrow> Error + AsanaStory list" where
  "getTaskStories api taskGid =
     rethrow ''Failed to fetch task stories: '' (storiesApi_getStoriesForTask api taskGid)"

definition getProjectSections :: "VendorApi \<Rightarrow> string \<Rightarrow> Error + AsanaSection list" where
  "getProjectSections api projectGid =
     rethrow ''Failed to fetch project sections: '' (sectionsApi_getSectionsForProject api projectGid)"

definition getSectionTasks :: "VendorApi \<Rightarrow> string \<Rightarrow> Error + AsanaTask list" where
  "getSectionTasks api sectionGid =
     rethrow ''Failed to fetch section tasks: '' (tasksApi_getTasksForSection api sectionGid)"

definition getWorkspaceProjects :: "VendorApi \<Rightarrow> Error + AsanaProject list" where
  "getWorkspaceProjects api =
     rethrow ''Failed to fetch workspace projects: '' (projectsApi_getProjects api)"

definition getWorkspaceUsers :: "VendorApi \<Rightarrow> Error + AsanaUser list" where
  "getWorkspaceUsers api =
     rethrow ''Failed to fetch workspace users: '' (usersApi_getUsersForWorkspace api)"

definition getMe :: "VendorApi \<Rightarrow> Error + AsanaUser" where
  "getMe api = rethrow ''Failed to fetch current user: '' (usersApi_getUser api)"

text \<open>
  \<^verbatim>\<open>searchUsers\<close>: the workspace users whose lower-cased name, or whose lower-cased email
  when they have one, includes the lower-cased query.
\<close>

definition searchUsers :: "VendorApi \<Rightarrow> Runtime \<Rightarrow> string \<Rightarrow> Error + AsanaUser list" where
  "searchUsers api rt query =
     (case getWorkspaceUsers api of
        Inl e \<Rightarrow> Inl e
      | Inr allUsers \<Rightarrow>
          (let lowerQuery = toLowerCase rt query
           in Inr (filter (\<lambda>user. stringIncludes (toLowerCase rt (user_name user)) lowerQuery
                             \<or> (case user_email user of
                                   None \<Rightarrow> False
                                 | Some email \<Rightarrow> email \<noteq> []
                                     \<and> stringIncludes (toLowerCase rt email) lowerQuery))
                     allUsers)))"

text \<open>\<^verbatim>\<open>findProjectByName\<close>: the first project whose lower-cased name is the lower-cased query.\<close>

definition findProjectByName ::
    "VendorApi \<Rightarrow> Runtime \<Rightarrow> string \<Rightarrow> Error + AsanaProject option" where
  "findProjectByName api rt projectName =
     (case getWorkspaceProjects api of
        Inl e \<Rightarrow> Inl e
      | Inr projects \<Rightarrow>
          Inr (find (\<lambda>p. toLowerCase rt (project_name p) = toLowerCase rt projectName) projects))"

section \<open>Shared pieces of the tools\<close>

text \<open>
  \<^verbatim>\<open>task.assignee?.name || 'Unassigned'\<close>,
  \<^verbatim>\<open>task.memberships?.[0]?.project?.name || 'No project'\<close> and
  \<^verbatim>\<open>task.memberships?.[0]?.section?.name || 'No section'\<close>.
\<close>

definition assigneeName :: "AsanaTask \<Rightarrow> string" where
  "assigneeName t = orElse (map_option user_name (assignee t)) ''Unassigned''"

definition firstMembership :: "AsanaTask \<Rightarrow> AsanaMembership option" where
  "firstMembership t =
     (case memberships t of None \<Rightarrow> None | Some [] \<Rightarrow> None | Some (m # ms) \<Rightarrow> Some m)"

definition projectName :: "AsanaTask \<Rightarrow> string" where
  "projectName t =
     orElse (case firstMembership t of None \<Rightarrow> None
             | Some m \<Rightarrow> map_option ref_name (m_project m)) ''No project''"

definition sectionName :: "AsanaTask \<Rightarrow> string" where
  "sectionName t =
     orElse (case firstMembership t of None \<Rightarrow> None
             | Some m \<Rightarrow> map_option ref_name (m_section m)) ''No section''"

section \<open>The boundary of a tool\<close>

text \<open>
  The \<^verbatim>\<open>execute\<close> function of every tool on the API client is one
  \<^verbatim>\<open>try { ... } catch (error) { return { error: `...: ${error}`, ... } }\<close>. The tools
  are named after their \<^verbatim>\<open>name\<close> field; \<^verbatim>\<open>get_tasks_assigned_to\<close> carries the
  \<^verbatim>\<open>assignee\<close> parameter, which its message interpolates.
\<close>

datatype Tool =
  Get_tasks_completed_today
| Get_tasks_updated_today
| Get_tasks_due_today
| Get_overdue_tasks
| Get_unassigned_tasks
| Get_tasks_without_due_dates
| Search_tasks_by_name
| Get_workspace_users
| Get_me
| Search_users
| Get_tasks_assigned_to string
| Get_weekly_planned_tasks
| Get_team_workload
| Get_overdue_tasks_by_person
| Get_project_status
| Get_section_with_most_work
| List_all_projects
| Get_task_due_date_changes
| Get_most_postponed_tasks
| Get_recent_due_date_changes

text \<open>The text before \<^verbatim>\<open>${error}\<close> in the \<^verbatim>\<open>error\<close> field of each catch block.\<close>

fun errorPrefix :: "Tool \<Rightarrow> string" where
  "errorPrefix Get_tasks_completed_today = ''Failed to fetch completed tasks: ''"
| "errorPrefix Get_tasks_updated_today = ''Failed to fetch updated tasks: ''"
| "errorPrefix Get_tasks_due_today = ''Failed to fetch tasks due today: ''"
| "errorPrefix Get_overdue_tasks = ''Failed to fetch overdue tasks: ''"
| "errorPrefix Get_unassigned_tasks = ''Failed to fetch unassigned tasks: ''"
| "errorPrefix Get_tasks_without_due_dates = ''Failed to fetch tasks without due dates: ''"
| "errorPrefix Search_tasks_by_name = ''Failed to search tasks: ''"
| "errorPrefix Get_workspace_users = ''Failed to fetch workspace users: ''"
| "errorPrefix Get_me = ''Failed to fetch current user: ''"
| "errorPrefix Search_users = ''Failed to search users: ''"
| "errorPrefix (Get_tasks_assigned_to who) = ''Failed to fetch tasks for user '' @ who @ '': ''"
| "errorPrefix Get_weekly_planned_tasks = ''Failed to fetch weekly tasks: ''"
| "errorPrefix Get_team_workload = ''Failed to analyze team workload: ''"
| "errorPrefix Get_overdue_tasks_by_person = ''Failed to fetch overdue tasks: ''"
| "errorPrefix Get_project_status = ''Failed to analyze project status: ''"
| "errorPrefix Get_section_with_most_work = ''Failed to analyze section workload: ''"
| "errorPrefix List_all_projects = ''Failed to list projects: ''"
| "errorPrefix Get_task_due_date_changes = ''Failed to fetch due date changes: ''"
| "errorPrefix Get_most_postponed_tasks = ''Failed to analyze postponed tasks: ''"
| "errorPrefix Get_recent_due_date_changes = ''Failed to fetch recent due date changes: ''"

text \<open>The fields after \<^verbatim>\<open>error\<close> in the object each catch block returns.\<close>

fun errorExtras :: "Tool \<Rightarrow> (string \<times> json) list" where
  "errorExtras Get_tasks_completed_today = [(''count'', JNum 0), (''tasks'', JArr [])]"
| "errorExtras Get_tasks_updated_today = [(''count'', JNum 0), (''tasks'', JArr [])]"
| "errorExtras Get_tasks_due_today = [(''count'', JNum 0), (''tasks'', JArr [])]"
| "errorExtras Get_overdue_tasks = [(''count'', JNum 0), (''tasks'', JArr [])]"
| "errorExtras Get_unassigned_tasks = [(''count'', JNum 0), (''tasks'', JArr [])]"
| "errorExtras Get_tasks_without_due_dates = [(''count'', JNum 0), (''tasks'', JArr [])]"
| "errorExtras Search_tasks_by_name = [(''count'', JNum 0), (''tasks'', JArr [])]"
| "errorExtras Get_workspace_users = [(''count'', JNum 0), (''users'', JArr [])]"
| "errorExtras Get_me = []"
| "errorExtras Search_users = [(''count'', JNum 0), (''users'', JArr [])]"
| "errorExtras (Get_tasks_assigned_to who) = [(''count'', JNum 0), (''tasks'', JArr [])]"
| "errorExtras Get_weekly_planned_tasks = [(''count'', JNum 0), (''tasks'', JArr [])]"
| "errorExtras Get_team_workload = [(''teamMembers'', JNum 0), (''workload'', JArr [])]"
| "errorExtras Get_overdue_tasks_by_person = [(''totalOverdue'', JNum 0), (''byPerson'', JArr [])]"
| "errorExtras Get_project_status = []"
| "errorExtras Get_section_with_most_work = []"
| "errorExtras List_all_projects = [(''count'', JNum 0), (''projects'', JArr [])]"
| "errorExtras Get_task_due_date_changes = [(''changeCount'', JNum 0), (''changes'', JArr [])]"
| "errorExtras Get_most_postponed_tasks = [(''tasks'', JArr [])]"
| "errorExtras Get_recent_due_date_changes = [(''tasks'', JArr [])]"

definition onError :: "Tool \<Rightarrow> Error \<Rightarrow> json" where
  "onError tool e = JObj ((''error'', JStr (errorPrefix tool @ errorString e)) # errorExtras tool)"

text \<open>
  The \<^verbatim>\<open>try\<close>/\<^verbatim>\<open>catch\<close> of a tool around the outcome of its body: \<open>Inr\<close> is the
  object the body returns, \<open>Inl\<close> an error thrown in it.
\<close>

definition toolBoundary :: "Tool \<Rightarrow> Error + json \<Rightarrow> json" where
  "toolBoundary tool outcome = (case outcome of Inr result \<Rightarrow> result | Inl e \<Rightarrow> onError tool e)"

section \<open>The tool \<^verbatim>\<open>get_tasks_completed_today\<close>\<close>

definition completedTodayFilter :: "string \<Rightarrow> AsanaTask \<Rightarrow> bool" where
  "completedTodayFilter start t =
     (completed t \<and>
      (case completed_at t of None \<Rightarrow> False | Some c \<Rightarrow> c \<noteq> [] \<and> c \<ge> start))"

definition formatCompleted :: "AsanaTask \<Rightarrow> json" where
  "formatCompleted t =
     JObj [(''name'', JStr (task_name t)),
           (''gid'', JStr (task_gid t)),
           (''completedAt'', optStr (completed_at t)),
           (''assignee'', JStr (assigneeName t)),
           (''project'', JStr (projectName t)),
           (''section'', JStr (sectionName t))]"

text \<open>The body of the \<^verbatim>\<open>try\<close> block; \<open>Inl\<close> is an exception leaving it.\<close>

definition getTasksCompletedToday_try ::
    "VendorApi \<Rightarrow> Runtime \<Rightarrow> string option \<Rightarrow> Error + json" where
  "getTasksCompletedToday_try api rt byAssignee =
     (case getTasks api (noFilter\<lparr>q_completed_since := Some (todayStart rt),
                                   q_assignee := byAssignee\<rparr>) of
        Inl e \<Rightarrow> Inl e
      | Inr tasks \<Rightarrow>
          (let completedToday = filter (completedTodayFilter (todayStart rt)) tasks
           in if length completedToday = 0
              then Inr (JObj [(''message'', JStr ''No tasks were completed today.''),
                              (''count'', JNum 0),
                              (''tasks'', JArr [])])
              else Inr (JObj [(''message'', JStr (showNat (length completedToday)
                                                    @ '' task(s) completed today.'')),
                              (''count'', JNum (int (length completedToday))),
                              (''tasks'', JArr (map formatCompleted completedToday)),
                              (''date'', JStr (todayStr rt))])))"

definition getTasksCompletedToday :: "VendorApi \<Rightarrow> Runtime \<Rightarrow> string option \<Rightarrow> json" where
  "getTasksCompletedToday api rt byAssignee =
     toolBoundary Get_tasks_completed_today (getTasksCompletedToday_try api rt byAssignee)"

section \<open>The tool \<^verbatim>\<open>get_overdue_tasks\<close>\<close>

definition isOverdue :: "string \<Rightarrow> AsanaTask \<Rightarrow> bool" where
  "isOverdue today t =
     (\<not> completed t \<and>
      (case due_on t of None \<Rightarrow> False | Some d \<Rightarrow> d \<noteq> [] \<and> d < today))"

text \<open>The comparator handed to \<^verbatim>\<open>sort\<close>.\<close>

definition compareDueOn :: "Runtime \<Rightarrow> AsanaTask \<Rightarrow> AsanaTask \<Rightarrow> int" where
  "compareDueOn rt a b =
     (case (due_on a, due_on b) of
        (Some x, Some y) \<Rightarrow> if x = [] \<or> y = [] then 0 else localeCompare rt x y
      | _ \<Rightarrow> 0)"

text \<open>
  \<^verbatim>\<open>Math.floor((today.getTime() - new Date(dueDate).getTime()) / 86400000)\<close>: both
  times are integers below \<open>2^53\<close>, where the floor of the double quotient is the floor
  of the exact one.
\<close>

definition daysOverdue :: "Runtime \<Rightarrow> string option \<Rightarrow> json" where
  "daysOverdue rt dueDate =
     (case dueDate of
        None \<Rightarrow> JNaN
      | Some d \<Rightarrow>
          (case dateGetTime rt d of
             None \<Rightarrow> JNaN
           | Some ms \<Rightarrow> JNum ((todayMs rt - ms) div (1000 * 60 * 60 * 24))))"

definition formatOverdue :: "Runtime \<Rightarrow> AsanaTask \<Rightarrow> json" where
  "formatOverdue rt t =
     (let dueDate = due_on t
      in JObj [(''name'', JStr (task_name t)),
               (''gid'', JStr (task_gid t)),
               (''dueOn'', optStr dueDate),
               (''daysOverdue'', daysOverdue rt dueDate),
               (''assignee'', JStr (assigneeName t)),
               (''project'', JStr (projectName t)),
               (''section'', JStr (sectionName t))])"

text \<open>The filtered and sorted array \<^verbatim>\<open>overdueTasks\<close>.\<close>

definition overdueTasks :: "Runtime \<Rightarrow> AsanaTask list \<Rightarrow> AsanaTask list" where
  "overdueTasks rt tasks = arraySort (compareDueOn rt) (filter (isOverdue (todayStr rt)) tasks)"

definition getOverdueTasks_try ::
    "VendorApi \<Rightarrow> Runtime \<Rightarrow> string option \<Rightarrow> Error + json" where
  "getOverdueTasks_try api rt byAssignee =
     (case getTasks api (noFilter\<lparr>q_assignee := byAssignee\<rparr>) of
        Inl e \<Rightarrow> Inl e
      | Inr tasks \<Rightarrow>
          (if length (filter (isOverdue (todayStr rt)) tasks) = 0
           then Inr (JObj [(''message'', JStr ''No overdue tasks found.''),
                           (''count'', JNum 0),
                           (''tasks'', JArr [])])
           else Inr (JObj [(''message'', JStr (showNat (length (overdueTasks rt tasks))
                                                 @ '' overdue task(s) found.'')),
                           (''count'', JNum (int (length (overdueTasks rt tasks)))),
                           (''tasks'', JArr (map (formatOverdue rt) (overdueTasks rt tasks)))])))"

definition getOverdueTasks :: "VendorApi \<Rightarrow> Runtime \<Rightarrow> string option \<Rightarrow> json" where
  "getOverdueTasks api rt byAssignee =
     toolBoundary Get_overdue_tasks (getOverdueTasks_try api rt byAssignee)"

section \<open>The tool \<^verbatim>\<open>get_team_workload\<close>\<close>

record UserWorkload =
  wl_user :: AsanaUser
  totalTasks :: nat
  completedTasks :: nat
  overdueTasks_n :: nat
  upcomingTasks :: nat

text \<open>\<^verbatim>\<open>task.assignee?.gid || 'unassigned'\<close>, the key of a task in the workload map.\<close>

definition assigneeGid :: "AsanaTask \<Rightarrow> string" where
  "assigneeGid t = orElse (map_option user_gid (assignee t)) ''unassigned''"

definition unassignedUser :: AsanaUser where
  "unassignedUser = \<lparr>user_gid = ''unassigned'', user_name = ''Unassigned'', user_email = None\<rparr>"

text \<open>
  The \<^verbatim>\<open>Map\<close> from assignee id to workload is the list of its entries in insertion
  order. \<open>mapAdjust\<close> is the in-place update of the object \<^verbatim>\<open>get\<close> returns.
\<close>

fun mapAdjust :: "string \<Rightarrow> ('v \<Rightarrow> 'v) \<Rightarrow> (string \<times> 'v) list \<Rightarrow> (string \<times> 'v) list" where
  "mapAdjust k f [] = []"
| "mapAdjust k f ((k', v) # m) = (if k' = k then (k', f v) # m else (k', v) # mapAdjust k f m)"

definition tally :: "string \<Rightarrow> AsanaTask \<Rightarrow> UserWorkload \<Rightarrow> UserWorkload" where
  "tally today t w =
     (let w1 = w\<lparr>totalTasks := totalTasks w + 1\<rparr>;
          w2 = (if completed t then w1\<lparr>completedTasks := completedTasks w1 + 1\<rparr> else w1)
      in case due_on t of
           None \<Rightarrow> w2
         | Some d \<Rightarrow>
             if d \<noteq> [] \<and> \<not> completed t
             then (if d < today then w2\<lparr>overdueTasks_n := overdueTasks_n w2 + 1\<rparr>
                   else w2\<lparr>upcomingTasks := upcomingTasks w2 + 1\<rparr>)
             else w2)"

text \<open>The entry \<^verbatim>\<open>workloadMap.set\<close> stores for an assignee seen for the first time.\<close>

definition newBucket :: "AsanaTask \<Rightarrow> UserWorkload" where
  "newBucket t = \<lparr>wl_user = (case assignee t of Some u \<Rightarrow> u | None \<Rightarrow> unassignedUser),
                   totalTasks = 0, completedTasks = 0, overdueTasks_n = 0, upcomingTasks = 0\<rparr>"

text \<open>The body of \<^verbatim>\<open>tasks.forEach\<close>.\<close>

definition workloadStep ::
    "bool \<Rightarrow> string \<Rightarrow> (string \<times> UserWorkload) list \<Rightarrow> AsanaTask \<Rightarrow> (string \<times> UserWorkload) list" where
  "workloadStep includeCompleted today m t =
     (if \<not> includeCompleted \<and> completed t then m
      else let g = assigneeGid t;
               m1 = (if map_of m g = None
                     then m @ [(g, newBucket t)]
                     else m)
           in mapAdjust g (tally today t) m1)"

definition workloadMap :: "bool \<Rightarrow> string \<Rightarrow> AsanaTask list \<Rightarrow> (string \<times> UserWorkload) list" where
  "workloadMap includeCompleted today tasks = foldl (workloadStep includeCompleted today) [] tasks"

text \<open>\<^verbatim>\<open>Array.from(workloadMap.values()).sort((a, b) => b.totalTasks - a.totalTasks)\<close>.\<close>

definition workloadArray :: "bool \<Rightarrow> string \<Rightarrow> AsanaTask list \<Rightarrow> UserWorkload list" where
  "workloadArray includeCompleted today tasks =
     arraySort (\<lambda>a b. int (totalTasks b) - int (totalTasks a))
       (map snd (workloadMap includeCompleted today tasks))"

definition workloadSummary :: "UserWorkload \<Rightarrow> json" where
  "workloadSummary w =
     JObj [(''user'', JStr (user_name (wl_user w))),
           (''userGid'', JStr (user_gid (wl_user w))),
           (''totalTasks'', JNum (int (totalTasks w))),
           (''completedTasks'', JNum (int (completedTasks w))),
           (''overdueTasks'', JNum (int (overdueTasks_n w))),
           (''upcomingTasks'', JNum (int (upcomingTasks w))),
           (''completionRate'', JNum (completionRate (completedTasks w) (totalTasks w)))]"

definition getTeamWorkload_try :: "VendorApi \<Rightarrow> Runtime \<Rightarrow> bool \<Rightarrow> Error + json" where
  "getTeamWorkload_try api rt includeCompleted =
     (case getTasks api noFilter of
        Inl e \<Rightarrow> Inl e
      | Inr tasks \<Rightarrow>
          (let ws = workloadArray includeCompleted (todayStr rt) tasks
           in if length ws = 0
              then Inr (JObj [(''message'', JStr ''No tasks found for workload analysis.''),
                              (''teamMembers'', JNum 0),
                              (''workload'', JArr [])])
              else Inr (JObj [(''message'', JStr (''Workload analysis for '' @ showNat (length ws)
                                                    @ '' team member(s).'')),
                              (''teamMembers'', JNum (int (length ws))),
                              (''totalTasks'', JNum (int (foldl (\<lambda>n w. n + totalTasks w) 0 ws))),
                              (''workload'', JArr (map workloadSummary ws))])))"

definition getTeamWorkload :: "VendorApi \<Rightarrow> Runtime \<Rightarrow> bool \<Rightarrow> json" where
  "getTeamWorkload api rt includeCompleted =
     toolBoundary Get_team_workload (getTeamWorkload_try api rt includeCompleted)"

section \<open>The tool \<^verbatim>\<open>get_project_status\<close>\<close>

record SectionStatus =
  ss_section :: AsanaSection
  ss_totalTasks :: nat
  ss_completedTasks :: nat
  ss_completionRate :: int

text \<open>The loop over the sections; a failing fetch leaves the loop as an exception.\<close>

fun sectionStatuses :: "VendorApi \<Rightarrow> AsanaSection list \<Rightarrow> Error + SectionStatus list" where
  "sectionStatuses api [] = Inr []"
| "sectionStatuses api (s # ss) =
     (case getSectionTasks api (section_gid s) of
        Inl e \<Rightarrow> Inl e
      | Inr tasks \<Rightarrow>
          (let done = length (filter completed tasks);
               st = \<lparr>ss_section = s, ss_totalTasks = length tasks, ss_completedTasks = done,
                     ss_completionRate = completionRate done (length tasks)\<rparr>
           in case sectionStatuses api ss of
                Inl e \<Rightarrow> Inl e
              | Inr rest \<Rightarrow> Inr (st # rest)))"

record SectionRow =
  row_name :: string
  row_totalTasks :: nat
  row_completedTasks :: nat
  row_incompleteTasks :: int
  row_completionRate :: int

definition sectionRow :: "SectionStatus \<Rightarrow> SectionRow" where
  "sectionRow s =
     \<lparr>row_name = section_name (ss_section s),
      row_totalTasks = ss_totalTasks s,
      row_completedTasks = ss_completedTasks s,
      row_incompleteTasks = int (ss_totalTasks s) - int (ss_completedTasks s),
      row_completionRate = ss_completionRate s\<rparr>"

definition sectionRowJson :: "SectionRow \<Rightarrow> json" where
  "sectionRowJson r =
     JObj [(''name'', JStr (row_name r)),
           (''totalTasks'', JNum (int (row_totalTasks r))),
           (''completedTasks'', JNum (int (row_completedTasks r))),
           (''incompleteTasks'', JNum (row_incompleteTasks r)),
           (''completionRate'', JNum (row_completionRate r))]"

definition showInt :: "int \<Rightarrow> string" where
  "showInt i = (if i < 0 then ''-'' @ showNat (nat (- i)) else showNat (nat i))"

definition projectStatusResult :: "AsanaProject \<Rightarrow> AsanaSection list \<Rightarrow> SectionStatus list \<Rightarrow> json" where
  "projectStatusResult project sections sts =
     (let tot = foldl (\<lambda>n s. n + ss_totalTasks s) 0 sts;
          done = foldl (\<lambda>n s. n + ss_completedTasks s) 0 sts;
          rate = completionRate done tot;
          sortedSections =
            arraySort (\<lambda>a b. row_incompleteTasks b - row_incompleteTasks a) (map sectionRow sts)
      in JObj [(''message'', JStr (''Project '' @ dq @ project_name project @ dq @ '' has ''
                                    @ showNat tot @ '' total tasks ('' @ showInt rate
                                    @ ''% complete).'')),
               (''projectName'', JStr (project_name project)),
               (''projectGid'', JStr (project_gid project)),
               (''totalTasks'', JNum (int tot)),
               (''completedTasks'', JNum (int done)),
               (''incompleteTasks'', JNum (int tot - int done)),
               (''completionRate'', JNum rate),
               (''sectionCount'', JNum (int (length sections))),
               (''sections'', JArr (map sectionRowJson sortedSections))])"

definition getProjectStatus_try :: "VendorApi \<Rightarrow> Runtime \<Rightarrow> string \<Rightarrow> Error + json" where
  "getProjectStatus_try api rt projectName' =
     (case findProjectByName api rt projectName' of
        Inl e \<Rightarrow> Inl e
      | Inr None \<Rightarrow>
          Inr (JObj [(''error'', JStr (''Project '' @ dq @ projectName' @ dq @ '' not found.'')),
                     (''suggestions'',
                      JStr ''Try listing all projects first to find the exact name.'')])
      | Inr (Some project) \<Rightarrow>
          (case getProjectSections api (project_gid project) of
             Inl e \<Rightarrow> Inl e
           | Inr sections \<Rightarrow>
               (case sectionStatuses api sections of
                  Inl e \<Rightarrow> Inl e
                | Inr sts \<Rightarrow> Inr (projectStatusResult project sections sts))))"

definition getProjectStatus :: "VendorApi \<Rightarrow> Runtime \<Rightarrow> string \<Rightarrow> json" where
  "getProjectStatus api rt projectName' =
     toolBoundary Get_project_status (getProjectStatus_try api rt projectName')"

section \<open>The due-date tracking tools\<close>

text \<open>
  The predicate both tools filter the stories with:
  \<^verbatim>\<open>story.resource_subtype === 'due_date_changed' ||
  (story.new_due_on && story.old_due_on && story.new_due_on !== story.old_due_on)\<close>.
\<close>

definition isDueDateChange :: "AsanaStory \<Rightarrow> bool" where
  "isDueDateChange story =
     (resource_subtype story = ''due_date_changed'' \<or>
      (truthy (new_due_on story) \<and> truthy (old_due_on story) \<and> new_due_on story \<noteq> old_due_on story))"

subsection \<open>\<^verbatim>\<open>get_task_due_date_changes\<close>\<close>

definition changeJson :: "AsanaStory \<Rightarrow> json" where
  "changeJson story =
     JObj [(''date'', JStr (story_created_at story)),
           (''oldDueDate'', JStr (orElse (old_due_on story) ''No due date'')),
           (''newDueDate'', JStr (orElse (new_due_on story) ''Removed'')),
           (''changedBy'', JStr (user_name (created_by story)))]"

definition getTaskDueDateChanges_try :: "VendorApi \<Rightarrow> string \<Rightarrow> Error + json" where
  "getTaskDueDateChanges_try api taskGid =
     (case getTask api taskGid of
        Inl e \<Rightarrow> Inl e
      | Inr task \<Rightarrow>
          (case getTaskStories api taskGid of
             Inl e \<Rightarrow> Inl e
           | Inr stories \<Rightarrow>
               (let dueDateChanges = filter isDueDateChange stories
                in if length dueDateChanges = 0
                   then Inr (JObj [(''message'', JStr (''Task '' @ dq @ task_name task @ dq
                                                         @ '' has no due date changes recorded.'')),
                                   (''taskName'', JStr (task_name task)),
                                   (''taskGid'', JStr (task_gid task)),
                                   (''currentDueDate'', JStr (orElse (due_on task) ''No due date'')),
                                   (''changeCount'', JNum 0),
                                   (''changes'', JArr [])])
                   else Inr (JObj [(''message'', JStr (''Task '' @ dq @ task_name task @ dq
                                                         @ '' has had its due date changed ''
                                                         @ showNat (length dueDateChanges)
                                                         @ '' time(s).'')),
                                   (''taskName'', JStr (task_name task)),
                                   (''taskGid'', JStr (task_gid task)),
                                   (''currentDueDate'', JStr (orElse (due_on task) ''No due date'')),
                                   (''changeCount'', JNum (int (length dueDateChanges))),
                                   (''changes'', JArr (map changeJson dueDateChanges))]))))"

definition getTaskDueDateChanges :: "VendorApi \<Rightarrow> string \<Rightarrow> json" where
  "getTaskDueDateChanges api taskGid =
     toolBoundary Get_task_due_date_changes (getTaskDueDateChanges_try api taskGid)"

subsection \<open>\<^verbatim>\<open>get_most_postponed_tasks\<close>\<close>

record Change =
  ch_date :: string
  ch_oldDueDate :: "string option"
  ch_newDueDate :: "string option"
  ch_changedBy :: AsanaUser

record DueDateChange =
  dc_task :: AsanaTask
  dc_changes :: "Change list"
  changeCount :: nat

definition changeOf :: "AsanaStory \<Rightarrow> Change" where
  "changeOf story = \<lparr>ch_date = story_created_at story, ch_oldDueDate = old_due_on story,
                     ch_newDueDate = new_due_on story, ch_changedBy = created_by story\<rparr>"

text \<open>
  The loop over the incomplete tasks. The inner \<^verbatim>\<open>try\<close> catches a failing history
  fetch, logs it and goes on with the next task.
\<close>

fun tasksWithChanges :: "VendorApi \<Rightarrow> AsanaTask list \<Rightarrow> DueDateChange list" where
  "tasksWithChanges api [] = []"
| "tasksWithChanges api (t # ts) =
     (case getTaskStories api (task_gid t) of
        Inl e \<Rightarrow> tasksWithChanges api ts
      | Inr stories \<Rightarrow>
          (let dueDateChanges = filter isDueDateChange stories
           in if length dueDateChanges > 0
              then \<lparr>dc_task = t, dc_changes = map changeOf dueDateChanges,
                    changeCount = length dueDateChanges\<rparr> # tasksWithChanges api ts
              else tasksWithChanges api ts))"

text \<open>Whether the history fetch of a task succeeds.\<close>

definition historyFetched :: "VendorApi \<Rightarrow> AsanaTask \<Rightarrow> bool" where
  "historyFetched api t = (case getTaskStories api (task_gid t) of Inl e \<Rightarrow> False | Inr stories \<Rightarrow> True)"

text \<open>\<^verbatim>\<open>tasksWithChanges.sort((a, b) => b.changeCount - a.changeCount)\<close>.\<close>

definition sortedByChanges :: "VendorApi \<Rightarrow> AsanaTask list \<Rightarrow> DueDateChange list" where
  "sortedByChanges api ts =
     arraySort (\<lambda>a b. int (changeCount b) - int (changeCount a)) (tasksWithChanges api ts)"

definition topPostponed :: "VendorApi \<Rightarrow> int \<Rightarrow> AsanaTask list \<Rightarrow> DueDateChange list" where
  "topPostponed api limit ts = slice0 (sortedByChanges api ts) limit"

definition postponedJson :: "DueDateChange \<Rightarrow> json" where
  "postponedJson item =
     JObj [(''taskName'', JStr (task_name (dc_task item))),
           (''taskGid'', JStr (task_gid (dc_task item))),
           (''currentDueDate'', optStr (due_on (dc_task item))),
           (''assignee'', JStr (assigneeName (dc_task item))),
           (''project'', JStr (projectName (dc_task item))),
           (''postponeCount'', JNum (int (changeCount item))),
           (''lastChange'', (case dc_changes item of [] \<Rightarrow> JUndefined
                            | c # cs \<Rightarrow> JStr (ch_date c)))]"

definition incompleteWithDue :: "AsanaTask list \<Rightarrow> AsanaTask list" where
  "incompleteWithDue tasks = filter (\<lambda>t. \<not> completed t \<and> truthy (due_on t)) tasks"

text \<open>
  The \<open>limit\<close> parameter is a number of the schema \<^verbatim>\<open>z.number().optional().default(10)\<close>;
  the integers are modelled.
\<close>

definition getMostPostponedTasks_try :: "VendorApi \<Rightarrow> int \<Rightarrow> Error + json" where
  "getMostPostponedTasks_try api limit =
     (case getTasks api noFilter of
        Inl e \<Rightarrow> Inl e
      | Inr tasks \<Rightarrow>
          (let incompleteTasks = incompleteWithDue tasks
           in if length incompleteTasks = 0
              then Inr (JObj [(''message'', JStr ''No incomplete tasks with due dates found.''),
                              (''tasks'', JArr [])])
              else if length (tasksWithChanges api incompleteTasks) = 0
              then Inr (JObj [(''message'', JStr ''No tasks with due date changes found.''),
                              (''tasks'', JArr [])])
              else Inr (JObj [(''message'',
                                 JStr (''Found '' @ showNat (length (sortedByChanges api incompleteTasks))
                                       @ '' task(s) with due date changes. Showing top ''
                                       @ showNat (length (topPostponed api limit incompleteTasks))
                                       @ ''.'')),
                              (''totalTasksWithChanges'',
                                 JNum (int (length (sortedByChanges api incompleteTasks)))),
                              (''tasks'',
                                 JArr (map postponedJson (topPostponed api limit incompleteTasks)))])))"

definition getMostPostponedTasks :: "VendorApi \<Rightarrow> int \<Rightarrow> json" where
  "getMostPostponedTasks api limit =
     toolBoundary Get_most_postponed_tasks (getMostPostponedTasks_try api limit)"

subsection \<open>\<^verbatim>\<open>get_recent_due_date_changes\<close>\<close>

record RecentChange =
  rc_taskName :: string
  rc_taskGid :: string
  rc_assignee :: string
  rc_project :: string
  rc_oldDueDate :: string
  rc_newDueDate :: string
  rc_changedBy :: string
  rc_changedAt :: string

text \<open>
  The loop over the recently modified tasks, with its inner \<^verbatim>\<open>try\<close>: a failing history
  fetch is logged and the task skipped. A task with recent due-date changes contributes
  the first of them.
\<close>

fun recentChanges :: "VendorApi \<Rightarrow> string \<Rightarrow> AsanaTask list \<Rightarrow> RecentChange list" where
  "recentChanges api cutoffStr [] = []"
| "recentChanges api cutoffStr (t # ts) =
     (case getTaskStories api (task_gid t) of
        Inl e \<Rightarrow> recentChanges api cutoffStr ts
      | Inr stories \<Rightarrow>
          (case filter (\<lambda>story. \<not> story_created_at story < cutoffStr \<and> isDueDateChange story)
                  stories of
             [] \<Rightarrow> recentChanges api cutoffStr ts
           | latestChange # others \<Rightarrow>
               \<lparr>rc_taskName = task_name t,
                rc_taskGid = task_gid t,
                rc_assignee = assigneeName t,
                rc_project = projectName t,
                rc_oldDueDate = orElse (old_due_on latestChange) ''No due date'',
                rc_newDueDate = orElse (new_due_on latestChange) ''Removed'',
                rc_changedBy = user_name (created_by latestChange),
                rc_changedAt = story_created_at latestChange\<rparr> # recentChanges api cutoffStr ts))"

text \<open>
  The comparator \<^verbatim>\<open>new Date(b.changedAt).getTime() - new Date(a.changedAt).getTime()\<close>;
  \<^verbatim>\<open>sort\<close> reads a \<^verbatim>\<open>NaN\<close> result as 0.
\<close>

definition compareChangedAt :: "Runtime \<Rightarrow> RecentChange \<Rightarrow> RecentChange \<Rightarrow> int" where
  "compareChangedAt rt a b =
     (case (dateGetTime rt (rc_changedAt b), dateGetTime rt (rc_changedAt a)) of
        (Some tb, Some ta) \<Rightarrow> tb - ta
      | _ \<Rightarrow> 0)"

definition recentChangeJson :: "RecentChange \<Rightarrow> json" where
  "recentChangeJson c =
     JObj [(''taskName'', JStr (rc_taskName c)),
           (''taskGid'', JStr (rc_taskGid c)),
           (''assignee'', JStr (rc_assignee c)),
           (''project'', JStr (rc_project c)),
           (''oldDueDate'', JStr (rc_oldDueDate c)),
           (''newDueDate'', JStr (rc_newDueDate c)),
           (''changedBy'', JStr (rc_changedBy c)),
           (''changedAt'', JStr (rc_changedAt c))]"

text \<open>The \<open>days\<close> parameter is a number of the schema; the integers are modelled.\<close>

definition getRecentDueDateChanges_try :: "VendorApi \<Rightarrow> Runtime \<Rightarrow> int \<Rightarrow> Error + json" where
  "getRecentDueDateChanges_try api rt days =
     (let cutoffStr = cutoffIso rt days
      in case getTasks api (noFilter\<lparr>q_modified_since := Some cutoffStr\<rparr>) of
           Inl e \<Rightarrow> Inl e
         | Inr tasks \<Rightarrow>
             if length tasks = 0
             then Inr (JObj [(''message'', JStr (''No tasks were modified in the last ''
                                                   @ showInt days @ '' day(s).'')),
                             (''tasks'', JArr [])])
             else if length (recentChanges api cutoffStr tasks) = 0
             then Inr (JObj [(''message'', JStr (''No due date changes found in the last ''
                                                   @ showInt days @ '' day(s).'')),
                             (''tasks'', JArr [])])
             else (let sortedChanges =
                         arraySort (compareChangedAt rt) (recentChanges api cutoffStr tasks)
                   in Inr (JObj [(''message'',
                                    JStr (''Found '' @ showNat (length sortedChanges)
                                          @ '' task(s) with due date changes in the last ''
                                          @ showInt days @ '' day(s).'')),
                                 (''count'', JNum (int (length sortedChanges))),
                                 (''tasks'', JArr (map recentChangeJson sortedChanges))])))"

definition getRecentDueDateChanges :: "VendorApi \<Rightarrow> Runtime \<Rightarrow> int \<Rightarrow> json" where
  "getRecentDueDateChanges api rt days =
     toolBoundary Get_recent_due_date_changes (getRecentDueDateChanges_try api rt days)"

section \<open>The other daily status tools\<close>

subsection \<open>\<^verbatim>\<open>get_tasks_updated_today\<close>\<close>

definition formatUpdated :: "AsanaTask \<Rightarrow> json" where
  "formatUpdated t =
     JObj [(''name'', JStr (task_name t)),
           (''gid'', JStr (task_gid t)),
           (''modifiedAt'', JStr (modified_at t)),
           (''completed'', JBool (completed t)),
           (''assignee'', JStr (assigneeName t)),
           (''project'', JStr (projectName t)),
           (''section'', JStr (sectionName t))]"

definition getTasksUpdatedToday_try ::
    "VendorApi \<Rightarrow> Runtime \<Rightarrow> string option \<Rightarrow> bool \<Rightarrow> Error + json" where
  "getTasksUpdatedToday_try api rt byAssignee includeCompleted =
     (case getTasks api (noFilter\<lparr>q_modified_since := Some (todayStart rt),
                                   q_assignee := byAssignee\<rparr>) of
        Inl e \<Rightarrow> Inl e
      | Inr tasks \<Rightarrow>
          (let updated = filter (\<lambda>t. modified_at t \<noteq> [] \<and> modified_at t \<ge> todayStart rt) tasks;
               filteredTasks = (if \<not> includeCompleted
                                then filter (\<lambda>t. \<not> completed t) updated else updated)
           in if length filteredTasks = 0
              then Inr (JObj [(''message'', JStr ''No tasks were updated today.''),
                              (''count'', JNum 0),
                              (''tasks'', JArr [])])
              else Inr (JObj [(''message'', JStr (showNat (length filteredTasks)
                                                    @ '' task(s) updated today.'')),
                              (''count'', JNum (int (length filteredTasks))),
                              (''tasks'', JArr (map formatUpdated filteredTasks)),
                              (''date'', JStr (todayStr rt))])))"

definition getTasksUpdatedToday :: "VendorApi \<Rightarrow> Runtime \<Rightarrow> string option \<Rightarrow> bool \<Rightarrow> json" where
  "getTasksUpdatedToday api rt byAssignee includeCompleted =
     toolBoundary Get_tasks_updated_today
       (getTasksUpdatedToday_try api rt byAssignee includeCompleted)"

subsection \<open>\<^verbatim>\<open>get_tasks_due_today\<close>\<close>

definition formatDueToday :: "AsanaTask \<Rightarrow> json" where
  "formatDueToday t =
     JObj [(''name'', JStr (task_name t)),
           (''gid'', JStr (task_gid t)),
           (''dueOn'', optStr (due_on t)),
           (''completed'', JBool (completed t)),
           (''assignee'', JStr (assigneeName t)),
           (''project'', JStr (projectName t)),
           (''section'', JStr (sectionName t))]"

definition getTasksDueToday_try ::
    "VendorApi \<Rightarrow> Runtime \<Rightarrow> string option \<Rightarrow> bool \<Rightarrow> Error + json" where
  "getTasksDueToday_try api rt byAssignee excludeCompleted =
     (case getTasks api (noFilter\<lparr>q_assignee := byAssignee\<rparr>) of
        Inl e \<Rightarrow> Inl e
      | Inr tasks \<Rightarrow>
          (let due = filter (\<lambda>t. case due_on t of None \<Rightarrow> False
                                   | Some d \<Rightarrow> d \<noteq> [] \<and> d = todayStr rt) tasks;
               dueToday = (if excludeCompleted then filter (\<lambda>t. \<not> completed t) due else due)
           in if length dueToday = 0
              then Inr (JObj [(''message'', JStr ''No tasks are due today.''),
                              (''count'', JNum 0),
                              (''tasks'', JArr [])])
              else Inr (JObj [(''message'', JStr (showNat (length dueToday)
                                                    @ '' task(s) due today.'')),
                              (''count'', JNum (int (length dueToday))),
                              (''tasks'', JArr (map formatDueToday dueToday)),
                              (''date'', JStr (todayStr rt))])))"

definition getTasksDueToday :: "VendorApi \<Rightarrow> Runtime \<Rightarrow> string option \<Rightarrow> bool \<Rightarrow> json" where
  "getTasksDueToday api rt byAssignee excludeCompleted =
     toolBoundary Get_tasks_due_today (getTasksDueToday_try api rt byAssignee excludeCompleted)"

section \<open>The other additional query tools\<close>

subsection \<open>\<^verbatim>\<open>get_unassigned_tasks\<close>\<close>

definition formatUnassigned :: "AsanaTask \<Rightarrow> json" where
  "formatUnassigned t =
     JObj [(''name'', JStr (task_name t)),
           (''gid'', JStr (task_gid t)),
           (''dueOn'', JStr (orElse (due_on t) ''No due date'')),
           (''completed'', JBool (completed t)),
           (''project'', JStr (projectName t)),
           (''section'', JStr (sectionName t))]"

definition getUnassignedTasks_try :: "VendorApi \<Rightarrow> bool \<Rightarrow> Error + json" where
  "getUnassignedTasks_try api excludeCompleted =
     (case getTasks api noFilter of
        Inl e \<Rightarrow> Inl e
      | Inr tasks \<Rightarrow>
          (let unassigned = filter (\<lambda>t. assignee t = None) tasks;
               unassignedTasks = (if excludeCompleted
                                  then filter (\<lambda>t. \<not> completed t) unassigned else unassigned)
           in if length unassignedTasks = 0
              then Inr (JObj [(''message'', JStr ''No unassigned tasks found.''),
                              (''count'', JNum 0),
                              (''tasks'', JArr [])])
              else Inr (JObj [(''message'', JStr (showNat (length unassignedTasks)
                                                    @ '' unassigned task(s) found.'')),
                              (''count'', JNum (int (length unassignedTasks))),
                              (''tasks'', JArr (map formatUnassigned unassignedTasks))])))"

definition getUnassignedTasks :: "VendorApi \<Rightarrow> bool \<Rightarrow> json" where
  "getUnassignedTasks api excludeCompleted =
     toolBoundary Get_unassigned_tasks (getUnassignedTasks_try api excludeCompleted)"

subsection \<open>\<^verbatim>\<open>get_tasks_without_due_dates\<close>\<close>

definition formatWithoutDueDate :: "AsanaTask \<Rightarrow> json" where
  "formatWithoutDueDate t =
     JObj [(''name'', JStr (task_name t)),
           (''gid'', JStr (task_gid t)),
           (''assignee'', JStr (assigneeName t)),
           (''completed'', JBool (completed t)),
           (''project'', JStr (projectName t)),
           (''section'', JStr (sectionName t)),
           (''createdAt'', JStr (created_at t))]"

definition getTasksWithoutDueDates_try ::
    "VendorApi \<Rightarrow> bool \<Rightarrow> string option \<Rightarrow> Error + json" where
  "getTasksWithoutDueDates_try api excludeCompleted byAssignee =
     (case getTasks api (noFilter\<lparr>q_assignee := byAssignee\<rparr>) of
        Inl e \<Rightarrow> Inl e
      | Inr tasks \<Rightarrow>
          (let undated = filter (\<lambda>t. \<not> truthy (due_on t) \<and> \<not> truthy (due_at t)) tasks;
               tasksWithoutDueDate = (if excludeCompleted
                                      then filter (\<lambda>t. \<not> completed t) undated else undated)
           in if length tasksWithoutDueDate = 0
              then Inr (JObj [(''message'', JStr ''No tasks without due dates found.''),
                              (''count'', JNum 0),
                              (''tasks'', JArr [])])
              else Inr (JObj [(''message'', JStr (showNat (length tasksWithoutDueDate)
                                                    @ '' task(s) without due dates found.'')),
                              (''count'', JNum (int (length tasksWithoutDueDate))),
                              (''tasks'', JArr (map formatWithoutDueDate tasksWithoutDueDate))])))"

definition getTasksWithoutDueDates :: "VendorApi \<Rightarrow> bool \<Rightarrow> string option \<Rightarrow> json" where
  "getTasksWithoutDueDates api excludeCompleted byAssignee =
     toolBoundary Get_tasks_without_due_dates
       (getTasksWithoutDueDates_try api excludeCompleted byAssignee)"

subsection \<open>\<^verbatim>\<open>search_tasks_by_name\<close>\<close>

definition formatFound :: "AsanaTask \<Rightarrow> json" where
  "formatFound t =
     JObj [(''name'', JStr (task_name t)),
           (''gid'', JStr (task_gid t)),
           (''completed'', JBool (completed t)),
           (''dueOn'', JStr (orElse (due_on t) ''No due date'')),
           (''assignee'', JStr (assigneeName t)),
           (''project'', JStr (projectName t)),
           (''section'', JStr (sectionName t))]"

definition searchTasksByName_try :: "VendorApi \<Rightarrow> Runtime \<Rightarrow> string \<Rightarrow> bool \<Rightarrow> Error + json" where
  "searchTasksByName_try api rt searchQuery excludeCompleted =
     (case getTasks api noFilter of
        Inl e \<Rightarrow> Inl e
      | Inr tasks \<Rightarrow>
          (let searchLower = toLowerCase rt searchQuery;
               matching = filter (\<lambda>t. stringIncludes (toLowerCase rt (task_name t)) searchLower) tasks;
               matchingTasks = (if excludeCompleted
                                then filter (\<lambda>t. \<not> completed t) matching else matching)
           in if length matchingTasks = 0
              then Inr (JObj [(''message'', JStr (''No tasks found matching '' @ dq @ searchQuery
                                                    @ dq @ ''.'')),
                              (''count'', JNum 0),
                              (''tasks'', JArr [])])
              else Inr (JObj [(''message'', JStr (''Found '' @ showNat (length matchingTasks)
                                                    @ '' task(s) matching '' @ dq @ searchQuery
                                                    @ dq @ ''.'')),
                              (''count'', JNum (int (length matchingTasks))),
                              (''searchQuery'', JStr searchQuery),
                              (''tasks'', JArr (map formatFound matchingTasks))])))"

definition searchTasksByName :: "VendorApi \<Rightarrow> Runtime \<Rightarrow> string \<Rightarrow> bool \<Rightarrow> json" where
  "searchTasksByName api rt searchQuery excludeCompleted =
     toolBoundary Search_tasks_by_name (searchTasksByName_try api rt searchQuery excludeCompleted)"

subsection \<open>\<^verbatim>\<open>get_workspace_users\<close>, \<^verbatim>\<open>get_me\<close> and \<^verbatim>\<open>search_users\<close>\<close>

definition formatUser :: "AsanaUser \<Rightarrow> json" where
  "formatUser user =
     JObj [(''name'', JStr (user_name user)),
           (''gid'', JStr (user_gid user)),
           (''email'', JStr (orElse (user_email user) ''No email''))]"

definition getWorkspaceUsersTool_try :: "VendorApi \<Rightarrow> Error + json" where
  "getWorkspaceUsersTool_try api =
     (case getWorkspaceUsers api of
        Inl e \<Rightarrow> Inl e
      | Inr users \<Rightarrow>
          if length users = 0
          then Inr (JObj [(''message'', JStr ''No users found in the workspace.''),
                          (''count'', JNum 0),
                          (''users'', JArr [])])
          else Inr (JObj [(''message'', JStr (''Found '' @ showNat (length users)
                                                @ '' user(s) in the workspace.'')),
                          (''count'', JNum (int (length users))),
                          (''users'', JArr (map formatUser users))]))"

definition getWorkspaceUsersTool :: "VendorApi \<Rightarrow> json" where
  "getWorkspaceUsersTool api = toolBoundary Get_workspace_users (getWorkspaceUsersTool_try api)"

definition getMeTool_try :: "VendorApi \<Rightarrow> Error + json" where
  "getMeTool_try api =
     (case getMe api of
        Inl e \<Rightarrow> Inl e
      | Inr me \<Rightarrow>
          Inr (JObj [(''message'', JStr (''Current user identified: '' @ user_name me)),
                     (''user'', formatUser me)]))"

definition getMeTool :: "VendorApi \<Rightarrow> json" where
  "getMeTool api = toolBoundary Get_me (getMeTool_try api)"

definition searchUsersTool_try :: "VendorApi \<Rightarrow> Runtime \<Rightarrow> string \<Rightarrow> Error + json" where
  "searchUsersTool_try api rt query =
     (case searchUsers api rt query of
        Inl e \<Rightarrow> Inl e
      | Inr users \<Rightarrow>
          if length users = 0
          then Inr (JObj [(''message'', JStr (''No users found matching '' @ dq @ query @ dq @ ''.'')),
                          (''count'', JNum 0),
                          (''users'', JArr [])])
          else Inr (JObj [(''message'', JStr (''Found '' @ showNat (length users)
                                                @ '' user(s) matching '' @ dq @ query @ dq @ ''.'')),
                          (''count'', JNum (int (length users))),
                          (''users'', JArr (map formatUser users))]))"

definition searchUsersTool :: "VendorApi \<Rightarrow> Runtime \<Rightarrow> string \<Rightarrow> json" where
  "searchUsersTool api rt query = toolBoundary Search_users (searchUsersTool_try api rt query)"

subsection \<open>\<^verbatim>\<open>get_tasks_assigned_to\<close>\<close>

definition getTasksAssignedTo_try ::
    "VendorApi \<Rightarrow> Runtime \<Rightarrow> string \<Rightarrow> bool \<Rightarrow> int \<Rightarrow> Error + json" where
  "getTasksAssignedTo_try api rt who excludeCompleted limit =
     (case getTasks api (noFilter\<lparr>q_assignee := Some who,
                                   q_completed_since := (if excludeCompleted then Some (nowIso rt)
                                                         else None)\<rparr>) of
        Inl e \<Rightarrow> Inl e
      | Inr tasks \<Rightarrow>
          (let open_tasks = (if excludeCompleted then filter (\<lambda>t. \<not> completed t) tasks else tasks);
               filteredTasks = slice0 open_tasks limit
           in if length filteredTasks = 0
              then Inr (JObj [(''message'', JStr ''No tasks found for this user.''),
                              (''count'', JNum 0),
                              (''tasks'', JArr [])])
              else Inr (JObj [(''message'', JStr (''Found '' @ showNat (length filteredTasks)
                                                    @ '' task(s) assigned to usage.'')),
                              (''count'', JNum (int (length filteredTasks))),
                              (''tasks'', JArr (map formatUnassigned filteredTasks))])))"

definition getTasksAssignedTo :: "VendorApi \<Rightarrow> Runtime \<Rightarrow> string \<Rightarrow> bool \<Rightarrow> int \<Rightarrow> json" where
  "getTasksAssignedTo api rt who excludeCompleted limit =
     toolBoundary (Get_tasks_assigned_to who)
       (getTasksAssignedTo_try api rt who excludeCompleted limit)"

section \<open>The other weekly planning tools\<close>

subsection \<open>\<^verbatim>\<open>get_weekly_planned_tasks\<close>\<close>

definition formatPlanned :: "AsanaTask \<Rightarrow> json" where
  "formatPlanned t =
     JObj [(''name'', JStr (task_name t)),
           (''gid'', JStr (task_gid t)),
           (''completed'', JBool (completed t)),
           (''assignee'', JStr (assigneeName t)),
           (''project'', JStr (projectName t)),
           (''section'', JStr (sectionName t))]"

text \<open>
  The body of \<^verbatim>\<open>weeklyTasks.forEach\<close>, which files a task under its due date in the
  object \<^verbatim>\<open>tasksByDay\<close>. The keys are due dates within the week, so the properties are
  in the order of their insertion.
\<close>

definition fileUnderDay :: "(string \<times> json list) list \<Rightarrow> AsanaTask \<Rightarrow> (string \<times> json list) list" where
  "fileUnderDay m t =
     (let day = (case due_on t of None \<Rightarrow> ''undefined'' | Some d \<Rightarrow> d);
          m1 = (if map_of m day = None then m @ [(day, [])] else m)
      in mapAdjust day (\<lambda>entries. entries @ [formatPlanned t]) m1)"

definition tasksByDay :: "AsanaTask list \<Rightarrow> json" where
  "tasksByDay ts = JObj (map (\<lambda>kv. (fst kv, JArr (snd kv))) (foldl fileUnderDay [] ts))"

definition getWeeklyPlannedTasks_try ::
    "VendorApi \<Rightarrow> Runtime \<Rightarrow> string option \<Rightarrow> bool \<Rightarrow> Error + json" where
  "getWeeklyPlannedTasks_try api rt byAssignee excludeCompleted =
     (case getTasks api (noFilter\<lparr>q_assignee := byAssignee\<rparr>) of
        Inl e \<Rightarrow> Inl e
      | Inr tasks \<Rightarrow>
          (let inWeek = filter (\<lambda>t. case due_on t of None \<Rightarrow> False
                                      | Some d \<Rightarrow> d \<noteq> [] \<and> d \<ge> weekStartStr rt \<and> d \<le> weekEndStr rt)
                          tasks;
               weeklyTasks = (if excludeCompleted
                              then filter (\<lambda>t. \<not> completed t) inWeek else inWeek)
           in if length weeklyTasks = 0
              then Inr (JObj [(''message'', JStr ''No tasks planned for this week.''),
                              (''count'', JNum 0),
                              (''tasks'', JArr []),
                              (''weekStart'', JStr (weekStartStr rt)),
                              (''weekEnd'', JStr (weekEndStr rt))])
              else Inr (JObj [(''message'', JStr (showNat (length weeklyTasks)
                                                    @ '' task(s) planned for this week.'')),
                              (''count'', JNum (int (length weeklyTasks))),
                              (''weekStart'', JStr (weekStartStr rt)),
                              (''weekEnd'', JStr (weekEndStr rt)),
                              (''tasksByDay'', tasksByDay weeklyTasks)])))"

definition getWeeklyPlannedTasks :: "VendorApi \<Rightarrow> Runtime \<Rightarrow> string option \<Rightarrow> bool \<Rightarrow> json" where
  "getWeeklyPlannedTasks api rt byAssignee excludeCompleted =
     toolBoundary Get_weekly_planned_tasks
       (getWeeklyPlannedTasks_try api rt byAssignee excludeCompleted)"

subsection \<open>\<^verbatim>\<open>get_overdue_tasks_by_person\<close>\<close>

record PersonOverdue =
  po_user :: string
  po_userGid :: string
  overdueCount :: nat
  po_tasks :: "json list"

definition overdueEntry :: "AsanaTask \<Rightarrow> json" where
  "overdueEntry t =
     JObj [(''name'', JStr (task_name t)),
           (''gid'', JStr (task_gid t)),
           (''dueOn'', optStr (due_on t)),
           (''project'', JStr (projectName t))]"

text \<open>The body of \<^verbatim>\<open>overdueTasks.forEach\<close> on the map from assignee id to person.\<close>

definition overdueStep :: "(string \<times> PersonOverdue) list \<Rightarrow> AsanaTask \<Rightarrow> (string \<times> PersonOverdue) list" where
  "overdueStep m t =
     (let g = assigneeGid t;
          m1 = (if map_of m g = None
                then m @ [(g, \<lparr>po_user = assigneeName t, po_userGid = g, overdueCount = 0,
                                po_tasks = []\<rparr>)]
                else m)
      in mapAdjust g (\<lambda>p. p\<lparr>overdueCount := overdueCount p + 1,
                             po_tasks := po_tasks p @ [overdueEntry t]\<rparr>) m1)"

definition personJson :: "PersonOverdue \<Rightarrow> json" where
  "personJson p =
     JObj [(''user'', JStr (po_user p)),
           (''userGid'', JStr (po_userGid p)),
           (''overdueCount'', JNum (int (overdueCount p))),
           (''tasks'', JArr (po_tasks p))]"

definition getOverdueTasksByPerson_try :: "VendorApi \<Rightarrow> Runtime \<Rightarrow> Error + json" where
  "getOverdueTasksByPerson_try api rt =
     (case getTasks api noFilter of
        Inl e \<Rightarrow> Inl e
      | Inr tasks \<Rightarrow>
          (let overdue = filter (isOverdue (todayStr rt)) tasks
           in if length overdue = 0
              then Inr (JObj [(''message'', JStr ''No overdue tasks found.''),
                              (''totalOverdue'', JNum 0),
                              (''byPerson'', JArr [])])
              else (let resultArray =
                          arraySort (\<lambda>a b. int (overdueCount b) - int (overdueCount a))
                            (map snd (foldl overdueStep [] overdue))
                    in Inr (JObj [(''message'',
                                     JStr (showNat (length overdue) @ '' overdue task(s) across ''
                                           @ showNat (length resultArray) @ '' team member(s).'')),
                                  (''totalOverdue'', JNum (int (length overdue))),
                                  (''byPerson'', JArr (map personJson resultArray))]))))"

definition getOverdueTasksByPerson :: "VendorApi \<Rightarrow> Runtime \<Rightarrow> json" where
  "getOverdueTasksByPerson api rt =
     toolBoundary Get_overdue_tasks_by_person (getOverdueTasksByPerson_try api rt)"

section \<open>The other project status tools\<close>

subsection \<open>\<^verbatim>\<open>get_section_with_most_work\<close>\<close>

record SectionWork =
  sw_sectionName :: string
  sw_sectionGid :: string
  sw_totalTasks :: nat
  sw_incompleteTasks :: nat
  sw_completedTasks :: int

text \<open>The loop over the sections; a failing fetch leaves the loop as an exception.\<close>

fun sectionWorkload :: "VendorApi \<Rightarrow> AsanaSection list \<Rightarrow> Error + SectionWork list" where
  "sectionWorkload api [] = Inr []"
| "sectionWorkload api (s # ss) =
     (case getSectionTasks api (section_gid s) of
        Inl e \<Rightarrow> Inl e
      | Inr tasks \<Rightarrow>
          (let incompleteTasks = filter (\<lambda>t. \<not> completed t) tasks;
               w = \<lparr>sw_sectionName = section_name s, sw_sectionGid = section_gid s,
                    sw_totalTasks = length tasks, sw_incompleteTasks = length incompleteTasks,
                    sw_completedTasks = int (length tasks) - int (length incompleteTasks)\<rparr>
           in case sectionWorkload api ss of
                Inl e \<Rightarrow> Inl e
              | Inr rest \<Rightarrow> Inr (w # rest)))"

definition sectionWorkJson :: "SectionWork \<Rightarrow> json" where
  "sectionWorkJson w =
     JObj [(''sectionName'', JStr (sw_sectionName w)),
           (''sectionGid'', JStr (sw_sectionGid w)),
           (''totalTasks'', JNum (int (sw_totalTasks w))),
           (''incompleteTasks'', JNum (int (sw_incompleteTasks w))),
           (''completedTasks'', JNum (sw_completedTasks w))]"

definition getSectionWithMostWork_try :: "VendorApi \<Rightarrow> Runtime \<Rightarrow> string \<Rightarrow> Error + json" where
  "getSectionWithMostWork_try api rt projectName' =
     (case findProjectByName api rt projectName' of
        Inl e \<Rightarrow> Inl e
      | Inr None \<Rightarrow>
          Inr (JObj [(''error'', JStr (''Project '' @ dq @ projectName' @ dq @ '' not found.''))])
      | Inr (Some project) \<Rightarrow>
          (case getProjectSections api (project_gid project) of
             Inl e \<Rightarrow> Inl e
           | Inr sections \<Rightarrow>
               if length sections = 0
               then Inr (JObj [(''message'', JStr (''Project '' @ dq @ project_name project @ dq
                                                     @ '' has no sections.''))])
               else (case sectionWorkload api sections of
                       Inl e \<Rightarrow> Inl e
                     | Inr unsorted \<Rightarrow>
                         (case arraySort (\<lambda>a b. int (sw_incompleteTasks b) - int (sw_incompleteTasks a))
                                 unsorted of
                            [] \<Rightarrow> Inl (Error ''TypeError''
                                         ''Cannot read properties of undefined (reading 'sectionName')'')
                          | busiestSection # others \<Rightarrow>
                              Inr (JObj [(''message'',
                                            JStr (''Section '' @ dq @ sw_sectionName busiestSection @ dq
                                                  @ '' has the most work with ''
                                                  @ showNat (sw_incompleteTasks busiestSection)
                                                  @ '' incomplete task(s).'')),
                                         (''projectName'', JStr (project_name project)),
                                         (''busiestSection'', JStr (sw_sectionName busiestSection)),
                                         (''incompleteTasks'',
                                            JNum (int (sw_incompleteTasks busiestSection))),
                                         (''allSections'',
                                            JArr (map sectionWorkJson (busiestSection # others)))])))))"

definition getSectionWithMostWork :: "VendorApi \<Rightarrow> Runtime \<Rightarrow> string \<Rightarrow> json" where
  "getSectionWithMostWork api rt projectName' =
     toolBoundary Get_section_with_most_work (getSectionWithMostWork_try api rt projectName')"

subsection \<open>\<^verbatim>\<open>list_all_projects\<close>\<close>

definition projectJson :: "AsanaProject \<Rightarrow> json" where
  "projectJson p = JObj [(''name'', JStr (project_name p)), (''gid'', JStr (project_gid p))]"

definition listAllProjects_try :: "VendorApi \<Rightarrow> Error + json" where
  "listAllProjects_try api =
     (case getWorkspaceProjects api of
        Inl e \<Rightarrow> Inl e
      | Inr projects \<Rightarrow>
          if length projects = 0
          then Inr (JObj [(''message'', JStr ''No projects found in the workspace.''),
                          (''count'', JNum 0),
                          (''projects'', JArr [])])
          else Inr (JObj [(''message'', JStr (''Found '' @ showNat (length projects)
                                                @ '' project(s) in the workspace.'')),
                          (''count'', JNum (int (length projects))),
                          (''projects'', JArr (map projectJson projects))]))"

definition listAllProjects :: "VendorApi \<Rightarrow> json" where
  "listAllProjects api = toolBoundary List_all_projects (listAllProjects_try api)"

section \<open>Reading a result object\<close>

text \<open>The value of a field, the fields that are the number 0, and those that are \<open>[]\<close>.\<close>

definition field :: "string \<Rightarrow> json \<Rightarrow> json" where
  "field k r = (case r of JObj fs \<Rightarrow> (case map_of fs k of Some v \<Rightarrow> v | None \<Rightarrow> JUndefined)
                | _ \<Rightarrow> JUndefined)"

definition zeroCounts :: "json \<Rightarrow> string list" where
  "zeroCounts r = (case r of JObj fs \<Rightarrow> map fst (filter (\<lambda>kv. snd kv = JNum 0) fs) | _ \<Rightarrow> [])"

definition emptyCollections :: "json \<Rightarrow> string list" where
  "emptyCollections r = (case r of JObj fs \<Rightarrow> map fst (filter (\<lambda>kv. snd kv = JArr []) fs) | _ \<Rightarrow> [])"

section \<open>Comparators\<close>

text \<open>
  A comparator is consistent on a set when the relation \<open>cmp a b \<le> 0\<close> is total and
  transitive there; \<^verbatim>\<open>sort\<close> orders an array only for such a comparator.
\<close>

definition consistentOn :: "'a set \<Rightarrow> ('a \<Rightarrow> 'a \<Rightarrow> int) \<Rightarrow> bool" where
  "consistentOn S cmp \<longleftrightarrow>
     (\<forall>a\<in>S. \<forall>b\<in>S. cmp a b \<le> 0 \<or> cmp b a \<le> 0) \<and>
     (\<forall>a\<in>S. \<forall>b\<in>S. \<forall>c\<in>S. cmp a b \<le> 0 \<longrightarrow> cmp b c \<le> 0 \<longrightarrow> cmp a c \<le> 0)"

text \<open>The comparison of strings by code units, which \<^verbatim>\<open>localeCompare\<close> is on ISO dates.\<close>

definition codeUnitCompare :: "string \<Rightarrow> string \<Rightarrow> int" where
  "codeUnitCompare a b = (if a < b then - 1 else if a = b then 0 else 1)"

text \<open>
  What \<^verbatim>\<open>toLowerCase\<close> does on ASCII strings: the letters A to Z become a to z and every
  other character is kept.
\<close>

definition asciiLowerChar :: "char \<Rightarrow> char" where
  "asciiLowerChar c =
     (if CHR ''A'' \<le> c \<and> c \<le> CHR ''Z'' then char_of (of_char c + 32 :: nat) else c)"

definition asciiLowerCase :: "string \<Rightarrow> string" where
  "asciiLowerCase s = map asciiLowerChar s"

section \<open>A small workspace\<close>

text \<open>Concrete answers of the vendor API, used to run the tools.\<close>

definition alice :: AsanaUser where
  "alice = \<lparr>user_gid = ''u1'', user_name = ''Alice'', user_email = None\<rparr>"

definition bob :: AsanaUser where
  "bob = \<lparr>user_gid = ''u2'', user_name = ''Bob'', user_email = None\<rparr>"

definition mkTask ::
    "string \<Rightarrow> string \<Rightarrow> bool \<Rightarrow> string option \<Rightarrow> string option \<Rightarrow> AsanaUser option \<Rightarrow> AsanaTask" where
  "mkTask g n c ca d a =
     \<lparr>task_gid = g, task_name = n, completed = c, completed_at = ca,
      created_at = ''2024-01-01T08:00:00.000Z'', modified_at = ''2024-01-15T07:00:00.000Z'',
      due_on = d, due_at = None, assignee = a, memberships = None\<rparr>"

definition demoTasks :: "AsanaTask list" where
  "demoTasks =
     [mkTask ''t1'' ''Write report'' False None (Some ''2024-01-10'') (Some alice),
      mkTask ''t2'' ''Fix bug'' True (Some ''2024-01-15T09:30:00.000Z'') (Some ''2024-01-12'') (Some bob),
      mkTask ''t3'' ''Plan sprint'' False None (Some ''2024-01-05'') None,
      mkTask ''t4'' ''Archive'' True (Some ''2024-01-14T23:00:00.000Z'') None (Some alice),
      mkTask ''t5'' ''Release'' False None (Some ''2024-02-01'') (Some alice)]"

definition mkStory :: "string \<Rightarrow> string \<Rightarrow> string option \<Rightarrow> string option \<Rightarrow> AsanaStory" where
  "mkStory g sub old new =
     \<lparr>story_gid = g, story_created_at = ''2024-01-02T08:00:00.000Z'', created_by = alice,
      resource_subtype = sub, old_due_on = old, new_due_on = new\<rparr>"

definition demoStories :: "string \<Rightarrow> string + AsanaStory list" where
  "demoStories g =
     (if g = ''t1''
      then Inr [mkStory ''s1'' ''due_date_changed'' (Some ''2024-01-01'') (Some ''2024-01-08''),
                mkStory ''s2'' ''due_date_changed'' (Some ''2024-01-08'') None]
      else if g = ''t3''
      then Inr [mkStory ''s3'' ''due_date_changed'' (Some ''2024-01-03'') (Some ''2024-01-05''),
                mkStory ''s4'' ''comment_added'' None None]
      else Inl ''timeout'')"

definition demoProjects :: "AsanaProject list" where
  "demoProjects = [\<lparr>project_gid = ''p1'', project_name = ''Marketing''\<rparr>,
                   \<lparr>project_gid = ''p2'', project_name = ''marketing''\<rparr>]"

definition demoApi :: VendorApi where
  "demoApi =
     \<lparr>tasksApi_getTasks = (\<lambda>q. Inr demoTasks),
      tasksApi_getTask = (\<lambda>g. Inr (mkTask g ''Write report'' False None (Some ''2024-01-10'') (Some alice))),
      storiesApi_getStoriesForTask = demoStories,
      sectionsApi_getSectionsForProject = (\<lambda>g. Inr [\<lparr>section_gid = ''c1'', section_name = ''Doing''\<rparr>]),
      tasksApi_getTasksForSection = (\<lambda>g. Inr demoTasks),
      usersApi_getUsersForWorkspace = Inr [alice, bob],
      usersApi_getUser = Inr alice,
      projectsApi_getProjects = Inr demoProjects\<rparr>"

definition failingApi :: VendorApi where
  "failingApi =
     \<lparr>tasksApi_getTasks = (\<lambda>q. Inl ''timeout''),
      tasksApi_getTask = (\<lambda>g. Inl ''timeout''),
      storiesApi_getStoriesForTask = (\<lambda>g. Inl ''timeout''),
      sectionsApi_getSectionsForProject = (\<lambda>g. Inl ''timeout''),
      tasksApi_getTasksForSection = (\<lambda>g. Inl ''timeout''),
      usersApi_getUsersForWorkspace = Inl ''timeout'',
      usersApi_getUser = Inl ''timeout'',
      projectsApi_getProjects = Inl ''timeout''\<rparr>"

text \<open>
  The same workspace with the sections out of reach, and one with two sections of which the
  tasks of the second are out of reach.
\<close>

definition sectionsDownApi :: VendorApi where
  "sectionsDownApi = demoApi\<lparr>sectionsApi_getSectionsForProject := (\<lambda>g. Inl ''timeout'')\<rparr>"

definition sectionTasksDownApi :: VendorApi where
  "sectionTasksDownApi =
     demoApi\<lparr>sectionsApi_getSectionsForProject :=
               (\<lambda>g. Inr [\<lparr>section_gid = ''c1'', section_name = ''Doing''\<rparr>,
                        \<lparr>section_gid = ''c2'', section_name = ''Done''\<rparr>]),
             tasksApi_getTasksForSection :=
               (\<lambda>g. if g = ''c2'' then Inl ''timeout'' else Inr demoTasks)\<rparr>"

text \<open>
  The same workspace where the history of a task holds the two due-date events as stories
  of another subtype.
\<close>

definition unmarkedApi :: VendorApi where
  "unmarkedApi =
     demoApi\<lparr>storiesApi_getStoriesForTask :=
               (\<lambda>g. Inr [mkStory ''s1'' ''comment_added'' (Some ''2024-01-01'') (Some ''2024-01-08''),
                        mkStory ''s2'' ''comment_added'' (Some ''2024-01-08'') None])\<rparr>"

definition demoRuntime :: Runtime where
  "demoRuntime =
     \<lparr>localeCompare = codeUnitCompare,
      toLowerCase = asciiLowerCase,
      dateGetTime = (\<lambda>s. if s = ''2024-01-10'' then Some 1704844800000
                         else if s = ''2024-01-05'' then Some 1704412800000 else None),
      todayMs = 1705312800000,
      todayStr = ''2024-01-15'',
      todayStart = ''2024-01-15T00:00:00.000Z'',
      nowIso = ''2024-01-15T10:00:00.000Z'',
      weekStartStr = ''2024-01-15'',
      weekEndStr = ''2024-01-21'',
      cutoffIso = (\<lambda>days. ''2024-01-08T10:00:00.000Z'')\<rparr>"

section \<open>Properties of the rate limiter\<close>

lemma checkRateLimit_not_at_boundary:
  "requestCount w \<le> 100 \<Longrightarrow> now \<noteq> resetTime w
     \<Longrightarrow> requestCount (fst (checkRateLimit now woke w)) \<le> 100"
  by (auto simp: checkRateLimit_def Let_def)

lemma checkRateLimits_append:
  "checkRateLimits (xs @ ys) w = checkRateLimits ys (checkRateLimits xs w)"
  by (induction xs arbitrary: w) auto

lemma checkRateLimit_below_ceiling:
  "requestCount w < 100 \<Longrightarrow> now \<le> resetTime w
     \<Longrightarrow> checkRateLimit now woke w = (w\<lparr>requestCount := requestCount w + 1\<rparr>, None)"
  by (simp add: checkRateLimit_def)

lemma checkRateLimits_replicate:
  "requestCount w + n \<le> 100 \<Longrightarrow> now \<le> resetTime w
     \<Longrightarrow> checkRateLimits (replicate n (now, woke)) w = w\<lparr>requestCount := requestCount w + n\<rparr>"
proof (induction n arbitrary: w)
  case 0
  then show ?case by simp
next
  case (Suc n)
  have step: "checkRateLimit now woke w = (w\<lparr>requestCount := requestCount w + 1\<rparr>, None)"
    using Suc.prems by (intro checkRateLimit_below_ceiling) auto
  have "checkRateLimits (replicate n (now, woke)) (w\<lparr>requestCount := requestCount w + 1\<rparr>)
          = (w\<lparr>requestCount := requestCount w + 1\<rparr>)
              \<lparr>requestCount := requestCount (w\<lparr>requestCount := requestCount w + 1\<rparr>) + n\<rparr>"
    using Suc.prems by (intro Suc.IH) auto
  then show ?case using step by simp
qed

text \<open>
  C1. When the counter has reached the ceiling, which is 100, and a call arrives strictly before
  the reset timestamp, the call is suspended for \<open>resetTime - now\<close> milliseconds, that is
  until the reset timestamp; when it proceeds the counter is 1 and the new window ends
  60 seconds after the wake-up reading of the clock.
\<close>

theorem checkRateLimit_at_ceiling_waits:
  assumes "requestCount w \<ge> 100" and "now < resetTime w"
  shows "checkRateLimit now woke w
           = (\<lparr>requestCount = 1, resetTime = woke + 60000\<rparr>, Some (resetTime w - now))"
  using assms by (simp add: checkRateLimit_def)

theorem checkRateLimit_at_ceiling_waits_witness:
  "requestCount \<lparr>requestCount = 100, resetTime = 60000\<rparr> \<ge> 100
   \<and> (59000::int) < resetTime \<lparr>requestCount = 100, resetTime = 60000\<rparr>
   \<and> checkRateLimit 59000 60003 \<lparr>requestCount = 100, resetTime = 60000\<rparr>
        = (\<lparr>requestCount = 1, resetTime = 120003\<rparr>, Some 1000)"
  using checkRateLimit_at_ceiling_waits
          [of "\<lparr>requestCount = 100, resetTime = 60000\<rparr>" 59000 60003]
  by simp

text \<open>
  C2. The counter can pass the ceiling: a client created at time 0 that makes 100 calls at
  time 0 and one more at time 60000, exactly the reset timestamp, is not suspended and
  leaves the counter at 101.
\<close>

theorem checkRateLimit_boundary_exceeds:
  "checkRateLimits (replicate 100 (0, 0) @ [(60000, 60000)]) (initialWindow 0)
     = \<lparr>requestCount = 101, resetTime = 60000\<rparr>
   \<and> checkRateLimit 60000 60000 \<lparr>requestCount = 100, resetTime = 60000\<rparr>
     = (\<lparr>requestCount = 101, resetTime = 60000\<rparr>, None)"
proof -
  have "checkRateLimits (replicate 100 (0, 0)) (initialWindow 0)
          = \<lparr>requestCount = 100, resetTime = 60000\<rparr>"
    using checkRateLimits_replicate [of "initialWindow 0" 100 0 0]
    by (simp add: initialWindow_def)
  moreover have "checkRateLimit 60000 60000 \<lparr>requestCount = 100, resetTime = 60000\<rparr>
     = (\<lparr>requestCount = 101, resetTime = 60000\<rparr>, None)"
    by (simp add: checkRateLimit_def)
  ultimately show ?thesis
    by (simp add: checkRateLimits_append)
qed

section \<open>Lemmas on the runtime functions\<close>

lemma toolBoundary_simps [simp]:
  "toolBoundary tool (Inr r) = r"
  "toolBoundary tool (Inl e) = onError tool e"
  by (simp_all add: toolBoundary_def)

lemma rethrow_Inr: "rethrow p r = Inr d \<longleftrightarrow> r = Inr d"
  by (cases r) (auto simp: rethrow_def)

lemma rethrow_Inl: "rethrow p r = Inl e \<longleftrightarrow> (\<exists>m. r = Inl m \<and> e = newError (p @ m))"
  by (cases r) (auto simp: rethrow_def)

lemma length_insertSorted: "length (insertSorted cmp x ys) = Suc (length ys)"
  by (induction ys) auto

lemma set_insertSorted: "set (insertSorted cmp x ys) = insert x (set ys)"
  by (induction ys) auto

lemma length_arraySort: "length (arraySort cmp xs) = length xs"
  by (induction xs) (auto simp: arraySort_def length_insertSorted)

lemma set_arraySort: "set (arraySort cmp xs) = set xs"
  by (induction xs) (auto simp: arraySort_def set_insertSorted)

lemma sum_list_insertSorted:
  "sum_list (map f (insertSorted cmp x ys)) = f x + sum_list (map f ys)" for f :: "'a \<Rightarrow> nat"
  by (induction ys) auto

lemma sum_list_arraySort:
  "sum_list (map f (arraySort cmp xs)) = sum_list (map f xs)" for f :: "'a \<Rightarrow> nat"
  by (induction xs) (auto simp: arraySort_def sum_list_insertSorted)

lemma sorted_insertSorted:
  assumes "consistentOn S cmp" "x \<in> S" "set ys \<subseteq> S"
    and "sorted_wrt (\<lambda>a b. cmp a b \<le> 0) ys"
  shows "sorted_wrt (\<lambda>a b. cmp a b \<le> 0) (insertSorted cmp x ys)"
  using assms(3,4)
proof (induction ys)
  case Nil
  then show ?case by simp
next
  case (Cons y ys)
  show ?case
  proof (cases "cmp x y \<le> 0")
    case True
    have "cmp x z \<le> 0" if "z \<in> set ys" for z
    proof -
      have "cmp y z \<le> 0" using Cons.prems(2) that by auto
      moreover have "y \<in> S" "z \<in> S" using Cons.prems(1) that by auto
      ultimately show ?thesis
        using assms(1,2) True unfolding consistentOn_def by blast
    qed
    then show ?thesis using True Cons.prems by auto
  next
    case False
    have "y \<in> S" using Cons.prems(1) by auto
    then have "cmp y x \<le> 0"
      using assms(1,2) False unfolding consistentOn_def by blast
    moreover have "sorted_wrt (\<lambda>a b. cmp a b \<le> 0) (insertSorted cmp x ys)"
      using Cons by auto
    ultimately show ?thesis using False Cons.prems by (auto simp: set_insertSorted)
  qed
qed

lemma sorted_arraySort:
  assumes "consistentOn S cmp" "set xs \<subseteq> S"
  shows "sorted_wrt (\<lambda>a b. cmp a b \<le> 0) (arraySort cmp xs)"
  using assms(2)
proof (induction xs)
  case Nil
  then show ?case by (simp add: arraySort_def)
next
  case (Cons x xs)
  have "sorted_wrt (\<lambda>a b. cmp a b \<le> 0) (insertSorted cmp x (arraySort cmp xs))"
    using Cons assms(1) by (intro sorted_insertSorted [where S = S]) (auto simp: set_arraySort)
  then show ?case by (simp add: arraySort_def)
qed

lemma consistentOn_key:
  "consistentOn S (\<lambda>a b. int (k b) - int (k a))"
  by (auto simp: consistentOn_def)

lemma consistentOn_intkey:
  "consistentOn S (\<lambda>a b. (k b :: int) - k a)"
  by (auto simp: consistentOn_def)

lemma sorted_desc_arraySort:
  "sorted_wrt (\<lambda>a b. k a \<ge> k b) (arraySort (\<lambda>a b. int (k b) - int (k a)) xs)"
  using sorted_arraySort [OF consistentOn_key [of UNIV k], of xs] by simp

lemma field_simps [simp]:
  "field k (JObj fs) = (case map_of fs k of Some v \<Rightarrow> v | None \<Rightarrow> JUndefined)"
  by (simp add: field_def)

lemma empty_string_least: "s \<noteq> [] \<Longrightarrow> ([]::string) < s"
  by (cases s) auto

lemma not_below_empty: "start \<noteq> [] \<Longrightarrow> \<not> start \<le> ([]::string)"
  by (cases start) auto

section \<open>Tasks completed today\<close>

text \<open>
  C5. Whatever list the fetch with the \<^verbatim>\<open>completed_since\<close> filter returns, the tool keeps
  exactly the tasks whose \<^verbatim>\<open>completed\<close> flag is true and whose \<^verbatim>\<open>completed_at\<close> is
  present and not below the ISO string of the start of the local day; the start of day is
  a non-empty string.
\<close>

theorem getTasksCompletedToday_membership:
  assumes fetched: "tasksApi_getTasks api
            (noFilter\<lparr>q_completed_since := Some (todayStart rt), q_assignee := a\<rparr>) = Inr tasks"
    and start: "todayStart rt \<noteq> []"
  shows "field ''tasks'' (getTasksCompletedToday api rt a)
           = JArr (map formatCompleted (filter (completedTodayFilter (todayStart rt)) tasks))
         \<and> field ''count'' (getTasksCompletedToday api rt a)
           = JNum (int (length (filter (completedTodayFilter (todayStart rt)) tasks)))
         \<and> (\<forall>t. completedTodayFilter (todayStart rt) t
                 = (completed t \<and> (\<exists>c. completed_at t = Some c \<and> todayStart rt \<le> c)))"
proof -
  have "getTasks api (noFilter\<lparr>q_completed_since := Some (todayStart rt), q_assignee := a\<rparr>)
          = Inr tasks"
    using fetched by (simp add: getTasks_def rethrow_def)
  then have "getTasksCompletedToday_try api rt a =
      (let completedToday = filter (completedTodayFilter (todayStart rt)) tasks
           in if length completedToday = 0
              then Inr (JObj [(''message'', JStr ''No tasks were completed today.''),
                              (''count'', JNum 0),
                              (''tasks'', JArr [])])
              else Inr (JObj [(''message'', JStr (showNat (length completedToday)
                                                    @ '' task(s) completed today.'')),
                              (''count'', JNum (int (length completedToday))),
                              (''tasks'', JArr (map formatCompleted completedToday)),
                              (''date'', JStr (todayStr rt))]))"
    by (simp add: getTasksCompletedToday_try_def)
  then have res: "field ''tasks'' (getTasksCompletedToday api rt a)
           = JArr (map formatCompleted (filter (completedTodayFilter (todayStart rt)) tasks))
         \<and> field ''count'' (getTasksCompletedToday api rt a)
           = JNum (int (length (filter (completedTodayFilter (todayStart rt)) tasks)))"
    by (simp add: getTasksCompletedToday_def Let_def)
  have "completedTodayFilter (todayStart rt) t
          = (completed t \<and> (\<exists>c. completed_at t = Some c \<and> todayStart rt \<le> c))" for t
    using not_below_empty [OF start]
    by (auto simp: completedTodayFilter_def split: option.splits)
  with res show ?thesis by blast
qed

theorem getTasksCompletedToday_membership_witness:
  "tasksApi_getTasks demoApi
     (noFilter\<lparr>q_completed_since := Some (todayStart demoRuntime), q_assignee := None\<rparr>) = Inr demoTasks
   \<and> todayStart demoRuntime \<noteq> []
   \<and> field ''count'' (getTasksCompletedToday demoApi demoRuntime None) = JNum 1
   \<and> field ''tasks'' (getTasksCompletedToday demoApi demoRuntime None)
       = JArr [formatCompleted (mkTask ''t2'' ''Fix bug'' True (Some ''2024-01-15T09:30:00.000Z'')
                                  (Some ''2024-01-12'') (Some bob))]"
proof -
  have h1: "tasksApi_getTasks demoApi
     (noFilter\<lparr>q_completed_since := Some (todayStart demoRuntime), q_assignee := None\<rparr>) = Inr demoTasks"
    by (simp add: demoApi_def)
  have h2: "todayStart demoRuntime \<noteq> []"
    by (simp add: demoRuntime_def)
  have f: "filter (completedTodayFilter (todayStart demoRuntime)) demoTasks
         = [mkTask ''t2'' ''Fix bug'' True (Some ''2024-01-15T09:30:00.000Z'')
                                  (Some ''2024-01-12'') (Some bob)]"
    by (simp add: demoTasks_def demoRuntime_def completedTodayFilter_def mkTask_def)
  show ?thesis
    using getTasksCompletedToday_membership [OF h1 h2] h1 h2 by (simp add: f)
qed

section \<open>Overdue tasks\<close>

text \<open>
  C4. The tool returns the formatted \<^verbatim>\<open>overdueTasks\<close>; a fetched task is among them
  exactly when it is not completed and its \<^verbatim>\<open>due_on\<close> is a present, non-empty string
  strictly below today's date string; and the list is ascending by \<^verbatim>\<open>due_on\<close> in the
  order of \<^verbatim>\<open>localeCompare\<close>, a consistent comparator.
\<close>

theorem getOverdueTasks_filter_sorted:
  assumes fetched: "tasksApi_getTasks api (noFilter\<lparr>q_assignee := a\<rparr>) = Inr tasks"
    and cmp: "consistentOn UNIV (localeCompare rt)"
  shows "field ''tasks'' (getOverdueTasks api rt a) = JArr (map (formatOverdue rt) (overdueTasks rt tasks))
         \<and> set (overdueTasks rt tasks)
             = {t \<in> set tasks. \<not> completed t \<and> (\<exists>d. due_on t = Some d \<and> d \<noteq> [] \<and> d < todayStr rt)}
         \<and> length (overdueTasks rt tasks) = length (filter (isOverdue (todayStr rt)) tasks)
         \<and> sorted_wrt (\<lambda>s t. \<exists>x y. due_on s = Some x \<and> due_on t = Some y \<and> localeCompare rt x y \<le> 0)
              (overdueTasks rt tasks)"
proof -
  let ?over = "filter (isOverdue (todayStr rt)) tasks"
  have "getTasks api (noFilter\<lparr>q_assignee := a\<rparr>) = Inr tasks"
    using fetched by (simp add: getTasks_def rethrow_def)
  then have body: "getOverdueTasks_try api rt a =
      (if length ?over = 0
           then Inr (JObj [(''message'', JStr ''No overdue tasks found.''),
                           (''count'', JNum 0),
                           (''tasks'', JArr [])])
           else Inr (JObj [(''message'', JStr (showNat (length (overdueTasks rt tasks))
                                                 @ '' overdue task(s) found.'')),
                           (''count'', JNum (int (length (overdueTasks rt tasks)))),
                           (''tasks'', JArr (map (formatOverdue rt) (overdueTasks rt tasks)))]))"
    by (simp add: getOverdueTasks_try_def)
  have empty: "overdueTasks rt tasks = []" if "?over = []"
    using that by (simp add: overdueTasks_def arraySort_def)
  have c1: "field ''tasks'' (getOverdueTasks api rt a)
              = JArr (map (formatOverdue rt) (overdueTasks rt tasks))"
    using body empty by (simp add: getOverdueTasks_def)
  have c2: "set (overdueTasks rt tasks)
             = {t \<in> set tasks. \<not> completed t \<and> (\<exists>d. due_on t = Some d \<and> d \<noteq> [] \<and> d < todayStr rt)}"
    by (auto simp: overdueTasks_def set_arraySort isOverdue_def split: option.splits)
  have c3: "length (overdueTasks rt tasks) = length ?over"
    by (simp add: overdueTasks_def length_arraySort)
  have dated: "\<exists>d. due_on t = Some d \<and> d \<noteq> []" if "t \<in> set ?over" for t
    using that by (auto simp: isOverdue_def split: option.splits)
  let ?S = "{t::AsanaTask. \<exists>d. due_on t = Some d \<and> d \<noteq> []}"
  have "consistentOn ?S (compareDueOn rt)"
    unfolding consistentOn_def
  proof (intro conjI ballI impI)
    fix s t assume "s \<in> ?S" "t \<in> ?S"
    then show "compareDueOn rt s t \<le> 0 \<or> compareDueOn rt t s \<le> 0"
      using cmp by (auto simp: compareDueOn_def consistentOn_def) blast
  next
    fix s t u assume "s \<in> ?S" "t \<in> ?S" "u \<in> ?S"
      and "compareDueOn rt s t \<le> 0" "compareDueOn rt t u \<le> 0"
    then show "compareDueOn rt s u \<le> 0"
      using cmp by (auto simp: compareDueOn_def consistentOn_def)
  qed
  moreover have "set ?over \<subseteq> ?S" using dated by blast
  ultimately have "sorted_wrt (\<lambda>s t. compareDueOn rt s t \<le> 0) (overdueTasks rt tasks)"
    unfolding overdueTasks_def by (rule sorted_arraySort)
  then have c4: "sorted_wrt (\<lambda>s t. \<exists>x y. due_on s = Some x \<and> due_on t = Some y \<and> localeCompare rt x y \<le> 0)
              (overdueTasks rt tasks)"
  proof (rule sorted_wrt_mono_rel [rotated])
    fix s t assume "s \<in> set (overdueTasks rt tasks)" "t \<in> set (overdueTasks rt tasks)"
      and le: "compareDueOn rt s t \<le> 0"
    then have "s \<in> set ?over" "t \<in> set ?over"
      by (simp_all add: overdueTasks_def set_arraySort)
    then obtain x y where "due_on s = Some x" "x \<noteq> []" "due_on t = Some y" "y \<noteq> []"
      using dated by blast
    then show "\<exists>x y. due_on s = Some x \<and> due_on t = Some y \<and> localeCompare rt x y \<le> 0"
      using le by (simp add: compareDueOn_def)
  qed
  from c1 c2 c3 c4 show ?thesis by blast
qed

lemma consistentOn_codeUnitCompare: "consistentOn S codeUnitCompare"
  by (auto simp: consistentOn_def codeUnitCompare_def split: if_splits)

theorem getOverdueTasks_filter_sorted_witness:
  "tasksApi_getTasks demoApi (noFilter\<lparr>q_assignee := None\<rparr>) = Inr demoTasks
   \<and> consistentOn UNIV (localeCompare demoRuntime)
   \<and> overdueTasks demoRuntime demoTasks
       = [mkTask ''t3'' ''Plan sprint'' False None (Some ''2024-01-05'') None,
          mkTask ''t1'' ''Write report'' False None (Some ''2024-01-10'') (Some alice)]
   \<and> field ''tasks'' (getOverdueTasks demoApi demoRuntime None)
       = JArr (map (formatOverdue demoRuntime)
           [mkTask ''t3'' ''Plan sprint'' False None (Some ''2024-01-05'') None,
            mkTask ''t1'' ''Write report'' False None (Some ''2024-01-10'') (Some alice)])"
proof -
  have h1: "tasksApi_getTasks demoApi (noFilter\<lparr>q_assignee := None\<rparr>) = Inr demoTasks"
    by (simp add: demoApi_def)
  have h2: "consistentOn UNIV (localeCompare demoRuntime)"
    by (simp add: demoRuntime_def consistentOn_codeUnitCompare)
  have f: "overdueTasks demoRuntime demoTasks
       = [mkTask ''t3'' ''Plan sprint'' False None (Some ''2024-01-05'') None,
          mkTask ''t1'' ''Write report'' False None (Some ''2024-01-10'') (Some alice)]"
    by (simp add: overdueTasks_def demoTasks_def demoRuntime_def isOverdue_def mkTask_def
        arraySort_def compareDueOn_def codeUnitCompare_def)
  show ?thesis
    using getOverdueTasks_filter_sorted [OF h1 h2] h1 h2 by (simp add: f)
qed

section \<open>Team workload\<close>

lemma floor_half: "\<lfloor>(1 / 2 :: rat)\<rfloor> = 0"
  by (simp add: floor_eq_iff)

lemma completionRate_none_completed: "completionRate 0 n = 0"
  by (simp add: completionRate_def jsDiv_def jsMul_def roundDouble_def mathRound_def floor_half)

lemma completionRate_no_tasks: "completionRate c 0 = 0"
  by (simp add: completionRate_def)

lemma map_of_mapAdjust:
  "map_of (mapAdjust k f m) k' = (if k' = k then map_option f (map_of m k) else map_of m k')"
  by (induction m) auto

lemma map_fst_mapAdjust: "map fst (mapAdjust k f m) = map fst m"
  by (induction m) auto

lemma set_mapAdjust:
  "(k', w) \<in> set (mapAdjust k f m) \<Longrightarrow> (k', w) \<in> set m \<or> (\<exists>v. (k', v) \<in> set m \<and> w = f v)"
proof (induction m)
  case Nil
  then show ?case by simp
next
  case (Cons p m)
  obtain a b where p: "p = (a, b)" by (cases p)
  show ?case
  proof (cases "a = k")
    case True
    then have "(k', w) = (a, f b) \<or> (k', w) \<in> set m"
      using Cons.prems p by simp
    then show ?thesis using p by auto
  next
    case False
    then have "(k', w) = (a, b) \<or> (k', w) \<in> set (mapAdjust k f m)"
      using Cons.prems p by simp
    then show ?thesis using Cons.IH p by auto
  qed
qed

lemma totalTasks_tally: "totalTasks (tally today t w) = Suc (totalTasks w)"
  by (simp add: tally_def Let_def split: option.splits)

lemma completedTasks_tally:
  "\<not> completed t \<Longrightarrow> completedTasks (tally today t w) = completedTasks w"
  by (simp add: tally_def Let_def split: option.splits)

lemma wl_user_tally: "wl_user (tally today t w) = wl_user w"
  by (simp add: tally_def Let_def split: option.splits)

lemma sum_mapAdjust_tally:
  "map_of m k \<noteq> None \<Longrightarrow>
     sum_list (map (\<lambda>kv. totalTasks (snd kv)) (mapAdjust k (tally today t) m))
       = Suc (sum_list (map (\<lambda>kv. totalTasks (snd kv)) m))"
  by (induction m) (auto simp: totalTasks_tally)

lemma workloadMap_snoc:
  "workloadMap i today (ts @ [t]) = workloadStep i today (workloadMap i today ts) t"
  by (simp add: workloadMap_def)

lemma map_of_workloadStep:
  "map_of (workloadStep i today m t) g =
     (if \<not> i \<and> completed t then map_of m g
      else if g = assigneeGid t
           then Some (tally today t (case map_of m g of Some w \<Rightarrow> w | None \<Rightarrow> newBucket t))
           else map_of m g)"
  by (auto simp: workloadStep_def Let_def map_of_mapAdjust newBucket_def map_add_def
      split: option.splits)

lemma sum_workloadStep:
  "sum_list (map (\<lambda>kv. totalTasks (snd kv)) (workloadStep i today m t))
     = sum_list (map (\<lambda>kv. totalTasks (snd kv)) m) + (if \<not> i \<and> completed t then 0 else 1)"
proof (cases "\<not> i \<and> completed t")
  case True
  then show ?thesis by (simp add: workloadStep_def)
next
  case False
  let ?g = "assigneeGid t"
  let ?m1 = "if map_of m ?g = None then m @ [(?g, newBucket t)] else m"
  have step: "workloadStep i today m t = mapAdjust ?g (tally today t) ?m1"
    using False by (auto simp: workloadStep_def Let_def newBucket_def)
  have "map_of ?m1 ?g \<noteq> None" by (auto simp: map_add_def split: option.splits)
  then have "sum_list (map (\<lambda>kv. totalTasks (snd kv)) (mapAdjust ?g (tally today t) ?m1))
               = Suc (sum_list (map (\<lambda>kv. totalTasks (snd kv)) ?m1))"
    by (rule sum_mapAdjust_tally)
  moreover have "sum_list (map (\<lambda>kv. totalTasks (snd kv)) ?m1)
                   = sum_list (map (\<lambda>kv. totalTasks (snd kv)) m)"
    by (simp add: newBucket_def)
  ultimately show ?thesis using False step by simp
qed

lemma sum_workloadMap:
  "sum_list (map (\<lambda>kv. totalTasks (snd kv)) (workloadMap False today ts))
     = length (filter (\<lambda>t. \<not> completed t) ts)"
proof (induction ts rule: rev_induct)
  case Nil
  then show ?case by (simp add: workloadMap_def)
next
  case (snoc t ts)
  then show ?case by (simp add: workloadMap_snoc sum_workloadStep)
qed

lemma none_completed_workloadStep:
  assumes "\<forall>kv \<in> set m. completedTasks (snd kv) = 0"
  shows "\<forall>kv \<in> set (workloadStep False today m t). completedTasks (snd kv) = 0"
proof (cases "completed t")
  case True
  then show ?thesis using assms by (simp add: workloadStep_def)
next
  case False
  let ?g = "assigneeGid t"
  let ?m1 = "if map_of m ?g = None then m @ [(?g, newBucket t)] else m"
  have step: "workloadStep False today m t = mapAdjust ?g (tally today t) ?m1"
    using False by (auto simp: workloadStep_def Let_def newBucket_def)
  have m1: "\<forall>kv \<in> set ?m1. completedTasks (snd kv) = 0"
    using assms by (auto simp: newBucket_def)
  show ?thesis
  proof
    fix kv assume "kv \<in> set (workloadStep False today m t)"
    then have "(fst kv, snd kv) \<in> set (mapAdjust ?g (tally today t) ?m1)"
      using step by simp
    then have "(fst kv, snd kv) \<in> set ?m1 \<or> (\<exists>v. (fst kv, v) \<in> set ?m1 \<and> snd kv = tally today t v)"
      by (rule set_mapAdjust)
    then show "completedTasks (snd kv) = 0"
      using m1 False by (auto simp: completedTasks_tally)
  qed
qed

lemma none_completed_workloadMap:
  "\<forall>kv \<in> set (workloadMap False today ts). completedTasks (snd kv) = 0"
proof (induction ts rule: rev_induct)
  case Nil
  then show ?case by (simp add: workloadMap_def)
next
  case (snoc t ts)
  then show ?case by (simp add: workloadMap_snoc none_completed_workloadStep)
qed

lemma none_completed_workloadArray:
  "w \<in> set (workloadArray False today ts) \<Longrightarrow> completedTasks w = 0"
  using none_completed_workloadMap [of today ts]
  by (auto simp: workloadArray_def set_arraySort)

lemma foldl_add_totalTasks:
  "foldl (\<lambda>n w. n + totalTasks w) a ws = a + sum_list (map totalTasks ws)"
  by (induction ws arbitrary: a) auto

lemma getTeamWorkload_fetched:
  assumes "tasksApi_getTasks api noFilter = Inr tasks"
  shows "getTeamWorkload api rt i =
     (let ws = workloadArray i (todayStr rt) tasks
      in if length ws = 0
         then JObj [(''message'', JStr ''No tasks found for workload analysis.''),
                    (''teamMembers'', JNum 0),
                    (''workload'', JArr [])]
         else JObj [(''message'', JStr (''Workload analysis for '' @ showNat (length ws)
                                          @ '' team member(s).'')),
                    (''teamMembers'', JNum (int (length ws))),
                    (''totalTasks'', JNum (int (foldl (\<lambda>n w. n + totalTasks w) 0 ws))),
                    (''workload'', JArr (map workloadSummary ws))])"
proof -
  have "getTasks api noFilter = Inr tasks"
    using assms by (simp add: getTasks_def rethrow_def)
  then show ?thesis
    by (simp add: getTeamWorkload_def getTeamWorkload_try_def Let_def)
qed

lemma getTeamWorkload_workload:
  assumes "tasksApi_getTasks api noFilter = Inr tasks"
  shows "field ''workload'' (getTeamWorkload api rt i)
           = JArr (map workloadSummary (workloadArray i (todayStr rt) tasks))"
  using getTeamWorkload_fetched [OF assms, of rt i] by (simp add: Let_def)

text \<open>
  C10. With \<^verbatim>\<open>includeCompleted = false\<close> completed tasks are skipped before they reach a
  bucket, so every entry of the returned workload has \<^verbatim>\<open>completedTasks\<close> 0 and
  \<^verbatim>\<open>completionRate\<close> 0.
\<close>

theorem getTeamWorkload_open_only_rate_zero:
  assumes fetched: "tasksApi_getTasks api noFilter = Inr tasks"
  shows "field ''workload'' (getTeamWorkload api rt False)
           = JArr (map workloadSummary (workloadArray False (todayStr rt) tasks))
         \<and> (\<forall>w \<in> set (workloadArray False (todayStr rt) tasks).
               field ''completedTasks'' (workloadSummary w) = JNum 0
               \<and> field ''completionRate'' (workloadSummary w) = JNum 0)"
proof -
  have "field ''completedTasks'' (workloadSummary w) = JNum 0
        \<and> field ''completionRate'' (workloadSummary w) = JNum 0"
    if "w \<in> set (workloadArray False (todayStr rt) tasks)" for w
  proof -
    have "completedTasks w = 0" using that by (rule none_completed_workloadArray)
    then show ?thesis by (simp add: workloadSummary_def completionRate_none_completed)
  qed
  then show ?thesis using getTeamWorkload_workload [OF fetched] by blast
qed

lemma demo_workloadArray:
  "workloadArray False (todayStr demoRuntime) demoTasks
     = [\<lparr>wl_user = alice, totalTasks = 2, completedTasks = 0, overdueTasks_n = 1, upcomingTasks = 1\<rparr>,
        \<lparr>wl_user = unassignedUser, totalTasks = 1, completedTasks = 0, overdueTasks_n = 1,
          upcomingTasks = 0\<rparr>]"
  by (simp add: workloadArray_def workloadMap_def workloadStep_def demoTasks_def mkTask_def
      demoRuntime_def assigneeGid_def orElse_def alice_def newBucket_def tally_def
      arraySort_def Let_def)

theorem getTeamWorkload_open_only_rate_zero_witness:
  "tasksApi_getTasks demoApi noFilter = Inr demoTasks
   \<and> field ''workload'' (getTeamWorkload demoApi demoRuntime False)
     = JArr [JObj [(''user'', JStr ''Alice''), (''userGid'', JStr ''u1''),
                   (''totalTasks'', JNum 2), (''completedTasks'', JNum 0),
                   (''overdueTasks'', JNum 1), (''upcomingTasks'', JNum 1),
                   (''completionRate'', JNum 0)],
             JObj [(''user'', JStr ''Unassigned''), (''userGid'', JStr ''unassigned''),
                   (''totalTasks'', JNum 1), (''completedTasks'', JNum 0),
                   (''overdueTasks'', JNum 1), (''upcomingTasks'', JNum 0),
                   (''completionRate'', JNum 0)]]"
proof -
  have h: "tasksApi_getTasks demoApi noFilter = Inr demoTasks"
    by (simp add: demoApi_def)
  show ?thesis
    using getTeamWorkload_open_only_rate_zero [OF h, of demoRuntime] h
    by (simp add: demo_workloadArray workloadSummary_def alice_def unassignedUser_def
        completionRate_none_completed)
qed

lemma keyed_workloadMap:
  "case map_of (workloadMap False today ts) g of
     None \<Rightarrow> filter (\<lambda>t. \<not> completed t \<and> assigneeGid t = g) ts = []
   | Some w \<Rightarrow>
       filter (\<lambda>t. \<not> completed t \<and> assigneeGid t = g) ts \<noteq> []
       \<and> totalTasks w = length (filter (\<lambda>t. \<not> completed t \<and> assigneeGid t = g) ts)
       \<and> wl_user w = wl_user (newBucket (hd (filter (\<lambda>t. \<not> completed t \<and> assigneeGid t = g) ts)))"
proof (induction ts rule: rev_induct)
  case Nil
  then show ?case by (simp add: workloadMap_def)
next
  case (snoc t ts)
  let ?m = "workloadMap False today ts"
  let ?P = "\<lambda>t. \<not> completed t \<and> assigneeGid t = g"
  show ?case
  proof (cases "?P t")
    case False
    then have e1: "map_of (workloadMap False today (ts @ [t])) g = map_of ?m g"
      by (auto simp: workloadMap_snoc map_of_workloadStep)
    have e2: "filter ?P (ts @ [t]) = filter ?P ts" using False by simp
    show ?thesis unfolding e1 e2 by (rule snoc.IH)
  next
    case True
    then have step: "map_of (workloadMap False today (ts @ [t])) g
        = Some (tally today t (case map_of ?m g of Some w \<Rightarrow> w | None \<Rightarrow> newBucket t))"
      by (simp add: workloadMap_snoc map_of_workloadStep)
    have app: "filter ?P (ts @ [t]) = filter ?P ts @ [t]" using True by simp
    show ?thesis
    proof (cases "map_of ?m g")
      case None
      then have "filter ?P ts = []" using snoc by simp
      then show ?thesis
        using step None app by (simp add: totalTasks_tally wl_user_tally newBucket_def)
    next
      case (Some w)
      then have "filter ?P ts \<noteq> []"
        and "totalTasks w = length (filter ?P ts)"
        and "wl_user w = wl_user (newBucket (hd (filter ?P ts)))"
        using snoc by simp_all
      then show ?thesis
        using step Some app by (simp add: totalTasks_tally wl_user_tally)
    qed
  qed
qed

lemma distinct_keys_workloadStep:
  "distinct (map fst m) \<Longrightarrow> distinct (map fst (workloadStep i today m t))"
  by (auto simp: workloadStep_def Let_def map_fst_mapAdjust map_of_eq_None_iff)

lemma distinct_keys_workloadMap: "distinct (map fst (workloadMap i today ts))"
proof (induction ts rule: rev_induct)
  case Nil
  then show ?case by (simp add: workloadMap_def)
next
  case (snoc t ts)
  then show ?case by (simp add: workloadMap_snoc distinct_keys_workloadStep)
qed

lemma sorted_workloadArray:
  "sorted_wrt (\<lambda>a b. totalTasks a \<ge> totalTasks b) (workloadArray i today ts)"
  unfolding workloadArray_def by (rule sorted_desc_arraySort)

lemma sum_workloadArray:
  "sum_list (map totalTasks (workloadArray False today ts)) = length (filter (\<lambda>t. \<not> completed t) ts)"
proof -
  have "sum_list (map totalTasks (workloadArray False today ts))
          = sum_list (map totalTasks (map snd (workloadMap False today ts)))"
    by (simp add: workloadArray_def sum_list_arraySort)
  also have "\<dots> = sum_list (map (\<lambda>kv. totalTasks (snd kv)) (workloadMap False today ts))"
    by (simp add: comp_def)
  finally show ?thesis by (simp add: sum_workloadMap)
qed

text \<open>
  In the mode that counts completed tasks the rate is the rounding of a double product,
  which can differ from the rounding of the exact quotient: 29 of 200 is 14.5 percent, and
  the tool reports 14.
\<close>

lemma completionRate_double_rounding: "completionRate 29 200 = 14"
  by code_simp

text \<open>
  C6. With \<^verbatim>\<open>includeCompleted = false\<close>: the \<^verbatim>\<open>totalTasks\<close> of the buckets sum to the
  number of incomplete fetched tasks, which is also the \<^verbatim>\<open>totalTasks\<close> of the result;
  each bucket's rate is the rounding of completed / total * 100, and the rate of an empty
  bucket is 0; the buckets are in descending order of \<^verbatim>\<open>totalTasks\<close>; there is one
  bucket per assignee key, holding the incomplete tasks of that key, and a task without
  assignee has the key \<^verbatim>\<open>unassigned\<close>, whose bucket carries the synthetic user when its
  first task has no assignee.
\<close>

theorem getTeamWorkload_open_only:
  assumes fetched: "tasksApi_getTasks api noFilter = Inr tasks"
    and wm: "wm = workloadMap False (todayStr rt) tasks"
    and ws: "ws = workloadArray False (todayStr rt) tasks"
  shows "field ''workload'' (getTeamWorkload api rt False) = JArr (map workloadSummary ws)
    \<and> sum_list (map totalTasks ws) = length (filter (\<lambda>t. \<not> completed t) tasks)
    \<and> (ws \<noteq> [] \<longrightarrow> field ''totalTasks'' (getTeamWorkload api rt False)
                        = JNum (int (length (filter (\<lambda>t. \<not> completed t) tasks))))
    \<and> (\<forall>w \<in> set ws. field ''completionRate'' (workloadSummary w)
          = JNum \<lfloor>(of_nat (completedTasks w) / of_nat (totalTasks w) * 100 + 1 / 2 :: rat)\<rfloor>)
    \<and> (\<forall>c. completionRate c 0 = 0)
    \<and> sorted_wrt (\<lambda>a b. totalTasks a \<ge> totalTasks b) ws
    \<and> set ws = snd ` set wm \<and> distinct (map fst wm)
    \<and> (\<forall>g. (map_of wm g \<noteq> None) = (\<exists>t \<in> set tasks. \<not> completed t \<and> assigneeGid t = g))
    \<and> (\<forall>g w. map_of wm g = Some w \<longrightarrow>
          totalTasks w = length (filter (\<lambda>t. \<not> completed t \<and> assigneeGid t = g) tasks)
          \<and> wl_user w = (case assignee (hd (filter (\<lambda>t. \<not> completed t \<and> assigneeGid t = g) tasks)) of
                           Some u \<Rightarrow> u | None \<Rightarrow> unassignedUser))
    \<and> (\<forall>t. assignee t = None \<longrightarrow> assigneeGid t = ''unassigned'')"
proof -
  have c1: "field ''workload'' (getTeamWorkload api rt False) = JArr (map workloadSummary ws)"
    unfolding ws using fetched by (rule getTeamWorkload_workload)
  have c2: "sum_list (map totalTasks ws) = length (filter (\<lambda>t. \<not> completed t) tasks)"
    unfolding ws by (rule sum_workloadArray)
  have c3: "field ''totalTasks'' (getTeamWorkload api rt False)
              = JNum (int (length (filter (\<lambda>t. \<not> completed t) tasks)))" if "ws \<noteq> []"
    using getTeamWorkload_fetched [OF fetched, of rt False] that c2
    by (simp add: Let_def ws [symmetric] foldl_add_totalTasks)
  have c4: "field ''completionRate'' (workloadSummary w)
          = JNum \<lfloor>(of_nat (completedTasks w) / of_nat (totalTasks w) * 100 + 1 / 2 :: rat)\<rfloor>"
    if "w \<in> set ws" for w
  proof -
    have "completedTasks w = 0" using that unfolding ws by (rule none_completed_workloadArray)
    then show ?thesis
      by (simp add: workloadSummary_def completionRate_none_completed floor_half)
  qed
  have c5: "completionRate c 0 = 0" for c by (rule completionRate_no_tasks)
  have c6: "sorted_wrt (\<lambda>a b. totalTasks a \<ge> totalTasks b) ws"
    unfolding ws by (rule sorted_workloadArray)
  have c7: "set ws = snd ` set wm" by (simp add: ws wm workloadArray_def set_arraySort)
  have c8: "distinct (map fst wm)" unfolding wm by (rule distinct_keys_workloadMap)
  have c9: "(map_of wm g \<noteq> None) = (\<exists>t \<in> set tasks. \<not> completed t \<and> assigneeGid t = g)" for g
    using keyed_workloadMap [where today = "todayStr rt" and ts = tasks and g = g] unfolding wm
    by (auto simp: filter_empty_conv split: option.splits)
  have c10: "totalTasks w = length (filter (\<lambda>t. \<not> completed t \<and> assigneeGid t = g) tasks)
          \<and> wl_user w = (case assignee (hd (filter (\<lambda>t. \<not> completed t \<and> assigneeGid t = g) tasks)) of
                           Some u \<Rightarrow> u | None \<Rightarrow> unassignedUser)"
    if "map_of wm g = Some w" for g w
    using keyed_workloadMap [where today = "todayStr rt" and ts = tasks and g = g] that unfolding wm
    by (simp add: newBucket_def)
  have c11: "assigneeGid t = ''unassigned''" if "assignee t = None" for t
    using that by (simp add: assigneeGid_def orElse_def)
  from c1 c2 c3 c4 c5 c6 c7 c8 c9 c10 c11 show ?thesis by blast
qed

lemma demo_workloadMap_unassigned:
  "map_of (workloadMap False (todayStr demoRuntime) demoTasks) ''unassigned''
     = Some \<lparr>wl_user = unassignedUser, totalTasks = 1, completedTasks = 0, overdueTasks_n = 1,
             upcomingTasks = 0\<rparr>"
  by (simp add: workloadMap_def workloadStep_def demoTasks_def mkTask_def
      demoRuntime_def assigneeGid_def orElse_def alice_def newBucket_def tally_def Let_def)

theorem getTeamWorkload_open_only_witness:
  "tasksApi_getTasks demoApi noFilter = Inr demoTasks
   \<and> workloadArray False (todayStr demoRuntime) demoTasks \<noteq> []
   \<and> sum_list (map totalTasks (workloadArray False (todayStr demoRuntime) demoTasks)) = 3
   \<and> length (filter (\<lambda>t. \<not> completed t) demoTasks) = 3
   \<and> field ''totalTasks'' (getTeamWorkload demoApi demoRuntime False) = JNum 3
   \<and> map totalTasks (workloadArray False (todayStr demoRuntime) demoTasks) = [2, 1]
   \<and> map (\<lambda>w. user_gid (wl_user w)) (workloadArray False (todayStr demoRuntime) demoTasks)
       = [''u1'', ''unassigned'']
   \<and> map (\<lambda>w. field ''completionRate'' (workloadSummary w))
        (workloadArray False (todayStr demoRuntime) demoTasks) = [JNum 0, JNum 0]
   \<and> map_of (workloadMap False (todayStr demoRuntime) demoTasks) ''unassigned''
       = Some \<lparr>wl_user = unassignedUser, totalTasks = 1, completedTasks = 0, overdueTasks_n = 1,
               upcomingTasks = 0\<rparr>
   \<and> length (filter (\<lambda>t. \<not> completed t \<and> assigneeGid t = ''unassigned'') demoTasks) = 1
   \<and> assignee (mkTask ''t3'' ''Plan sprint'' False None (Some ''2024-01-05'') None) = None
   \<and> assigneeGid (mkTask ''t3'' ''Plan sprint'' False None (Some ''2024-01-05'') None) = ''unassigned''"
proof -
  have h: "tasksApi_getTasks demoApi noFilter = Inr demoTasks"
    by (simp add: demoApi_def)
  have n: "length (filter (\<lambda>t. \<not> completed t) demoTasks) = 3"
    by (simp add: demoTasks_def mkTask_def)
  have u: "length (filter (\<lambda>t. \<not> completed t \<and> assigneeGid t = ''unassigned'') demoTasks) = 1"
    by (simp add: demoTasks_def mkTask_def assigneeGid_def orElse_def alice_def bob_def)
  have a: "assignee (mkTask ''t3'' ''Plan sprint'' False None (Some ''2024-01-05'') None) = None"
    by (simp add: mkTask_def)
  have k: "assigneeGid (mkTask ''t3'' ''Plan sprint'' False None (Some ''2024-01-05'') None) = ''unassigned''"
    using getTeamWorkload_open_only [OF h refl refl, of demoRuntime] a by blast
  show ?thesis
    using getTeamWorkload_open_only [OF h refl refl, of demoRuntime] h n u a k
    by (simp add: demo_workloadArray demo_workloadMap_unassigned alice_def unassignedUser_def
        workloadSummary_def completionRate_none_completed)
qed

section \<open>Most postponed tasks\<close>

lemma tasksWithChanges_skips_failures:
  "tasksWithChanges api (filter (historyFetched api) ts) = tasksWithChanges api ts"
  by (induction ts) (auto simp: historyFetched_def Let_def split: sum.splits)

lemma length_slice0: "0 \<le> e \<Longrightarrow> int (length (slice0 xs e)) \<le> e"
  by (simp add: slice0_def Let_def)

lemma sorted_slice0: "sorted_wrt R xs \<Longrightarrow> sorted_wrt R (slice0 xs e)"
  by (simp add: slice0_def Let_def sorted_wrt_take)

lemma sorted_sortedByChanges:
  "sorted_wrt (\<lambda>a b. changeCount a \<ge> changeCount b) (sortedByChanges api ts)"
  unfolding sortedByChanges_def by (rule sorted_desc_arraySort)

lemma topPostponed_empty: "tasksWithChanges api ts = [] \<Longrightarrow> topPostponed api limit ts = []"
  by (simp add: topPostponed_def sortedByChanges_def arraySort_def slice0_def)

lemma getMostPostponedTasks_fetched:
  assumes "tasksApi_getTasks api noFilter = Inr tasks"
  shows "field ''tasks'' (getMostPostponedTasks api limit)
           = JArr (map postponedJson (topPostponed api limit (incompleteWithDue tasks)))
         \<and> field ''error'' (getMostPostponedTasks api limit) = JUndefined"
proof -
  have "getTasks api noFilter = Inr tasks"
    using assms by (simp add: getTasks_def rethrow_def)
  then show ?thesis
    by (auto simp: getMostPostponedTasks_def getMostPostponedTasks_try_def Let_def
        topPostponed_empty)
qed

text \<open>
  C7, for a limit that is not negative. The returned list has at most \<open>limit\<close> entries
  and is in descending order of the change count; the tool returns no error; and the
  scan of the tasks is the scan of those whose history fetch succeeded, so a failing fetch
  only leaves its task out.
\<close>

theorem getMostPostponedTasks_limit_sorted:
  assumes fetched: "tasksApi_getTasks api noFilter = Inr tasks"
    and limit: "0 \<le> limit"
    and shown: "shown = topPostponed api limit (incompleteWithDue tasks)"
  shows "field ''tasks'' (getMostPostponedTasks api limit) = JArr (map postponedJson shown)
    \<and> int (length shown) \<le> limit
    \<and> sorted_wrt (\<lambda>a b. changeCount a \<ge> changeCount b) shown
    \<and> field ''error'' (getMostPostponedTasks api limit) = JUndefined
    \<and> tasksWithChanges api (incompleteWithDue tasks)
        = tasksWithChanges api (filter (historyFetched api) (incompleteWithDue tasks))"
proof -
  have c1: "field ''tasks'' (getMostPostponedTasks api limit) = JArr (map postponedJson shown)"
    and c4: "field ''error'' (getMostPostponedTasks api limit) = JUndefined"
    using getMostPostponedTasks_fetched [OF fetched, of limit] by (simp_all add: shown)
  have c2: "int (length shown) \<le> limit"
    unfolding shown topPostponed_def using limit by (rule length_slice0)
  have c3: "sorted_wrt (\<lambda>a b. changeCount a \<ge> changeCount b) shown"
    unfolding shown topPostponed_def by (rule sorted_slice0) (rule sorted_sortedByChanges)
  have c5: "tasksWithChanges api (incompleteWithDue tasks)
        = tasksWithChanges api (filter (historyFetched api) (incompleteWithDue tasks))"
    by (simp add: tasksWithChanges_skips_failures)
  from c1 c2 c3 c4 c5 show ?thesis by blast
qed

lemma demo_incompleteWithDue:
  "incompleteWithDue demoTasks
     = [mkTask ''t1'' ''Write report'' False None (Some ''2024-01-10'') (Some alice),
        mkTask ''t3'' ''Plan sprint'' False None (Some ''2024-01-05'') None,
        mkTask ''t5'' ''Release'' False None (Some ''2024-02-01'') (Some alice)]"
  by (simp add: incompleteWithDue_def demoTasks_def mkTask_def truthy_def)

lemma demo_sortedByChanges:
  "map (\<lambda>c. (task_gid (dc_task c), changeCount c)) (sortedByChanges demoApi (incompleteWithDue demoTasks))
     = [(''t1'', 2), (''t3'', 1)]"
  by (simp add: demo_incompleteWithDue sortedByChanges_def mkTask_def getTaskStories_def
      rethrow_def demoApi_def demoStories_def mkStory_def isDueDateChange_def truthy_def
      arraySort_def Let_def)

lemma demo_sortedByChanges_length:
  "length (sortedByChanges demoApi (incompleteWithDue demoTasks)) = 2"
  using arg_cong [OF demo_sortedByChanges, of length] by simp

theorem getMostPostponedTasks_limit_sorted_witness:
  "tasksApi_getTasks demoApi noFilter = Inr demoTasks \<and> (0::int) \<le> 1
   \<and> map (\<lambda>c. (task_gid (dc_task c), changeCount c)) (topPostponed demoApi 1 (incompleteWithDue demoTasks))
       = [(''t1'', 2)]
   \<and> int (length (topPostponed demoApi 1 (incompleteWithDue demoTasks))) \<le> 1
   \<and> field ''error'' (getMostPostponedTasks demoApi 1) = JUndefined
   \<and> \<not> historyFetched demoApi (mkTask ''t5'' ''Release'' False None (Some ''2024-02-01'') (Some alice))"
proof -
  have h: "tasksApi_getTasks demoApi noFilter = Inr demoTasks"
    by (simp add: demoApi_def)
  have t: "map (\<lambda>c. (task_gid (dc_task c), changeCount c)) (topPostponed demoApi 1 (incompleteWithDue demoTasks))
       = [(''t1'', 2)]"
    using demo_sortedByChanges demo_sortedByChanges_length
    by (simp add: topPostponed_def slice0_def Let_def take_map [symmetric])
  have f: "\<not> historyFetched demoApi (mkTask ''t5'' ''Release'' False None (Some ''2024-02-01'') (Some alice))"
    by (simp add: historyFetched_def getTaskStories_def rethrow_def demoApi_def demoStories_def mkTask_def)
  show ?thesis
    using getMostPostponedTasks_limit_sorted [OF h _ refl, of 1] h t f by simp
qed

text \<open>
  A negative limit is an end index counted from the end of the array: with limit -1 and
  two tasks with changes the tool returns one task, which is more than the limit.
\<close>

theorem getMostPostponedTasks_negative_limit:
  "map (\<lambda>c. (task_gid (dc_task c), changeCount c))
       (topPostponed demoApi (- 1) (incompleteWithDue demoTasks)) = [(''t1'', 2)]
   \<and> field ''tasks'' (getMostPostponedTasks demoApi (- 1))
       = JArr (map postponedJson (topPostponed demoApi (- 1) (incompleteWithDue demoTasks)))
   \<and> \<not> int (length (topPostponed demoApi (- 1) (incompleteWithDue demoTasks))) \<le> - 1"
proof -
  have h: "tasksApi_getTasks demoApi noFilter = Inr demoTasks"
    by (simp add: demoApi_def)
  have t: "map (\<lambda>c. (task_gid (dc_task c), changeCount c))
       (topPostponed demoApi (- 1) (incompleteWithDue demoTasks)) = [(''t1'', 2)]"
    using demo_sortedByChanges demo_sortedByChanges_length
    by (simp add: topPostponed_def slice0_def Let_def take_map [symmetric])
  show ?thesis
    using getMostPostponedTasks_fetched [OF h, of "- 1"] t by simp
qed

section \<open>Due-date changes of a task\<close>

lemma getTaskDueDateChanges_fetched:
  assumes "tasksApi_getTask api g = Inr task"
    and "storiesApi_getStoriesForTask api g = Inr stories"
  shows "field ''changeCount'' (getTaskDueDateChanges api g)
           = JNum (int (length (filter isDueDateChange stories)))"
    and "field ''changes'' (getTaskDueDateChanges api g)
           = JArr (map changeJson (filter isDueDateChange stories))"
proof -
  have "getTask api g = Inr task" "getTaskStories api g = Inr stories"
    using assms by (simp_all add: getTask_def getTaskStories_def rethrow_def)
  then show "field ''changeCount'' (getTaskDueDateChanges api g)
           = JNum (int (length (filter isDueDateChange stories)))"
    and "field ''changes'' (getTaskDueDateChanges api g)
           = JArr (map changeJson (filter isDueDateChange stories))"
    by (simp_all add: getTaskDueDateChanges_def getTaskDueDateChanges_try_def Let_def)
qed

text \<open>
  C8. When the task and its history are fetched, \<^verbatim>\<open>get_task_due_date_changes\<close>
  reports as \<^verbatim>\<open>changeCount\<close> the number of stories of the history that are due-date
  changes, and as \<^verbatim>\<open>changes\<close> those stories in the order of the history; a story is a
  due-date change exactly when its subtype is \<^verbatim>\<open>due_date_changed\<close> or its old and new due
  dates are both present, not empty, and differ. For the history of the two events
  2024-01-01 to 2024-01-08 and 2024-01-08 to none: when the subtype of the second event is
  \<^verbatim>\<open>due_date_changed\<close> the count is 2, both events are reported and the new due date of
  the second is rendered \<^verbatim>\<open>Removed\<close>; otherwise the second event is not counted, the
  count is 1 and the first event alone is reported.
\<close>

theorem getTaskDueDateChanges_scenario:
  assumes task: "tasksApi_getTask api g = Inr task"
    and history: "storiesApi_getStoriesForTask api g = Inr stories"
  shows "field ''changeCount'' (getTaskDueDateChanges api g)
           = JNum (int (length (filter isDueDateChange stories)))
    \<and> field ''changes'' (getTaskDueDateChanges api g)
           = JArr (map changeJson (filter isDueDateChange stories))
    \<and> (\<forall>story. isDueDateChange story
          = (resource_subtype story = ''due_date_changed''
             \<or> (\<exists>old new. old_due_on story = Some old \<and> new_due_on story = Some new
                   \<and> old \<noteq> [] \<and> new \<noteq> [] \<and> new \<noteq> old)))
    \<and> (\<forall>s1 s2. stories = [s1, s2]
          \<and> old_due_on s1 = Some ''2024-01-01'' \<and> new_due_on s1 = Some ''2024-01-08''
          \<and> old_due_on s2 = Some ''2024-01-08'' \<and> new_due_on s2 = None
          \<longrightarrow> (if resource_subtype s2 = ''due_date_changed''
               then field ''changeCount'' (getTaskDueDateChanges api g) = JNum 2
                    \<and> field ''changes'' (getTaskDueDateChanges api g)
                        = JArr [changeJson s1, changeJson s2]
                    \<and> field ''newDueDate'' (changeJson s2) = JStr ''Removed''
               else field ''changeCount'' (getTaskDueDateChanges api g) = JNum 1
                    \<and> field ''changes'' (getTaskDueDateChanges api g) = JArr [changeJson s1]))"
proof -
  note f = getTaskDueDateChanges_fetched [OF task history]
  have p: "isDueDateChange story
          = (resource_subtype story = ''due_date_changed''
             \<or> (\<exists>old new. old_due_on story = Some old \<and> new_due_on story = Some new
                   \<and> old \<noteq> [] \<and> new \<noteq> [] \<and> new \<noteq> old))" for story
    by (auto simp: isDueDateChange_def truthy_def split: option.splits)
  have s: "if resource_subtype s2 = ''due_date_changed''
               then field ''changeCount'' (getTaskDueDateChanges api g) = JNum 2
                    \<and> field ''changes'' (getTaskDueDateChanges api g)
                        = JArr [changeJson s1, changeJson s2]
                    \<and> field ''newDueDate'' (changeJson s2) = JStr ''Removed''
               else field ''changeCount'' (getTaskDueDateChanges api g) = JNum 1
                    \<and> field ''changes'' (getTaskDueDateChanges api g) = JArr [changeJson s1]"
    if h: "stories = [s1, s2]
          \<and> old_due_on s1 = Some ''2024-01-01'' \<and> new_due_on s1 = Some ''2024-01-08''
          \<and> old_due_on s2 = Some ''2024-01-08'' \<and> new_due_on s2 = None" for s1 s2
  proof -
    have c1: "isDueDateChange s1"
      using h by (simp add: isDueDateChange_def truthy_def)
    have c2: "isDueDateChange s2 = (resource_subtype s2 = ''due_date_changed'')"
      using h by (simp add: isDueDateChange_def truthy_def)
    have n: "field ''newDueDate'' (changeJson s2) = JStr ''Removed''"
      using h by (simp add: changeJson_def orElse_def)
    show ?thesis using f h c1 c2 n by simp
  qed
  from f p s show ?thesis by blast
qed

lemma demo_t3_changes:
  "filter isDueDateChange
     [mkStory ''s3'' ''due_date_changed'' (Some ''2024-01-03'') (Some ''2024-01-05''),
      mkStory ''s4'' ''comment_added'' None None]
     = [mkStory ''s3'' ''due_date_changed'' (Some ''2024-01-03'') (Some ''2024-01-05'')]"
  by (simp add: isDueDateChange_def mkStory_def truthy_def)

theorem getTaskDueDateChanges_scenario_witness:
  "tasksApi_getTask demoApi ''t1''
     = Inr (mkTask ''t1'' ''Write report'' False None (Some ''2024-01-10'') (Some alice))
   \<and> storiesApi_getStoriesForTask demoApi ''t1''
     = Inr [mkStory ''s1'' ''due_date_changed'' (Some ''2024-01-01'') (Some ''2024-01-08''),
            mkStory ''s2'' ''due_date_changed'' (Some ''2024-01-08'') None]
   \<and> field ''changeCount'' (getTaskDueDateChanges demoApi ''t1'') = JNum 2
   \<and> field ''changes'' (getTaskDueDateChanges demoApi ''t1'')
     = JArr [JObj [(''date'', JStr ''2024-01-02T08:00:00.000Z''),
                   (''oldDueDate'', JStr ''2024-01-01''),
                   (''newDueDate'', JStr ''2024-01-08''),
                   (''changedBy'', JStr ''Alice'')],
             JObj [(''date'', JStr ''2024-01-02T08:00:00.000Z''),
                   (''oldDueDate'', JStr ''2024-01-08''),
                   (''newDueDate'', JStr ''Removed''),
                   (''changedBy'', JStr ''Alice'')]]
   \<and> storiesApi_getStoriesForTask demoApi ''t3''
     = Inr [mkStory ''s3'' ''due_date_changed'' (Some ''2024-01-03'') (Some ''2024-01-05''),
            mkStory ''s4'' ''comment_added'' None None]
   \<and> field ''changeCount'' (getTaskDueDateChanges demoApi ''t3'') = JNum 1
   \<and> field ''changes'' (getTaskDueDateChanges demoApi ''t3'')
     = JArr [JObj [(''date'', JStr ''2024-01-02T08:00:00.000Z''),
                   (''oldDueDate'', JStr ''2024-01-03''),
                   (''newDueDate'', JStr ''2024-01-05''),
                   (''changedBy'', JStr ''Alice'')]]
   \<and> storiesApi_getStoriesForTask unmarkedApi ''t1''
     = Inr [mkStory ''s1'' ''comment_added'' (Some ''2024-01-01'') (Some ''2024-01-08''),
            mkStory ''s2'' ''comment_added'' (Some ''2024-01-08'') None]
   \<and> field ''changeCount'' (getTaskDueDateChanges unmarkedApi ''t1'') = JNum 1"
proof -
  have t: "tasksApi_getTask demoApi g
     = Inr (mkTask g ''Write report'' False None (Some ''2024-01-10'') (Some alice))" for g
    by (simp add: demoApi_def)
  have tu: "tasksApi_getTask unmarkedApi ''t1''
     = Inr (mkTask ''t1'' ''Write report'' False None (Some ''2024-01-10'') (Some alice))"
    by (simp add: unmarkedApi_def demoApi_def)
  have h1: "storiesApi_getStoriesForTask demoApi ''t1''
     = Inr [mkStory ''s1'' ''due_date_changed'' (Some ''2024-01-01'') (Some ''2024-01-08''),
            mkStory ''s2'' ''due_date_changed'' (Some ''2024-01-08'') None]"
    by (simp add: demoApi_def demoStories_def)
  have h3: "storiesApi_getStoriesForTask demoApi ''t3''
     = Inr [mkStory ''s3'' ''due_date_changed'' (Some ''2024-01-03'') (Some ''2024-01-05''),
            mkStory ''s4'' ''comment_added'' None None]"
    by (simp add: demoApi_def demoStories_def)
  have hu: "storiesApi_getStoriesForTask unmarkedApi ''t1''
     = Inr [mkStory ''s1'' ''comment_added'' (Some ''2024-01-01'') (Some ''2024-01-08''),
            mkStory ''s2'' ''comment_added'' (Some ''2024-01-08'') None]"
    by (simp add: unmarkedApi_def)
  have r1: "field ''changeCount'' (getTaskDueDateChanges demoApi ''t1'') = JNum 2
    \<and> field ''changes'' (getTaskDueDateChanges demoApi ''t1'')
     = JArr [JObj [(''date'', JStr ''2024-01-02T08:00:00.000Z''),
                   (''oldDueDate'', JStr ''2024-01-01''),
                   (''newDueDate'', JStr ''2024-01-08''),
                   (''changedBy'', JStr ''Alice'')],
             JObj [(''date'', JStr ''2024-01-02T08:00:00.000Z''),
                   (''oldDueDate'', JStr ''2024-01-08''),
                   (''newDueDate'', JStr ''Removed''),
                   (''changedBy'', JStr ''Alice'')]]"
    using getTaskDueDateChanges_scenario [OF t h1]
    by (simp add: mkStory_def changeJson_def orElse_def alice_def)
  have r3: "field ''changeCount'' (getTaskDueDateChanges demoApi ''t3'') = JNum 1
    \<and> field ''changes'' (getTaskDueDateChanges demoApi ''t3'')
     = JArr [JObj [(''date'', JStr ''2024-01-02T08:00:00.000Z''),
                   (''oldDueDate'', JStr ''2024-01-03''),
                   (''newDueDate'', JStr ''2024-01-05''),
                   (''changedBy'', JStr ''Alice'')]]"
    using getTaskDueDateChanges_scenario [OF t h3]
    by (simp add: demo_t3_changes) (simp add: mkStory_def changeJson_def orElse_def alice_def)
  have ru: "field ''changeCount'' (getTaskDueDateChanges unmarkedApi ''t1'') = JNum 1"
    using getTaskDueDateChanges_scenario [OF tu hu]
    by (simp add: mkStory_def)
  from t [of "''t1''"] h1 h3 hu r1 r3 ru show ?thesis by simp
qed

text \<open>
  A history with exactly the two events of the scenario, none of them of the subtype
  \<^verbatim>\<open>due_date_changed\<close>: the removal has no new due date, so it is not counted, and the
  reported count is 1 and not 2.
\<close>

theorem getTaskDueDateChanges_unmarked_removal:
  "tasksApi_getTask unmarkedApi ''t1''
     = Inr (mkTask ''t1'' ''Write report'' False None (Some ''2024-01-10'') (Some alice))
   \<and> map (\<lambda>s. (old_due_on s, new_due_on s))
        [mkStory ''s1'' ''comment_added'' (Some ''2024-01-01'') (Some ''2024-01-08''),
         mkStory ''s2'' ''comment_added'' (Some ''2024-01-08'') None]
     = [(Some ''2024-01-01'', Some ''2024-01-08''), (Some ''2024-01-08'', None)]
   \<and> storiesApi_getStoriesForTask unmarkedApi ''t1''
     = Inr [mkStory ''s1'' ''comment_added'' (Some ''2024-01-01'') (Some ''2024-01-08''),
            mkStory ''s2'' ''comment_added'' (Some ''2024-01-08'') None]
   \<and> field ''changeCount'' (getTaskDueDateChanges unmarkedApi ''t1'') = JNum 1
   \<and> field ''changeCount'' (getTaskDueDateChanges unmarkedApi ''t1'') \<noteq> JNum 2"
proof -
  have tu: "tasksApi_getTask unmarkedApi ''t1''
     = Inr (mkTask ''t1'' ''Write report'' False None (Some ''2024-01-10'') (Some alice))"
    by (simp add: unmarkedApi_def demoApi_def)
  have hu: "storiesApi_getStoriesForTask unmarkedApi ''t1''
     = Inr [mkStory ''s1'' ''comment_added'' (Some ''2024-01-01'') (Some ''2024-01-08''),
            mkStory ''s2'' ''comment_added'' (Some ''2024-01-08'') None]"
    by (simp add: unmarkedApi_def)
  have "field ''changeCount'' (getTaskDueDateChanges unmarkedApi ''t1'') = JNum 1"
    using getTaskDueDateChanges_fetched(1) [OF tu hu]
    by (simp add: isDueDateChange_def mkStory_def truthy_def)
  then show ?thesis using tu hu by (simp add: mkStory_def)
qed

section \<open>Finding a project by name\<close>

lemma find_first_match:
  "P p \<Longrightarrow> \<forall>x \<in> set pre. \<not> P x \<Longrightarrow> find P (pre @ p # post) = Some p"
  by (induction pre) auto

lemma findProjectByName_fetched:
  "projectsApi_getProjects api = Inr projects \<Longrightarrow>
     findProjectByName api rt q
       = Inr (find (\<lambda>p. toLowerCase rt (project_name p) = toLowerCase rt q) projects)"
  by (simp add: findProjectByName_def getWorkspaceProjects_def rethrow_def)

lemma field_projectGid:
  "field ''projectGid'' (projectStatusResult p sections sts) = JStr (project_gid p)"
  by (simp add: projectStatusResult_def Let_def)

text \<open>
  C9. For a fetched project list, \<^verbatim>\<open>findProjectByName\<close> returns the first project
  of the list whose name is equal to the query after \<^verbatim>\<open>toLowerCase\<close> of both, whatever
  function of strings \<^verbatim>\<open>toLowerCase\<close> is; two queries equal up to case resolve to the
  same project; the lookup returns a project \<^verbatim>\<open>p\<close> for a query equal to its name up to
  case when no earlier project of the list has such a name; and \<^verbatim>\<open>get_project_status\<close>
  resolves the name with the same lookup, so that the \<^verbatim>\<open>projectGid\<close> of its result is
  the identifier of the project that \<^verbatim>\<open>findProjectByName\<close> returns, and is absent when
  the lookup finds no project.
\<close>

theorem findProjectByName_first_match:
  assumes fetched: "projectsApi_getProjects api = Inr projects"
  shows "findProjectByName api rt q
           = Inr (find (\<lambda>p. toLowerCase rt (project_name p) = toLowerCase rt q) projects)
    \<and> (\<forall>q'. toLowerCase rt q' = toLowerCase rt q
           \<longrightarrow> findProjectByName api rt q' = findProjectByName api rt q)
    \<and> (\<forall>pre p post. projects = pre @ p # post
           \<and> toLowerCase rt (project_name p) = toLowerCase rt q
           \<and> (\<forall>p' \<in> set pre. toLowerCase rt (project_name p') \<noteq> toLowerCase rt q)
           \<longrightarrow> findProjectByName api rt q = Inr (Some p))
    \<and> (\<forall>p sections sts. findProjectByName api rt q = Inr (Some p)
           \<and> getProjectSections api (project_gid p) = Inr sections
           \<and> sectionStatuses api sections = Inr sts
           \<longrightarrow> getProjectStatus api rt q = projectStatusResult p sections sts
               \<and> field ''projectGid'' (getProjectStatus api rt q) = JStr (project_gid p))
    \<and> (findProjectByName api rt q = Inr None
           \<longrightarrow> field ''projectGid'' (getProjectStatus api rt q) = JUndefined)"
proof -
  note f = findProjectByName_fetched [OF fetched]
  have c1: "findProjectByName api rt q
           = Inr (find (\<lambda>p. toLowerCase rt (project_name p) = toLowerCase rt q) projects)"
    by (rule f)
  have c2: "findProjectByName api rt q' = findProjectByName api rt q"
    if "toLowerCase rt q' = toLowerCase rt q" for q'
    using that by (simp add: f)
  have c3: "findProjectByName api rt q = Inr (Some p)"
    if "projects = pre @ p # post" "toLowerCase rt (project_name p) = toLowerCase rt q"
      "\<forall>p' \<in> set pre. toLowerCase rt (project_name p') \<noteq> toLowerCase rt q" for pre p post
    using that by (simp add: f find_first_match)
  have c4: "getProjectStatus api rt q = projectStatusResult p sections sts
               \<and> field ''projectGid'' (getProjectStatus api rt q) = JStr (project_gid p)"
    if "findProjectByName api rt q = Inr (Some p)"
      "getProjectSections api (project_gid p) = Inr sections"
      "sectionStatuses api sections = Inr sts" for p sections sts
  proof -
    have "getProjectStatus api rt q = projectStatusResult p sections sts"
      using that by (simp add: getProjectStatus_def getProjectStatus_try_def)
    then show ?thesis by (simp add: field_projectGid)
  qed
  have c5: "field ''projectGid'' (getProjectStatus api rt q) = JUndefined"
    if "findProjectByName api rt q = Inr None"
    using that by (simp add: getProjectStatus_def getProjectStatus_try_def)
  from c1 c2 c3 c4 c5 show ?thesis by blast
qed

lemma toLowerCase_demoRuntime: "toLowerCase demoRuntime = asciiLowerCase"
  by (simp add: demoRuntime_def)

lemma asciiLowerCase_Marketing: "asciiLowerCase ''Marketing'' = ''marketing''"
  by code_simp

lemma asciiLowerCase_marketing: "asciiLowerCase ''marketing'' = ''marketing''"
  by code_simp

lemma asciiLowerCase_MARKETING: "asciiLowerCase ''MARKETING'' = ''marketing''"
  by code_simp

lemma asciiLowerCase_Sales: "asciiLowerCase ''Sales'' = ''sales''"
  by code_simp

lemmas lower_demo = toLowerCase_demoRuntime asciiLowerCase_Marketing asciiLowerCase_marketing
  asciiLowerCase_MARKETING asciiLowerCase_Sales

lemma demo_sectionStatuses:
  "\<exists>sts. sectionStatuses demoApi [\<lparr>section_gid = ''c1'', section_name = ''Doing''\<rparr>] = Inr sts"
  by (simp add: getSectionTasks_def rethrow_def demoApi_def Let_def)

theorem findProjectByName_first_match_witness:
  "projectsApi_getProjects demoApi = Inr demoProjects
   \<and> demoProjects = [] @ \<lparr>project_gid = ''p1'', project_name = ''Marketing''\<rparr>
                        # [\<lparr>project_gid = ''p2'', project_name = ''marketing''\<rparr>]
   \<and> toLowerCase demoRuntime (project_name \<lparr>project_gid = ''p1'', project_name = ''Marketing''\<rparr>)
       = toLowerCase demoRuntime ''MARKETING''
   \<and> findProjectByName demoApi demoRuntime ''MARKETING''
       = Inr (Some \<lparr>project_gid = ''p1'', project_name = ''Marketing''\<rparr>)
   \<and> findProjectByName demoApi demoRuntime ''MARKETING''
       = findProjectByName demoApi demoRuntime ''Marketing''
   \<and> field ''projectGid'' (getProjectStatus demoApi demoRuntime ''MARKETING'') = JStr ''p1''
   \<and> findProjectByName demoApi demoRuntime ''Sales'' = Inr None
   \<and> field ''projectGid'' (getProjectStatus demoApi demoRuntime ''Sales'') = JUndefined"
proof -
  have h: "projectsApi_getProjects demoApi = Inr demoProjects"
    by (simp add: demoApi_def)
  have split: "demoProjects = [] @ \<lparr>project_gid = ''p1'', project_name = ''Marketing''\<rparr>
                        # [\<lparr>project_gid = ''p2'', project_name = ''marketing''\<rparr>]"
    by (simp add: demoProjects_def)
  have name: "toLowerCase demoRuntime (project_name \<lparr>project_gid = ''p1'', project_name = ''Marketing''\<rparr>)
       = toLowerCase demoRuntime ''MARKETING''"
    by (simp add: lower_demo)
  have "\<forall>pre p post. demoProjects = pre @ p # post
           \<and> toLowerCase demoRuntime (project_name p) = toLowerCase demoRuntime ''MARKETING''
           \<and> (\<forall>p' \<in> set pre. toLowerCase demoRuntime (project_name p')
                                \<noteq> toLowerCase demoRuntime ''MARKETING'')
           \<longrightarrow> findProjectByName demoApi demoRuntime ''MARKETING'' = Inr (Some p)"
    using findProjectByName_first_match [OF h, of demoRuntime "''MARKETING''"] by blast
  then have found: "findProjectByName demoApi demoRuntime ''MARKETING''
       = Inr (Some \<lparr>project_gid = ''p1'', project_name = ''Marketing''\<rparr>)"
    using split name by (metis empty_iff list.set(1))
  have same: "findProjectByName demoApi demoRuntime ''MARKETING''
       = findProjectByName demoApi demoRuntime ''Marketing''"
    using findProjectByName_first_match [OF h, of demoRuntime "''Marketing''"]
    by (simp add: lower_demo)
  have secs: "getProjectSections demoApi ''p1'' = Inr [\<lparr>section_gid = ''c1'', section_name = ''Doing''\<rparr>]"
    by (simp add: getProjectSections_def rethrow_def demoApi_def)
  obtain sts where sts:
    "sectionStatuses demoApi [\<lparr>section_gid = ''c1'', section_name = ''Doing''\<rparr>] = Inr sts"
    using demo_sectionStatuses by blast
  have "\<forall>p sections sts. findProjectByName demoApi demoRuntime ''MARKETING'' = Inr (Some p)
           \<and> getProjectSections demoApi (project_gid p) = Inr sections
           \<and> sectionStatuses demoApi sections = Inr sts
           \<longrightarrow> field ''projectGid'' (getProjectStatus demoApi demoRuntime ''MARKETING'')
               = JStr (project_gid p)"
    using findProjectByName_first_match [OF h, of demoRuntime "''MARKETING''"] by blast
  then have gid: "field ''projectGid'' (getProjectStatus demoApi demoRuntime ''MARKETING'')
               = JStr (project_gid \<lparr>project_gid = ''p1'', project_name = ''Marketing''\<rparr>)"
    using found secs sts by (metis AsanaProject.select_convs(1))
  have none: "findProjectByName demoApi demoRuntime ''Sales'' = Inr None"
    using findProjectByName_first_match [OF h, of demoRuntime "''Sales''"]
    by (simp add: demoProjects_def lower_demo)
  have undef: "field ''projectGid'' (getProjectStatus demoApi demoRuntime ''Sales'') = JUndefined"
    using findProjectByName_first_match [OF h, of demoRuntime "''Sales''"] none by blast
  from h split name found same gid none undef show ?thesis by simp
qed

text \<open>
  Two projects whose names are equal up to case: the query \<^verbatim>\<open>marketing\<close> is the name of
  the second project, and the lookup returns the first, which has another identifier.
\<close>

theorem findProjectByName_duplicate_names:
  "projectsApi_getProjects demoApi
     = Inr [\<lparr>project_gid = ''p1'', project_name = ''Marketing''\<rparr>,
            \<lparr>project_gid = ''p2'', project_name = ''marketing''\<rparr>]
   \<and> toLowerCase demoRuntime ''marketing''
       = toLowerCase demoRuntime (project_name \<lparr>project_gid = ''p2'', project_name = ''marketing''\<rparr>)
   \<and> findProjectByName demoApi demoRuntime ''marketing''
       = Inr (Some \<lparr>project_gid = ''p1'', project_name = ''Marketing''\<rparr>)
   \<and> project_gid \<lparr>project_gid = ''p1'', project_name = ''Marketing''\<rparr>
       \<noteq> project_gid \<lparr>project_gid = ''p2'', project_name = ''marketing''\<rparr>"
  by (simp add: findProjectByName_def getWorkspaceProjects_def rethrow_def demoApi_def
      demoProjects_def lower_demo)

section \<open>Errors at the boundary of a tool\<close>

lemma errorString_newError: "errorString (newError (p # ps)) = ''Error: '' @ p # ps"
  by (simp add: newError_def)

lemma getTasks_fails:
  "tasksApi_getTasks api q = Inl m \<Longrightarrow> getTasks api q = Inl (newError (''Failed to fetch tasks: '' @ m))"
  by (simp add: getTasks_def rethrow_def)

lemma getTasks_fetched:
  "tasksApi_getTasks api q = Inr tasks \<Longrightarrow> getTasks api q = Inr tasks"
  by (simp add: getTasks_def rethrow_def)

lemma getWorkspaceProjects_fails:
  "projectsApi_getProjects api = Inl m \<Longrightarrow>
     getWorkspaceProjects api = Inl (newError (''Failed to fetch workspace projects: '' @ m))"
  by (simp add: getWorkspaceProjects_def rethrow_def)

lemma getWorkspaceUsers_fails:
  "usersApi_getUsersForWorkspace api = Inl m \<Longrightarrow>
     getWorkspaceUsers api = Inl (newError (''Failed to fetch workspace users: '' @ m))"
  by (simp add: getWorkspaceUsers_def rethrow_def)

lemma getProjectSections_fails:
  "sectionsApi_getSectionsForProject api g = Inl m \<Longrightarrow>
     getProjectSections api g = Inl (newError (''Failed to fetch project sections: '' @ m))"
  by (simp add: getProjectSections_def rethrow_def)

lemma getProjectSections_fetched:
  "sectionsApi_getSectionsForProject api g = Inr secs \<Longrightarrow> getProjectSections api g = Inr secs"
  by (simp add: getProjectSections_def rethrow_def)

lemma sectionStatuses_first_failure:
  assumes "\<forall>s' \<in> set pre. \<exists>ts. tasksApi_getTasksForSection api (section_gid s') = Inr ts"
    and "tasksApi_getTasksForSection api (section_gid s) = Inl m"
  shows "sectionStatuses api (pre @ s # post)
           = Inl (newError (''Failed to fetch section tasks: '' @ m))"
  using assms
  by (induction pre) (auto simp: getSectionTasks_def rethrow_def Let_def)

lemma sectionWorkload_first_failure:
  assumes "\<forall>s' \<in> set pre. \<exists>ts. tasksApi_getTasksForSection api (section_gid s') = Inr ts"
    and "tasksApi_getTasksForSection api (section_gid s) = Inl m"
  shows "sectionWorkload api (pre @ s # post)
           = Inl (newError (''Failed to fetch section tasks: '' @ m))"
  using assms
  by (induction pre) (auto simp: getSectionTasks_def rethrow_def Let_def)

lemma noFilter_tools_fail:
  assumes "tasksApi_getTasks api noFilter = Inl m"
  shows "getUnassignedTasks api ex
           = onError Get_unassigned_tasks (newError (''Failed to fetch tasks: '' @ m))"
    and "searchTasksByName api rt sq ex
           = onError Search_tasks_by_name (newError (''Failed to fetch tasks: '' @ m))"
    and "getTeamWorkload api rt inc
           = onError Get_team_workload (newError (''Failed to fetch tasks: '' @ m))"
    and "getOverdueTasksByPerson api rt
           = onError Get_overdue_tasks_by_person (newError (''Failed to fetch tasks: '' @ m))"
    and "getMostPostponedTasks api limit
           = onError Get_most_postponed_tasks (newError (''Failed to fetch tasks: '' @ m))"
  using getTasks_fails [OF assms]
  by (simp_all add: getUnassignedTasks_def getUnassignedTasks_try_def
      searchTasksByName_def searchTasksByName_try_def
      getTeamWorkload_def getTeamWorkload_try_def
      getOverdueTasksByPerson_def getOverdueTasksByPerson_try_def
      getMostPostponedTasks_def getMostPostponedTasks_try_def)

lemma assignee_filter_tools_fail:
  assumes "tasksApi_getTasks api (noFilter\<lparr>q_assignee := a\<rparr>) = Inl m"
  shows "getTasksDueToday api rt a ex
           = onError Get_tasks_due_today (newError (''Failed to fetch tasks: '' @ m))"
    and "getOverdueTasks api rt a
           = onError Get_overdue_tasks (newError (''Failed to fetch tasks: '' @ m))"
    and "getTasksWithoutDueDates api ex a
           = onError Get_tasks_without_due_dates (newError (''Failed to fetch tasks: '' @ m))"
    and "getWeeklyPlannedTasks api rt a ex
           = onError Get_weekly_planned_tasks (newError (''Failed to fetch tasks: '' @ m))"
  using getTasks_fails [OF assms]
  by (simp_all add: getTasksDueToday_def getTasksDueToday_try_def
      getOverdueTasks_def getOverdueTasks_try_def
      getTasksWithoutDueDates_def getTasksWithoutDueDates_try_def
      getWeeklyPlannedTasks_def getWeeklyPlannedTasks_try_def)

lemma getTasksCompletedToday_fails:
  assumes "tasksApi_getTasks api
             (noFilter\<lparr>q_completed_since := Some (todayStart rt), q_assignee := a\<rparr>) = Inl m"
  shows "getTasksCompletedToday api rt a
           = onError Get_tasks_completed_today (newError (''Failed to fetch tasks: '' @ m))"
  using getTasks_fails [OF assms]
  by (simp add: getTasksCompletedToday_def getTasksCompletedToday_try_def)

lemma getTasksUpdatedToday_fails:
  assumes "tasksApi_getTasks api
             (noFilter\<lparr>q_modified_since := Some (todayStart rt), q_assignee := a\<rparr>) = Inl m"
  shows "getTasksUpdatedToday api rt a inc
           = onError Get_tasks_updated_today (newError (''Failed to fetch tasks: '' @ m))"
  using getTasks_fails [OF assms]
  by (simp add: getTasksUpdatedToday_def getTasksUpdatedToday_try_def)

lemma getTasksAssignedTo_fails:
  assumes "tasksApi_getTasks api
             (noFilter\<lparr>q_assignee := Some who,
                        q_completed_since := (if ex then Some (nowIso rt) else None)\<rparr>) = Inl m"
  shows "getTasksAssignedTo api rt who ex limit
           = onError (Get_tasks_assigned_to who) (newError (''Failed to fetch tasks: '' @ m))"
  using getTasks_fails [OF assms]
  by (simp add: getTasksAssignedTo_def getTasksAssignedTo_try_def)

lemma getRecentDueDateChanges_fails:
  assumes "tasksApi_getTasks api (noFilter\<lparr>q_modified_since := Some (cutoffIso rt days)\<rparr>) = Inl m"
  shows "getRecentDueDateChanges api rt days
           = onError Get_recent_due_date_changes (newError (''Failed to fetch tasks: '' @ m))"
  using getTasks_fails [OF assms]
  by (simp add: getRecentDueDateChanges_def getRecentDueDateChanges_try_def Let_def)

lemma users_tools_fail:
  assumes "usersApi_getUsersForWorkspace api = Inl m"
  shows "getWorkspaceUsersTool api
           = onError Get_workspace_users (newError (''Failed to fetch workspace users: '' @ m))"
    and "searchUsersTool api rt query
           = onError Search_users (newError (''Failed to fetch workspace users: '' @ m))"
  using getWorkspaceUsers_fails [OF assms]
  by (simp_all add: getWorkspaceUsersTool_def getWorkspaceUsersTool_try_def
      searchUsersTool_def searchUsersTool_try_def searchUsers_def)

lemma getMeTool_fails:
  assumes "usersApi_getUser api = Inl m"
  shows "getMeTool api = onError Get_me (newError (''Failed to fetch current user: '' @ m))"
  using assms by (simp add: getMeTool_def getMeTool_try_def getMe_def rethrow_def)

lemma projects_tools_fail:
  assumes "projectsApi_getProjects api = Inl m"
  shows "getProjectStatus api rt q
           = onError Get_project_status (newError (''Failed to fetch workspace projects: '' @ m))"
    and "getSectionWithMostWork api rt q
           = onError Get_section_with_most_work
               (newError (''Failed to fetch workspace projects: '' @ m))"
    and "listAllProjects api
           = onError List_all_projects (newError (''Failed to fetch workspace projects: '' @ m))"
  using getWorkspaceProjects_fails [OF assms]
  by (simp_all add: getProjectStatus_def getProjectStatus_try_def
      getSectionWithMostWork_def getSectionWithMostWork_try_def
      listAllProjects_def listAllProjects_try_def findProjectByName_def)

lemma sections_tools_fail:
  assumes "findProjectByName api rt q = Inr (Some p)"
    and "sectionsApi_getSectionsForProject api (project_gid p) = Inl m"
  shows "getProjectStatus api rt q
           = onError Get_project_status (newError (''Failed to fetch project sections: '' @ m))"
    and "getSectionWithMostWork api rt q
           = onError Get_section_with_most_work
               (newError (''Failed to fetch project sections: '' @ m))"
  using assms(1) getProjectSections_fails [OF assms(2)]
  by (simp_all add: getProjectStatus_def getProjectStatus_try_def
      getSectionWithMostWork_def getSectionWithMostWork_try_def)

lemma section_tasks_tools_fail:
  assumes "findProjectByName api rt q = Inr (Some p)"
    and "sectionsApi_getSectionsForProject api (project_gid p) = Inr (pre @ s # post)"
    and "\<forall>s' \<in> set pre. \<exists>ts. tasksApi_getTasksForSection api (section_gid s') = Inr ts"
    and "tasksApi_getTasksForSection api (section_gid s) = Inl m"
  shows "getProjectStatus api rt q
           = onError Get_project_status (newError (''Failed to fetch section tasks: '' @ m))"
    and "getSectionWithMostWork api rt q
           = onError Get_section_with_most_work
               (newError (''Failed to fetch section tasks: '' @ m))"
  using assms(1) getProjectSections_fetched [OF assms(2)]
    sectionStatuses_first_failure [OF assms(3,4), of post]
    sectionWorkload_first_failure [OF assms(3,4), of post]
  by (simp_all add: getProjectStatus_def getProjectStatus_try_def
      getSectionWithMostWork_def getSectionWithMostWork_try_def)

lemma getTaskDueDateChanges_fails:
  shows "tasksApi_getTask api g = Inl m \<Longrightarrow>
           getTaskDueDateChanges api g
             = onError Get_task_due_date_changes (newError (''Failed to fetch task: '' @ m))"
    and "tasksApi_getTask api g = Inr task \<Longrightarrow> storiesApi_getStoriesForTask api g = Inl m \<Longrightarrow>
           getTaskDueDateChanges api g
             = onError Get_task_due_date_changes (newError (''Failed to fetch task stories: '' @ m))"
  by (simp_all add: getTaskDueDateChanges_def getTaskDueDateChanges_try_def getTask_def
      getTaskStories_def rethrow_def)

lemma recentChanges_skips_failures:
  "recentChanges api c (filter (historyFetched api) ts) = recentChanges api c ts"
  by (induction ts) (auto simp: historyFetched_def split: sum.splits list.splits)

lemma getRecentDueDateChanges_fetched:
  assumes "tasksApi_getTasks api (noFilter\<lparr>q_modified_since := Some (cutoffIso rt days)\<rparr>) = Inr tasks"
  shows "field ''error'' (getRecentDueDateChanges api rt days) = JUndefined"
  using getTasks_fetched [OF assms]
  by (simp add: getRecentDueDateChanges_def getRecentDueDateChanges_try_def Let_def)

lemma zeroCounts_onError:
  "zeroCounts (onError tool e) = map fst (filter (\<lambda>kv. snd kv = JNum 0) (errorExtras tool))"
  by (simp add: zeroCounts_def onError_def)

lemma emptyCollections_onError:
  "emptyCollections (onError tool e) = map fst (filter (\<lambda>kv. snd kv = JArr []) (errorExtras tool))"
  by (simp add: emptyCollections_def onError_def)

lemma zeroCounts_onError_empty:
  "(zeroCounts (onError tool e) = [])
     = (tool \<in> {Get_me, Get_project_status, Get_section_with_most_work,
                 Get_most_postponed_tasks, Get_recent_due_date_changes})"
  by (cases tool) (simp_all add: zeroCounts_onError)

lemma emptyCollections_onError_empty:
  "(emptyCollections (onError tool e) = [])
     = (tool \<in> {Get_me, Get_project_status, Get_section_with_most_work})"
  by (cases tool) (simp_all add: emptyCollections_onError)

text \<open>
  C3. Every tool on the API client returns a result object when a call of the client
  fails; the object is the one of the \<^verbatim>\<open>catch\<close> block of the tool, whose
  \<^verbatim>\<open>error\<close> is the prefix of the tool followed by the rendering of the error of the
  client. The conjuncts go by the vendor call that fails: the fetch of tasks with each of
  the filters that the tools use, of the users, of the current user, of the projects, of the
  sections of the project found, of the tasks of the first section whose fetch fails, of the
  task, and of the stories of the task. With the error come a count of zero and an empty
  array, except that \<^verbatim>\<open>get_me\<close>, \<^verbatim>\<open>get_project_status\<close> and
  \<^verbatim>\<open>get_section_with_most_work\<close> return the error alone, and
  \<^verbatim>\<open>get_most_postponed_tasks\<close> and \<^verbatim>\<open>get_recent_due_date_changes\<close> return it
  with an empty array of tasks and no count. One error of the client does not reach the boundary:
  in the loop over the tasks of \<^verbatim>\<open>get_most_postponed_tasks\<close> and of
  \<^verbatim>\<open>get_recent_due_date_changes\<close> a failing fetch of the stories of a task is caught
  in the loop, the task is skipped, and the result, which is the one for the tasks whose
  stories are fetched, has no \<^verbatim>\<open>error\<close>. The last three conjuncts give the
  \<^verbatim>\<open>catch\<close> block of each tool for any error value, whatever raised it.
\<close>

theorem tools_catch_client_errors:
  "(tasksApi_getTasks api noFilter = Inl m
        \<longrightarrow> getUnassignedTasks api ex
              = JObj [(''error'', JStr (''Failed to fetch unassigned tasks: Error: Failed to fetch tasks: '' @ m)),
                  (''count'', JNum 0),
                  (''tasks'', JArr [])]
            \<and> searchTasksByName api rt sq ex
              = JObj [(''error'', JStr (''Failed to search tasks: Error: Failed to fetch tasks: '' @ m)),
                  (''count'', JNum 0),
                  (''tasks'', JArr [])]
            \<and> getTeamWorkload api rt inc
              = JObj [(''error'', JStr (''Failed to analyze team workload: Error: Failed to fetch tasks: '' @ m)),
                  (''teamMembers'', JNum 0),
                  (''workload'', JArr [])]
            \<and> getOverdueTasksByPerson api rt
              = JObj [(''error'', JStr (''Failed to fetch overdue tasks: Error: Failed to fetch tasks: '' @ m)),
                  (''totalOverdue'', JNum 0),
                  (''byPerson'', JArr [])]
            \<and> getMostPostponedTasks api limit
              = JObj [(''error'', JStr (''Failed to analyze postponed tasks: Error: Failed to fetch tasks: '' @ m)),
                  (''tasks'', JArr [])])
   \<and> (tasksApi_getTasks api (noFilter\<lparr>q_assignee := a\<rparr>) = Inl m
        \<longrightarrow> getTasksDueToday api rt a ex
              = JObj [(''error'', JStr (''Failed to fetch tasks due today: Error: Failed to fetch tasks: '' @ m)),
                  (''count'', JNum 0),
                  (''tasks'', JArr [])]
            \<and> getOverdueTasks api rt a
              = JObj [(''error'', JStr (''Failed to fetch overdue tasks: Error: Failed to fetch tasks: '' @ m)),
                  (''count'', JNum 0),
                  (''tasks'', JArr [])]
            \<and> getTasksWithoutDueDates api ex a
              = JObj [(''error'', JStr (''Failed to fetch tasks without due dates: Error: Failed to fetch tasks: '' @ m)),
                  (''count'', JNum 0),
                  (''tasks'', JArr [])]
            \<and> getWeeklyPlannedTasks api rt a ex
              = JObj [(''error'', JStr (''Failed to fetch weekly tasks: Error: Failed to fetch tasks: '' @ m)),
                  (''count'', JNum 0),
                  (''tasks'', JArr [])])
   \<and> (tasksApi_getTasks api
          (noFilter\<lparr>q_completed_since := Some (todayStart rt), q_assignee := a\<rparr>) = Inl m
        \<longrightarrow> getTasksCompletedToday api rt a
              = JObj [(''error'', JStr (''Failed to fetch completed tasks: Error: Failed to fetch tasks: '' @ m)),
                  (''count'', JNum 0),
                  (''tasks'', JArr [])])
   \<and> (tasksApi_getTasks api
          (noFilter\<lparr>q_modified_since := Some (todayStart rt), q_assignee := a\<rparr>) = Inl m
        \<longrightarrow> getTasksUpdatedToday api rt a inc
              = JObj [(''error'', JStr (''Failed to fetch updated tasks: Error: Failed to fetch tasks: '' @ m)),
                  (''count'', JNum 0),
                  (''tasks'', JArr [])])
   \<and> (tasksApi_getTasks api
          (noFilter\<lparr>q_assignee := Some who,
                     q_completed_since := (if ex then Some (nowIso rt) else None)\<rparr>) = Inl m
        \<longrightarrow> getTasksAssignedTo api rt who ex limit
              = JObj [(''error'', JStr (''Failed to fetch tasks for user '' @ who @ '': Error: Failed to fetch tasks: '' @ m)),
                  (''count'', JNum 0),
                  (''tasks'', JArr [])])
   \<and> (tasksApi_getTasks api
          (noFilter\<lparr>q_modified_since := Some (cutoffIso rt days)\<rparr>) = Inl m
        \<longrightarrow> getRecentDueDateChanges api rt days
              = JObj [(''error'', JStr (''Failed to fetch recent due date changes: Error: Failed to fetch tasks: '' @ m)),
                  (''tasks'', JArr [])])
   \<and> (usersApi_getUsersForWorkspace api = Inl m
        \<longrightarrow> getWorkspaceUsersTool api
              = JObj [(''error'', JStr (''Failed to fetch workspace users: Error: Failed to fetch workspace users: '' @ m)),
                  (''count'', JNum 0),
                  (''users'', JArr [])]
            \<and> searchUsersTool api rt query
              = JObj [(''error'', JStr (''Failed to search users: Error: Failed to fetch workspace users: '' @ m)),
                  (''count'', JNum 0),
                  (''users'', JArr [])])
   \<and> (usersApi_getUser api = Inl m
        \<longrightarrow> getMeTool api
              = JObj [(''error'', JStr (''Failed to fetch current user: Error: Failed to fetch current user: '' @ m))])
   \<and> (projectsApi_getProjects api = Inl m
        \<longrightarrow> getProjectStatus api rt q
              = JObj [(''error'', JStr (''Failed to analyze project status: Error: Failed to fetch workspace projects: '' @ m))]
            \<and> getSectionWithMostWork api rt q
              = JObj [(''error'', JStr (''Failed to analyze section workload: Error: Failed to fetch workspace projects: '' @ m))]
            \<and> listAllProjects api
              = JObj [(''error'', JStr (''Failed to list projects: Error: Failed to fetch workspace projects: '' @ m)),
                  (''count'', JNum 0),
                  (''projects'', JArr [])])
   \<and> (findProjectByName api rt q = Inr (Some p)
        \<and> sectionsApi_getSectionsForProject api (project_gid p) = Inl m
        \<longrightarrow> getProjectStatus api rt q
              = JObj [(''error'', JStr (''Failed to analyze project status: Error: Failed to fetch project sections: '' @ m))]
            \<and> getSectionWithMostWork api rt q
              = JObj [(''error'', JStr (''Failed to analyze section workload: Error: Failed to fetch project sections: '' @ m))])
   \<and> (findProjectByName api rt q = Inr (Some p)
        \<and> sectionsApi_getSectionsForProject api (project_gid p) = Inr (pre @ s # post)
        \<and> (\<forall>s' \<in> set pre. \<exists>ts. tasksApi_getTasksForSection api (section_gid s') = Inr ts)
        \<and> tasksApi_getTasksForSection api (section_gid s) = Inl m
        \<longrightarrow> getProjectStatus api rt q
              = JObj [(''error'', JStr (''Failed to analyze project status: Error: Failed to fetch section tasks: '' @ m))]
            \<and> getSectionWithMostWork api rt q
              = JObj [(''error'', JStr (''Failed to analyze section workload: Error: Failed to fetch section tasks: '' @ m))])
   \<and> (tasksApi_getTask api g = Inl m
        \<longrightarrow> getTaskDueDateChanges api g
              = JObj [(''error'', JStr (''Failed to fetch due date changes: Error: Failed to fetch task: '' @ m)),
                  (''changeCount'', JNum 0),
                  (''changes'', JArr [])])
   \<and> (tasksApi_getTask api g = Inr task \<and> storiesApi_getStoriesForTask api g = Inl m
        \<longrightarrow> getTaskDueDateChanges api g
              = JObj [(''error'', JStr (''Failed to fetch due date changes: Error: Failed to fetch task stories: '' @ m)),
                  (''changeCount'', JNum 0),
                  (''changes'', JArr [])])
   \<and> (tasksApi_getTasks api noFilter = Inr tasks
        \<longrightarrow> field ''error'' (getMostPostponedTasks api limit) = JUndefined
            \<and> tasksWithChanges api (incompleteWithDue tasks)
              = tasksWithChanges api (filter (historyFetched api) (incompleteWithDue tasks)))
   \<and> (tasksApi_getTasks api (noFilter\<lparr>q_modified_since := Some (cutoffIso rt days)\<rparr>) = Inr tasks
        \<longrightarrow> field ''error'' (getRecentDueDateChanges api rt days) = JUndefined
            \<and> recentChanges api (cutoffIso rt days) tasks
              = recentChanges api (cutoffIso rt days) (filter (historyFetched api) tasks))
   \<and> toolBoundary tool (Inl e)
     = JObj ((''error'', JStr (errorPrefix tool @ errorString e)) # errorExtras tool)
   \<and> ((zeroCounts (toolBoundary tool (Inl e)) = [])
        = (tool \<in> {Get_me, Get_project_status, Get_section_with_most_work,
                    Get_most_postponed_tasks, Get_recent_due_date_changes}))
   \<and> ((emptyCollections (toolBoundary tool (Inl e)) = [])
        = (tool \<in> {Get_me, Get_project_status, Get_section_with_most_work}))"
proof -
  have f1: "getUnassignedTasks api ex
      = JObj [(''error'', JStr (''Failed to fetch unassigned tasks: Error: Failed to fetch tasks: '' @ m)),
          (''count'', JNum 0),
          (''tasks'', JArr [])]
    \<and> searchTasksByName api rt sq ex
      = JObj [(''error'', JStr (''Failed to search tasks: Error: Failed to fetch tasks: '' @ m)),
          (''count'', JNum 0),
          (''tasks'', JArr [])]
    \<and> getTeamWorkload api rt inc
      = JObj [(''error'', JStr (''Failed to analyze team workload: Error: Failed to fetch tasks: '' @ m)),
          (''teamMembers'', JNum 0),
          (''workload'', JArr [])]
    \<and> getOverdueTasksByPerson api rt
      = JObj [(''error'', JStr (''Failed to fetch overdue tasks: Error: Failed to fetch tasks: '' @ m)),
          (''totalOverdue'', JNum 0),
          (''byPerson'', JArr [])]
    \<and> getMostPostponedTasks api limit
      = JObj [(''error'', JStr (''Failed to analyze postponed tasks: Error: Failed to fetch tasks: '' @ m)),
          (''tasks'', JArr [])]"
    if h: "tasksApi_getTasks api noFilter = Inl m"
    using noFilter_tools_fail [OF h]
    by (simp add: onError_def newError_def)
  have f2: "getTasksDueToday api rt a ex
      = JObj [(''error'', JStr (''Failed to fetch tasks due today: Error: Failed to fetch tasks: '' @ m)),
          (''count'', JNum 0),
          (''tasks'', JArr [])]
    \<and> getOverdueTasks api rt a
      = JObj [(''error'', JStr (''Failed to fetch overdue tasks: Error: Failed to fetch tasks: '' @ m)),
          (''count'', JNum 0),
          (''tasks'', JArr [])]
    \<and> getTasksWithoutDueDates api ex a
      = JObj [(''error'', JStr (''Failed to fetch tasks without due dates: Error: Failed to fetch tasks: '' @ m)),
          (''count'', JNum 0),
          (''tasks'', JArr [])]
    \<and> getWeeklyPlannedTasks api rt a ex
      = JObj [(''error'', JStr (''Failed to fetch weekly tasks: Error: Failed to fetch tasks: '' @ m)),
          (''count'', JNum 0),
          (''tasks'', JArr [])]"
    if h: "tasksApi_getTasks api (noFilter\<lparr>q_assignee := a\<rparr>) = Inl m"
    using assignee_filter_tools_fail [OF h]
    by (simp add: onError_def newError_def)
  have f3: "getTasksCompletedToday api rt a
      = JObj [(''error'', JStr (''Failed to fetch completed tasks: Error: Failed to fetch tasks: '' @ m)),
          (''count'', JNum 0),
          (''tasks'', JArr [])]"
    if h: "tasksApi_getTasks api
          (noFilter\<lparr>q_completed_since := Some (todayStart rt), q_assignee := a\<rparr>) = Inl m"
    using getTasksCompletedToday_fails [OF h]
    by (simp add: onError_def newError_def)
  have f4: "getTasksUpdatedToday api rt a inc
      = JObj [(''error'', JStr (''Failed to fetch updated tasks: Error: Failed to fetch tasks: '' @ m)),
          (''count'', JNum 0),
          (''tasks'', JArr [])]"
    if h: "tasksApi_getTasks api
          (noFilter\<lparr>q_modified_since := Some (todayStart rt), q_assignee := a\<rparr>) = Inl m"
    using getTasksUpdatedToday_fails [OF h]
    by (simp add: onError_def newError_def)
  have f5: "getRecentDueDateChanges api rt days
      = JObj [(''error'', JStr (''Failed to fetch recent due date changes: Error: Failed to fetch tasks: '' @ m)),
          (''tasks'', JArr [])]"
    if h: "tasksApi_getTasks api
          (noFilter\<lparr>q_modified_since := Some (cutoffIso rt days)\<rparr>) = Inl m"
    using getRecentDueDateChanges_fails [OF h]
    by (simp add: onError_def newError_def)
  have f6: "getWorkspaceUsersTool api
      = JObj [(''error'', JStr (''Failed to fetch workspace users: Error: Failed to fetch workspace users: '' @ m)),
          (''count'', JNum 0),
          (''users'', JArr [])]
    \<and> searchUsersTool api rt query
      = JObj [(''error'', JStr (''Failed to search users: Error: Failed to fetch workspace users: '' @ m)),
          (''count'', JNum 0),
          (''users'', JArr [])]"
    if h: "usersApi_getUsersForWorkspace api = Inl m"
    using users_tools_fail [OF h]
    by (simp add: onError_def newError_def)
  have f7: "getMeTool api
      = JObj [(''error'', JStr (''Failed to fetch current user: Error: Failed to fetch current user: '' @ m))]"
    if h: "usersApi_getUser api = Inl m"
    using getMeTool_fails [OF h]
    by (simp add: onError_def newError_def)
  have f8: "getProjectStatus api rt q
      = JObj [(''error'', JStr (''Failed to analyze project status: Error: Failed to fetch workspace projects: '' @ m))]
    \<and> getSectionWithMostWork api rt q
      = JObj [(''error'', JStr (''Failed to analyze section workload: Error: Failed to fetch workspace projects: '' @ m))]
    \<and> listAllProjects api
      = JObj [(''error'', JStr (''Failed to list projects: Error: Failed to fetch workspace projects: '' @ m)),
          (''count'', JNum 0),
          (''projects'', JArr [])]"
    if h: "projectsApi_getProjects api = Inl m"
    using projects_tools_fail [OF h]
    by (simp add: onError_def newError_def)
  have f9: "getProjectStatus api rt q
      = JObj [(''error'', JStr (''Failed to analyze project status: Error: Failed to fetch project sections: '' @ m))]
    \<and> getSectionWithMostWork api rt q
      = JObj [(''error'', JStr (''Failed to analyze section workload: Error: Failed to fetch project sections: '' @ m))]"
    if h: "findProjectByName api rt q = Inr (Some p)
        \<and> sectionsApi_getSectionsForProject api (project_gid p) = Inl m"
    using sections_tools_fail [of api rt q p m] h
    by (simp add: onError_def newError_def)
  have f10: "getProjectStatus api rt q
      = JObj [(''error'', JStr (''Failed to analyze project status: Error: Failed to fetch section tasks: '' @ m))]
    \<and> getSectionWithMostWork api rt q
      = JObj [(''error'', JStr (''Failed to analyze section workload: Error: Failed to fetch section tasks: '' @ m))]"
    if h: "findProjectByName api rt q = Inr (Some p)
        \<and> sectionsApi_getSectionsForProject api (project_gid p) = Inr (pre @ s # post)
        \<and> (\<forall>s' \<in> set pre. \<exists>ts. tasksApi_getTasksForSection api (section_gid s') = Inr ts)
        \<and> tasksApi_getTasksForSection api (section_gid s) = Inl m"
    using section_tasks_tools_fail [of api rt q p pre s post m] h
    by (simp add: onError_def newError_def)
  have f11: "getTaskDueDateChanges api g
      = JObj [(''error'', JStr (''Failed to fetch due date changes: Error: Failed to fetch task: '' @ m)),
          (''changeCount'', JNum 0),
          (''changes'', JArr [])]"
    if h: "tasksApi_getTask api g = Inl m"
    using getTaskDueDateChanges_fails(1) [OF h]
    by (simp add: onError_def newError_def)
  have f12: "getTaskDueDateChanges api g
      = JObj [(''error'', JStr (''Failed to fetch due date changes: Error: Failed to fetch task stories: '' @ m)),
          (''changeCount'', JNum 0),
          (''changes'', JArr [])]"
    if h: "tasksApi_getTask api g = Inr task \<and> storiesApi_getStoriesForTask api g = Inl m"
    using getTaskDueDateChanges_fails(2) [of api g task m] h
    by (simp add: onError_def newError_def)
  have f13: "getTasksAssignedTo api rt who ex limit
      = JObj [(''error'', JStr (''Failed to fetch tasks for user '' @ who @ '': Error: Failed to fetch tasks: '' @ m)),
          (''count'', JNum 0),
          (''tasks'', JArr [])]"
    if h: "tasksApi_getTasks api
          (noFilter\<lparr>q_assignee := Some who,
                     q_completed_since := (if ex then Some (nowIso rt) else None)\<rparr>) = Inl m"
    using getTasksAssignedTo_fails [OF h]
    by (simp add: onError_def newError_def)
  have s1: "field ''error'' (getMostPostponedTasks api limit) = JUndefined
            \<and> tasksWithChanges api (incompleteWithDue tasks)
              = tasksWithChanges api (filter (historyFetched api) (incompleteWithDue tasks))"
    if h: "tasksApi_getTasks api noFilter = Inr tasks"
    using getMostPostponedTasks_fetched [OF h, of limit]
    by (simp add: tasksWithChanges_skips_failures)
  have s2: "field ''error'' (getRecentDueDateChanges api rt days) = JUndefined
            \<and> recentChanges api (cutoffIso rt days) tasks
              = recentChanges api (cutoffIso rt days) (filter (historyFetched api) tasks)"
    if h: "tasksApi_getTasks api (noFilter\<lparr>q_modified_since := Some (cutoffIso rt days)\<rparr>) = Inr tasks"
    using getRecentDueDateChanges_fetched [OF h]
    by (simp add: recentChanges_skips_failures)
  have g1: "toolBoundary tool (Inl e)
     = JObj ((''error'', JStr (errorPrefix tool @ errorString e)) # errorExtras tool)"
    by (simp add: onError_def)
  have g2: "(zeroCounts (toolBoundary tool (Inl e)) = [])
        = (tool \<in> {Get_me, Get_project_status, Get_section_with_most_work,
                    Get_most_postponed_tasks, Get_recent_due_date_changes})"
    using zeroCounts_onError_empty [of tool e] by simp
  have g3: "(emptyCollections (toolBoundary tool (Inl e)) = [])
        = (tool \<in> {Get_me, Get_project_status, Get_section_with_most_work})"
    using emptyCollections_onError_empty [of tool e] by simp
  show ?thesis
    by (intro conjI; (rule impI)?; (rule f1 f2 f3 f4 f5 f6 f7 f8 f9 f10 f11 f12 f13 s1 s2 g1 g2 g3; assumption?))
qed

lemma findProjectByName_sectionsDown:
  "findProjectByName sectionsDownApi demoRuntime ''Marketing''
     = Inr (Some \<lparr>project_gid = ''p1'', project_name = ''Marketing''\<rparr>)"
  by (simp add: findProjectByName_def getWorkspaceProjects_def rethrow_def sectionsDownApi_def
      demoApi_def demoProjects_def lower_demo)

lemma findProjectByName_sectionTasksDown:
  "findProjectByName sectionTasksDownApi demoRuntime ''Marketing''
     = Inr (Some \<lparr>project_gid = ''p1'', project_name = ''Marketing''\<rparr>)"
  by (simp add: findProjectByName_def getWorkspaceProjects_def rethrow_def sectionTasksDownApi_def
      demoApi_def demoProjects_def lower_demo)

lemma demo_t5_history:
  "getTaskStories demoApi (task_gid (mkTask ''t5'' ''Release'' False None (Some ''2024-02-01'') (Some alice)))
     = Inl (Error ''Error'' ''Failed to fetch task stories: timeout'')"
  by (simp add: getTaskStories_def rethrow_def newError_def demoApi_def demoStories_def mkTask_def)

lemma demo_t5_incompleteWithDue:
  "mkTask ''t5'' ''Release'' False None (Some ''2024-02-01'') (Some alice) \<in> set (incompleteWithDue demoTasks)"
  by (simp add: demo_incompleteWithDue)

theorem tools_catch_client_errors_witness:
  "tasksApi_getTasks failingApi noFilter = Inl ''timeout''
   \<and> tasksApi_getTasks failingApi (noFilter\<lparr>q_assignee := None\<rparr>) = Inl ''timeout''
   \<and> tasksApi_getTasks failingApi
       (noFilter\<lparr>q_completed_since := Some (todayStart demoRuntime), q_assignee := None\<rparr>)
     = Inl ''timeout''
   \<and> tasksApi_getTasks failingApi
       (noFilter\<lparr>q_modified_since := Some (todayStart demoRuntime), q_assignee := None\<rparr>)
     = Inl ''timeout''
   \<and> tasksApi_getTasks failingApi
       (noFilter\<lparr>q_assignee := Some ''u1'',
                  q_completed_since := (if True then Some (nowIso demoRuntime) else None)\<rparr>)
     = Inl ''timeout''
   \<and> tasksApi_getTasks failingApi (noFilter\<lparr>q_modified_since := Some (cutoffIso demoRuntime 7)\<rparr>)
     = Inl ''timeout''
   \<and> usersApi_getUsersForWorkspace failingApi = Inl ''timeout''
   \<and> usersApi_getUser failingApi = Inl ''timeout''
   \<and> projectsApi_getProjects failingApi = Inl ''timeout''
   \<and> tasksApi_getTask failingApi ''t1'' = Inl ''timeout''
   \<and> getUnassignedTasks failingApi True
     = JObj [(''error'', JStr ''Failed to fetch unassigned tasks: Error: Failed to fetch tasks: timeout''),
               (''count'', JNum 0),
               (''tasks'', JArr [])]
   \<and> searchTasksByName failingApi demoRuntime ''report'' True
     = JObj [(''error'', JStr ''Failed to search tasks: Error: Failed to fetch tasks: timeout''),
               (''count'', JNum 0),
               (''tasks'', JArr [])]
   \<and> getTeamWorkload failingApi demoRuntime False
     = JObj [(''error'', JStr ''Failed to analyze team workload: Error: Failed to fetch tasks: timeout''),
               (''teamMembers'', JNum 0),
               (''workload'', JArr [])]
   \<and> getOverdueTasksByPerson failingApi demoRuntime
     = JObj [(''error'', JStr ''Failed to fetch overdue tasks: Error: Failed to fetch tasks: timeout''),
               (''totalOverdue'', JNum 0),
               (''byPerson'', JArr [])]
   \<and> getMostPostponedTasks failingApi 10
     = JObj [(''error'', JStr ''Failed to analyze postponed tasks: Error: Failed to fetch tasks: timeout''),
               (''tasks'', JArr [])]
   \<and> getTasksDueToday failingApi demoRuntime None True
     = JObj [(''error'', JStr ''Failed to fetch tasks due today: Error: Failed to fetch tasks: timeout''),
               (''count'', JNum 0),
               (''tasks'', JArr [])]
   \<and> getOverdueTasks failingApi demoRuntime None
     = JObj [(''error'', JStr ''Failed to fetch overdue tasks: Error: Failed to fetch tasks: timeout''),
               (''count'', JNum 0),
               (''tasks'', JArr [])]
   \<and> getTasksWithoutDueDates failingApi True None
     = JObj [(''error'', JStr ''Failed to fetch tasks without due dates: Error: Failed to fetch tasks: timeout''),
               (''count'', JNum 0),
               (''tasks'', JArr [])]
   \<and> getWeeklyPlannedTasks failingApi demoRuntime None True
     = JObj [(''error'', JStr ''Failed to fetch weekly tasks: Error: Failed to fetch tasks: timeout''),
               (''count'', JNum 0),
               (''tasks'', JArr [])]
   \<and> getTasksCompletedToday failingApi demoRuntime None
     = JObj [(''error'', JStr ''Failed to fetch completed tasks: Error: Failed to fetch tasks: timeout''),
               (''count'', JNum 0),
               (''tasks'', JArr [])]
   \<and> getTasksUpdatedToday failingApi demoRuntime None False
     = JObj [(''error'', JStr ''Failed to fetch updated tasks: Error: Failed to fetch tasks: timeout''),
               (''count'', JNum 0),
               (''tasks'', JArr [])]
   \<and> getTasksAssignedTo failingApi demoRuntime ''u1'' True 10
     = JObj [(''error'', JStr ''Failed to fetch tasks for user u1: Error: Failed to fetch tasks: timeout''),
               (''count'', JNum 0),
               (''tasks'', JArr [])]
   \<and> getRecentDueDateChanges failingApi demoRuntime 7
     = JObj [(''error'', JStr ''Failed to fetch recent due date changes: Error: Failed to fetch tasks: timeout''),
               (''tasks'', JArr [])]
   \<and> getWorkspaceUsersTool failingApi
     = JObj [(''error'', JStr ''Failed to fetch workspace users: Error: Failed to fetch workspace users: timeout''),
               (''count'', JNum 0),
               (''users'', JArr [])]
   \<and> searchUsersTool failingApi demoRuntime ''ali''
     = JObj [(''error'', JStr ''Failed to search users: Error: Failed to fetch workspace users: timeout''),
               (''count'', JNum 0),
               (''users'', JArr [])]
   \<and> getMeTool failingApi
     = JObj [(''error'', JStr ''Failed to fetch current user: Error: Failed to fetch current user: timeout'')]
   \<and> getProjectStatus failingApi demoRuntime ''Marketing''
     = JObj [(''error'', JStr ''Failed to analyze project status: Error: Failed to fetch workspace projects: timeout'')]
   \<and> getSectionWithMostWork failingApi demoRuntime ''Marketing''
     = JObj [(''error'', JStr ''Failed to analyze section workload: Error: Failed to fetch workspace projects: timeout'')]
   \<and> listAllProjects failingApi
     = JObj [(''error'', JStr ''Failed to list projects: Error: Failed to fetch workspace projects: timeout''),
               (''count'', JNum 0),
               (''projects'', JArr [])]
   \<and> getTaskDueDateChanges failingApi ''t1''
     = JObj [(''error'', JStr ''Failed to fetch due date changes: Error: Failed to fetch task: timeout''),
               (''changeCount'', JNum 0),
               (''changes'', JArr [])]
   \<and> findProjectByName sectionsDownApi demoRuntime ''Marketing'' = Inr (Some \<lparr>project_gid = ''p1'', project_name = ''Marketing''\<rparr>)
   \<and> sectionsApi_getSectionsForProject sectionsDownApi ''p1'' = Inl ''timeout''
   \<and> getProjectStatus sectionsDownApi demoRuntime ''Marketing''
     = JObj [(''error'', JStr ''Failed to analyze project status: Error: Failed to fetch project sections: timeout'')]
   \<and> getSectionWithMostWork sectionsDownApi demoRuntime ''Marketing''
     = JObj [(''error'', JStr ''Failed to analyze section workload: Error: Failed to fetch project sections: timeout'')]
   \<and> findProjectByName sectionTasksDownApi demoRuntime ''Marketing'' = Inr (Some \<lparr>project_gid = ''p1'', project_name = ''Marketing''\<rparr>)
   \<and> sectionsApi_getSectionsForProject sectionTasksDownApi ''p1''
     = Inr ([\<lparr>section_gid = ''c1'', section_name = ''Doing''\<rparr>] @ \<lparr>section_gid = ''c2'', section_name = ''Done''\<rparr> # [])
   \<and> tasksApi_getTasksForSection sectionTasksDownApi (section_gid (\<lparr>section_gid = ''c1'', section_name = ''Doing''\<rparr>))
     = Inr demoTasks
   \<and> tasksApi_getTasksForSection sectionTasksDownApi ''c2'' = Inl ''timeout''
   \<and> getProjectStatus sectionTasksDownApi demoRuntime ''Marketing''
     = JObj [(''error'', JStr ''Failed to analyze project status: Error: Failed to fetch section tasks: timeout'')]
   \<and> getSectionWithMostWork sectionTasksDownApi demoRuntime ''Marketing''
     = JObj [(''error'', JStr ''Failed to analyze section workload: Error: Failed to fetch section tasks: timeout'')]
   \<and> tasksApi_getTask demoApi ''t5'' = Inr (mkTask ''t5'' ''Write report'' False None (Some ''2024-01-10'') (Some alice))
   \<and> storiesApi_getStoriesForTask demoApi ''t5'' = Inl ''timeout''
   \<and> tasksApi_getTasks demoApi noFilter = Inr demoTasks
   \<and> tasksApi_getTasks demoApi (noFilter\<lparr>q_modified_since := Some (cutoffIso demoRuntime 7)\<rparr>)
     = Inr demoTasks
   \<and> mkTask ''t5'' ''Release'' False None (Some ''2024-02-01'') (Some alice) \<in> set (incompleteWithDue demoTasks)
   \<and> getTaskStories demoApi (task_gid (mkTask ''t5'' ''Release'' False None (Some ''2024-02-01'') (Some alice)))
     = Inl (Error ''Error'' ''Failed to fetch task stories: timeout'')
   \<and> getTaskDueDateChanges demoApi ''t5''
     = JObj [(''error'', JStr ''Failed to fetch due date changes: Error: Failed to fetch task stories: timeout''),
               (''changeCount'', JNum 0),
               (''changes'', JArr [])]
   \<and> field ''error'' (getMostPostponedTasks demoApi 10)
     = JUndefined
   \<and> field ''error'' (getRecentDueDateChanges demoApi demoRuntime 7)
     = JUndefined
   \<and> zeroCounts (toolBoundary Get_project_status (Inl (Error ''TypeError'' ''x is undefined'')))
     = []
   \<and> toolBoundary Get_section_with_most_work (Inl (Error ''TypeError'' ''x is undefined''))
     = JObj [(''error'', JStr ''Failed to analyze section workload: TypeError: x is undefined'')]"
proof -
  have h1: "tasksApi_getTasks failingApi noFilter = Inl ''timeout''"
    by (simp add: failingApi_def)
  have h2: "tasksApi_getTasks failingApi (noFilter\<lparr>q_assignee := None\<rparr>) = Inl ''timeout''"
    by (simp add: failingApi_def)
  have h3: "tasksApi_getTasks failingApi
         (noFilter\<lparr>q_completed_since := Some (todayStart demoRuntime), q_assignee := None\<rparr>)
       = Inl ''timeout''"
    by (simp add: failingApi_def)
  have h4: "tasksApi_getTasks failingApi
         (noFilter\<lparr>q_modified_since := Some (todayStart demoRuntime), q_assignee := None\<rparr>)
       = Inl ''timeout''"
    by (simp add: failingApi_def)
  have h5: "tasksApi_getTasks failingApi
         (noFilter\<lparr>q_assignee := Some ''u1'',
                    q_completed_since := (if True then Some (nowIso demoRuntime) else None)\<rparr>)
       = Inl ''timeout''"
    by (simp add: failingApi_def)
  have h6: "tasksApi_getTasks failingApi (noFilter\<lparr>q_modified_since := Some (cutoffIso demoRuntime 7)\<rparr>)
       = Inl ''timeout''"
    by (simp add: failingApi_def)
  have h7: "usersApi_getUsersForWorkspace failingApi = Inl ''timeout''"
    by (simp add: failingApi_def)
  have h8: "usersApi_getUser failingApi = Inl ''timeout''"
    by (simp add: failingApi_def)
  have h9: "projectsApi_getProjects failingApi = Inl ''timeout''"
    by (simp add: failingApi_def)
  have h10: "tasksApi_getTask failingApi ''t1'' = Inl ''timeout''"
    by (simp add: failingApi_def)
  have k1: "findProjectByName sectionsDownApi demoRuntime ''Marketing'' = Inr (Some \<lparr>project_gid = ''p1'', project_name = ''Marketing''\<rparr>)"
    by (rule findProjectByName_sectionsDown)
  have k2: "sectionsApi_getSectionsForProject sectionsDownApi ''p1'' = Inl ''timeout''"
    by (simp add: sectionsDownApi_def)
  have l1: "findProjectByName sectionTasksDownApi demoRuntime ''Marketing'' = Inr (Some \<lparr>project_gid = ''p1'', project_name = ''Marketing''\<rparr>)"
    by (rule findProjectByName_sectionTasksDown)
  have l2: "sectionsApi_getSectionsForProject sectionTasksDownApi ''p1''
       = Inr ([\<lparr>section_gid = ''c1'', section_name = ''Doing''\<rparr>] @ \<lparr>section_gid = ''c2'', section_name = ''Done''\<rparr> # [])"
    by (simp add: sectionTasksDownApi_def)
  have l3: "tasksApi_getTasksForSection sectionTasksDownApi (section_gid (\<lparr>section_gid = ''c1'', section_name = ''Doing''\<rparr>))
       = Inr demoTasks"
    by (simp add: sectionTasksDownApi_def)
  have l4: "tasksApi_getTasksForSection sectionTasksDownApi ''c2'' = Inl ''timeout''"
    by (simp add: sectionTasksDownApi_def)
  have m1: "tasksApi_getTask demoApi ''t5'' = Inr (mkTask ''t5'' ''Write report'' False None (Some ''2024-01-10'') (Some alice))"
    by (simp add: demoApi_def)
  have m2: "storiesApi_getStoriesForTask demoApi ''t5'' = Inl ''timeout''"
    by (simp add: demoApi_def demoStories_def)
  have m3: "tasksApi_getTasks demoApi noFilter = Inr demoTasks"
    by (simp add: demoApi_def)
  have m4: "tasksApi_getTasks demoApi (noFilter\<lparr>q_modified_since := Some (cutoffIso demoRuntime 7)\<rparr>)
       = Inr demoTasks"
    by (simp add: demoApi_def)
  have m5: "mkTask ''t5'' ''Release'' False None (Some ''2024-02-01'') (Some alice) \<in> set (incompleteWithDue demoTasks)"
    by (rule demo_t5_incompleteWithDue)
  have m6: "getTaskStories demoApi (task_gid (mkTask ''t5'' ''Release'' False None (Some ''2024-02-01'') (Some alice)))
       = Inl (Error ''Error'' ''Failed to fetch task stories: timeout'')"
    by (rule demo_t5_history)
  note failing = tools_catch_client_errors [where api = failingApi and rt = demoRuntime
        and a = None and m = "''timeout''" and ex = True and inc = False and limit = 10
        and sq = "''report''" and query = "''ali''" and q = "''Marketing''" and who = "''u1''"
        and days = 7 and g = "''t1''"
        and p = "\<lparr>project_gid = ''p1'', project_name = ''Marketing''\<rparr>"
        and pre = "[\<lparr>section_gid = ''c1'', section_name = ''Doing''\<rparr>]"
        and s = "\<lparr>section_gid = ''c2'', section_name = ''Done''\<rparr>" and post = "[]"
        and task = "mkTask ''t5'' ''Write report'' False None (Some ''2024-01-10'') (Some alice)"
        and tasks = demoTasks and tool = Get_project_status
        and e = "Error ''TypeError'' ''x is undefined''"]
  note sections = tools_catch_client_errors [where api = sectionsDownApi and rt = demoRuntime
        and a = None and m = "''timeout''" and ex = True and inc = False and limit = 10
        and sq = "''report''" and query = "''ali''" and q = "''Marketing''" and who = "''u1''"
        and days = 7 and g = "''t1''"
        and p = "\<lparr>project_gid = ''p1'', project_name = ''Marketing''\<rparr>"
        and pre = "[\<lparr>section_gid = ''c1'', section_name = ''Doing''\<rparr>]"
        and s = "\<lparr>section_gid = ''c2'', section_name = ''Done''\<rparr>" and post = "[]"
        and task = "mkTask ''t5'' ''Write report'' False None (Some ''2024-01-10'') (Some alice)"
        and tasks = demoTasks and tool = Get_section_with_most_work
        and e = "Error ''TypeError'' ''x is undefined''"]
  note sectionTasks = tools_catch_client_errors [where api = sectionTasksDownApi
        and rt = demoRuntime and a = None and m = "''timeout''" and ex = True and inc = False
        and limit = 10 and sq = "''report''" and query = "''ali''" and q = "''Marketing''"
        and who = "''u1''" and days = 7 and g = "''t1''"
        and p = "\<lparr>project_gid = ''p1'', project_name = ''Marketing''\<rparr>"
        and pre = "[\<lparr>section_gid = ''c1'', section_name = ''Doing''\<rparr>]"
        and s = "\<lparr>section_gid = ''c2'', section_name = ''Done''\<rparr>" and post = "[]"
        and task = "mkTask ''t5'' ''Write report'' False None (Some ''2024-01-10'') (Some alice)"
        and tasks = demoTasks and tool = Get_project_status
        and e = "Error ''TypeError'' ''x is undefined''"]
  note stories = tools_catch_client_errors [where api = demoApi and rt = demoRuntime
        and a = None and m = "''timeout''" and ex = True and inc = False and limit = 10
        and sq = "''report''" and query = "''ali''" and q = "''Marketing''" and who = "''u1''"
        and days = 7 and g = "''t5''"
        and p = "\<lparr>project_gid = ''p1'', project_name = ''Marketing''\<rparr>"
        and pre = "[\<lparr>section_gid = ''c1'', section_name = ''Doing''\<rparr>]"
        and s = "\<lparr>section_gid = ''c2'', section_name = ''Done''\<rparr>" and post = "[]"
        and task = "mkTask ''t5'' ''Write report'' False None (Some ''2024-01-10'') (Some alice)"
        and tasks = demoTasks and tool = Get_project_status
        and e = "Error ''TypeError'' ''x is undefined''"]
  have r1: "getUnassignedTasks failingApi True
       = JObj [(''error'', JStr ''Failed to fetch unassigned tasks: Error: Failed to fetch tasks: timeout''),
                 (''count'', JNum 0),
                 (''tasks'', JArr [])]
     \<and> searchTasksByName failingApi demoRuntime ''report'' True
       = JObj [(''error'', JStr ''Failed to search tasks: Error: Failed to fetch tasks: timeout''),
                 (''count'', JNum 0),
                 (''tasks'', JArr [])]
     \<and> getTeamWorkload failingApi demoRuntime False
       = JObj [(''error'', JStr ''Failed to analyze team workload: Error: Failed to fetch tasks: timeout''),
                 (''teamMembers'', JNum 0),
                 (''workload'', JArr [])]
     \<and> getOverdueTasksByPerson failingApi demoRuntime
       = JObj [(''error'', JStr ''Failed to fetch overdue tasks: Error: Failed to fetch tasks: timeout''),
                 (''totalOverdue'', JNum 0),
                 (''byPerson'', JArr [])]
     \<and> getMostPostponedTasks failingApi 10
       = JObj [(''error'', JStr ''Failed to analyze postponed tasks: Error: Failed to fetch tasks: timeout''),
                 (''tasks'', JArr [])]
     \<and> getTasksDueToday failingApi demoRuntime None True
       = JObj [(''error'', JStr ''Failed to fetch tasks due today: Error: Failed to fetch tasks: timeout''),
                 (''count'', JNum 0),
                 (''tasks'', JArr [])]
     \<and> getOverdueTasks failingApi demoRuntime None
       = JObj [(''error'', JStr ''Failed to fetch overdue tasks: Error: Failed to fetch tasks: timeout''),
                 (''count'', JNum 0),
                 (''tasks'', JArr [])]
     \<and> getTasksWithoutDueDates failingApi True None
       = JObj [(''error'', JStr ''Failed to fetch tasks without due dates: Error: Failed to fetch tasks: timeout''),
                 (''count'', JNum 0),
                 (''tasks'', JArr [])]
     \<and> getWeeklyPlannedTasks failingApi demoRuntime None True
       = JObj [(''error'', JStr ''Failed to fetch weekly tasks: Error: Failed to fetch tasks: timeout''),
                 (''count'', JNum 0),
                 (''tasks'', JArr [])]
     \<and> getTasksCompletedToday failingApi demoRuntime None
       = JObj [(''error'', JStr ''Failed to fetch completed tasks: Error: Failed to fetch tasks: timeout''),
                 (''count'', JNum 0),
                 (''tasks'', JArr [])]
     \<and> getTasksUpdatedToday failingApi demoRuntime None False
       = JObj [(''error'', JStr ''Failed to fetch updated tasks: Error: Failed to fetch tasks: timeout''),
                 (''count'', JNum 0),
                 (''tasks'', JArr [])]
     \<and> getTasksAssignedTo failingApi demoRuntime ''u1'' True 10
       = JObj [(''error'', JStr ''Failed to fetch tasks for user u1: Error: Failed to fetch tasks: timeout''),
                 (''count'', JNum 0),
                 (''tasks'', JArr [])]
     \<and> getRecentDueDateChanges failingApi demoRuntime 7
       = JObj [(''error'', JStr ''Failed to fetch recent due date changes: Error: Failed to fetch tasks: timeout''),
                 (''tasks'', JArr [])]
     \<and> getWorkspaceUsersTool failingApi
       = JObj [(''error'', JStr ''Failed to fetch workspace users: Error: Failed to fetch workspace users: timeout''),
                 (''count'', JNum 0),
                 (''users'', JArr [])]
     \<and> searchUsersTool failingApi demoRuntime ''ali''
       = JObj [(''error'', JStr ''Failed to search users: Error: Failed to fetch workspace users: timeout''),
                 (''count'', JNum 0),
                 (''users'', JArr [])]
     \<and> getMeTool failingApi
       = JObj [(''error'', JStr ''Failed to fetch current user: Error: Failed to fetch current user: timeout'')]
     \<and> getProjectStatus failingApi demoRuntime ''Marketing''
       = JObj [(''error'', JStr ''Failed to analyze project status: Error: Failed to fetch workspace projects: timeout'')]
     \<and> getSectionWithMostWork failingApi demoRuntime ''Marketing''
       = JObj [(''error'', JStr ''Failed to analyze section workload: Error: Failed to fetch workspace projects: timeout'')]
     \<and> listAllProjects failingApi
       = JObj [(''error'', JStr ''Failed to list projects: Error: Failed to fetch workspace projects: timeout''),
                 (''count'', JNum 0),
                 (''projects'', JArr [])]
     \<and> getTaskDueDateChanges failingApi ''t1''
       = JObj [(''error'', JStr ''Failed to fetch due date changes: Error: Failed to fetch task: timeout''),
                 (''changeCount'', JNum 0),
                 (''changes'', JArr [])]"
    using failing h1 h2 h3 h4 h5 h6 h7 h8 h9 h10
    by simp
  have r2: "getProjectStatus sectionsDownApi demoRuntime ''Marketing''
       = JObj [(''error'', JStr ''Failed to analyze project status: Error: Failed to fetch project sections: timeout'')]
     \<and> getSectionWithMostWork sectionsDownApi demoRuntime ''Marketing''
       = JObj [(''error'', JStr ''Failed to analyze section workload: Error: Failed to fetch project sections: timeout'')]"
    using sections k1 k2
    by simp
  have r3: "getProjectStatus sectionTasksDownApi demoRuntime ''Marketing''
       = JObj [(''error'', JStr ''Failed to analyze project status: Error: Failed to fetch section tasks: timeout'')]
     \<and> getSectionWithMostWork sectionTasksDownApi demoRuntime ''Marketing''
       = JObj [(''error'', JStr ''Failed to analyze section workload: Error: Failed to fetch section tasks: timeout'')]"
    using sectionTasks l1 l2 l3 l4
    by simp
  have r4: "getTaskDueDateChanges demoApi ''t5''
       = JObj [(''error'', JStr ''Failed to fetch due date changes: Error: Failed to fetch task stories: timeout''),
                 (''changeCount'', JNum 0),
                 (''changes'', JArr [])]
     \<and> field ''error'' (getMostPostponedTasks demoApi 10)
       = JUndefined
     \<and> field ''error'' (getRecentDueDateChanges demoApi demoRuntime 7)
       = JUndefined"
    using stories m1 m2 m3 m4
    by simp
  have r5: "zeroCounts (toolBoundary Get_project_status (Inl (Error ''TypeError'' ''x is undefined'')))
       = []
     \<and> toolBoundary Get_section_with_most_work (Inl (Error ''TypeError'' ''x is undefined''))
       = JObj [(''error'', JStr ''Failed to analyze section workload: TypeError: x is undefined'')]"
    using failing sections
    by (simp add: zeroCounts_def)
  show ?thesis
    by (intro conjI; (rule h1 h2 h3 h4 h5 h6 h7 h8 h9 h10 k1 k2 l1 l2 l3 l4 m1 m2 m3 m4 m5 m6)?;
        (simp only: r1 r2 r3 r4 r5)?)
qed

text \<open>
  With a vendor API that fails, \<^verbatim>\<open>get_project_status\<close> returns the error message and
  nothing else, and \<^verbatim>\<open>get_most_postponed_tasks\<close> an empty array and no count. With a
  vendor API that gives the tasks and fails on the stories of the task \<^verbatim>\<open>t5\<close>, the
  client raises its error in the loop of \<^verbatim>\<open>get_most_postponed_tasks\<close>, and the result
  of the tool carries no error.
\<close>

theorem getProjectStatus_error_without_counts:
  "getProjectStatus failingApi demoRuntime ''Marketing''
     = JObj [(''error'', JStr ''Failed to analyze project status: Error: Failed to fetch workspace projects: timeout'')]
   \<and> zeroCounts (getProjectStatus failingApi demoRuntime ''Marketing'') = []
   \<and> emptyCollections (getProjectStatus failingApi demoRuntime ''Marketing'') = []
   \<and> getMostPostponedTasks failingApi 10
     = JObj [(''error'', JStr ''Failed to analyze postponed tasks: Error: Failed to fetch tasks: timeout''),
               (''tasks'', JArr [])]
   \<and> zeroCounts (getMostPostponedTasks failingApi 10) = []
   \<and> tasksApi_getTasks demoApi noFilter = Inr demoTasks
   \<and> mkTask ''t5'' ''Release'' False None (Some ''2024-02-01'') (Some alice) \<in> set (incompleteWithDue demoTasks)
   \<and> getTaskStories demoApi (task_gid (mkTask ''t5'' ''Release'' False None (Some ''2024-02-01'') (Some alice)))
     = Inl (Error ''Error'' ''Failed to fetch task stories: timeout'')
   \<and> field ''error'' (getMostPostponedTasks demoApi 10) = JUndefined"
proof -
  have a1: "getProjectStatus failingApi demoRuntime ''Marketing''
       = JObj [(''error'', JStr ''Failed to analyze project status: Error: Failed to fetch workspace projects: timeout'')]"
    and a2: "zeroCounts (getProjectStatus failingApi demoRuntime ''Marketing'') = []"
    and a3: "emptyCollections (getProjectStatus failingApi demoRuntime ''Marketing'') = []"
    and a4: "getMostPostponedTasks failingApi 10
       = JObj [(''error'', JStr ''Failed to analyze postponed tasks: Error: Failed to fetch tasks: timeout''),
                 (''tasks'', JArr [])]"
    and a5: "zeroCounts (getMostPostponedTasks failingApi 10) = []"
    by (simp_all add: getProjectStatus_def getProjectStatus_try_def findProjectByName_def
        getWorkspaceProjects_def getMostPostponedTasks_def getMostPostponedTasks_try_def
        getTasks_def rethrow_def newError_def failingApi_def onError_def zeroCounts_def
        emptyCollections_def)
  have b: "tasksApi_getTasks demoApi noFilter = Inr demoTasks"
    by (simp add: demoApi_def)
  have c: "field ''error'' (getMostPostponedTasks demoApi 10) = JUndefined"
    using getMostPostponedTasks_fetched [OF b] by simp
  show ?thesis
    by (intro conjI; (rule a1 a2 a3 a4 a5 b c demo_t5_incompleteWithDue demo_t5_history))
qed

end
